theory Spec2Isabelle
  imports Main "HOL-Library.Log_Nat"
begin

section \<open>Declaration attributes of the SYCL FPGA and work-group families\<close>

text \<open>
  This theory embeds the part of \<^verbatim>\<open>clang/lib/Sema/SemaDeclAttr.cpp\<close> that validates,
  merges and attaches the attributes \<^verbatim>\<open>reqd_work_group_size\<close>, \<^verbatim>\<open>max_work_group_size\<close>,
  \<^verbatim>\<open>num_simd_work_items\<close>, \<^verbatim>\<open>bank_width\<close>, \<^verbatim>\<open>numbanks\<close>, \<^verbatim>\<open>bank_bits\<close>,
  \<^verbatim>\<open>fpga_memory\<close> and \<^verbatim>\<open>fpga_register\<close>.  Every function below carries the name of
  the C++ function it is translated from.  A call of \<^verbatim>\<open>Diag\<close> becomes one element of
  the list of diagnostics that a function returns, \<^verbatim>\<open>D->addAttr\<close> appends to the
  declaration's attribute list, and every early \<^verbatim>\<open>return\<close> is a branch that returns
  the declaration as it then is.
\<close>

subsection \<open>Expressions\<close>

text \<open>
  An attribute argument is an expression.  The code observes four things about it:
  whether it is value-dependent, whether it folds to an integer constant, the value it
  folds to, and whether it has already been wrapped into a \<^verbatim>\<open>ConstantExpr\<close>
  (\<^verbatim>\<open>dyn_cast<ConstantExpr>\<close>).  Values are mathematical integers; the places where
  the code narrows a value to a machine type are written out where they occur.
\<close>

datatype Expr =
    ValueDependent nat
  | IntegerLiteral int
  | ConstantExpr int
  | NonConstant

fun isValueDependent :: "Expr \<Rightarrow> bool" where
  "isValueDependent (ValueDependent n) = True"
| "isValueDependent e = False"

text \<open>\<^verbatim>\<open>dyn_cast<ConstantExpr>(E)\<close> followed by \<^verbatim>\<open>getResultAsAPSInt()\<close>.\<close>

fun dyn_cast_ConstantExpr :: "Expr \<Rightarrow> int option" where
  "dyn_cast_ConstantExpr (ConstantExpr v) = Some v"
| "dyn_cast_ConstantExpr e = None"

text \<open>
  Modelled from the spec: \<^verbatim>\<open>Sema::VerifyIntegerConstantExpression\<close> is defined in
  \<^verbatim>\<open>SemaExpr.cpp\<close>.  "Integer arguments are evaluated as compile-time constant
  expressions; failure to fold to a constant (and absence of dependency) is an
  ArgumentTypeError."  On success it yields the converted constant expression and its
  value; it is only ever called on expressions that are not value-dependent.
\<close>

fun VerifyIntegerConstantExpression :: "Expr \<Rightarrow> (Expr \<times> int) option" where
  "VerifyIntegerConstantExpression (IntegerLiteral v) = Some (ConstantExpr v, v)"
| "VerifyIntegerConstantExpression (ConstantExpr v) = Some (ConstantExpr v, v)"
| "VerifyIntegerConstantExpression e = None"

text \<open>
  Modelled from the spec: \<^verbatim>\<open>APInt::isPowerOf2\<close> belongs to the support library and
  is not part of \<^verbatim>\<open>SemaDeclAttr.cpp\<close>; the code's comment asks for "a single
  constant power of two greater than zero".  Exactly one bit of the value is set: the
  value is \<open>2 ^ k\<close> for the position \<open>k\<close> of its highest bit.
\<close>

definition isPowerOf2 :: "int \<Rightarrow> bool" where
  "isPowerOf2 v = (0 < v \<and> v = 2 ^ (floorlog 2 (nat v) - 1))"

text \<open>
  Modelled from the spec: \<^verbatim>\<open>APInt::ceilLogBase2\<close> belongs to the support library
  and is not part of \<^verbatim>\<open>SemaDeclAttr.cpp\<close>.  It is the base-2 logarithm rounded up,
  which relates the number of banks to the number of bank bits: the number of active
  bits of the value minus one.  A zero of the 32-bit literal type wraps to all ones,
  which has 32 active bits.
\<close>

definition ceilLogBase2 :: "int \<Rightarrow> nat" where
  "ceilLogBase2 v = (if v \<le> 0 then 32 else ceillog2 (nat v))"

subsection \<open>Attributes, declarations and diagnostics\<close>

datatype AttrKind =
    AT_SYCLReqdWorkGroupSize
  | AT_SYCLIntelMaxWorkGroupSize
  | AT_SYCLIntelNumSimdWorkItems
  | AT_SYCLIntelMaxGlobalWorkDim
  | AT_SYCLIntelBankWidth
  | AT_SYCLIntelNumBanks
  | AT_SYCLIntelBankBits
  | AT_SYCLIntelMemory
  | AT_SYCLIntelRegister
  | AT_CUDAGlobal
  | AT_NVPTXKernel
  | AT_NoDebug

datatype MemoryKind = Default | MLAB | BlockRAM

text \<open>
  A source location is the position of an attribute (\<^verbatim>\<open>CI.getLoc()\<close>), the position
  of the \<open>i\<close>-th argument of the attribute at a position (\<^verbatim>\<open>E->getExprLoc()\<close>), the
  empty location that an implicitly created attribute carries, or a position in the
  declaration itself (\<^verbatim>\<open>FD->getBeginLoc()\<close>, \<^verbatim>\<open>FD->getTypeSpecStartLoc()\<close>).
\<close>

datatype SourceLocation = AttrLoc nat | ExprLoc nat nat | NoLoc | DeclBeginLoc | DeclTypeSpecStartLoc

datatype AttrData =
    SYCLReqdWorkGroupSizeAttr Expr "Expr option" "Expr option"
  | SYCLIntelMaxWorkGroupSizeAttr Expr Expr Expr
  | SYCLIntelNumSimdWorkItemsAttr Expr
  | SYCLIntelMaxGlobalWorkDimAttr Expr
  | SYCLIntelBankWidthAttr Expr
  | SYCLIntelNumBanksAttr Expr
  | SYCLIntelBankBitsAttr "Expr list"
  | SYCLIntelMemoryAttr MemoryKind
  | SYCLIntelRegisterAttr
  | CUDAGlobalAttr
  | NVPTXKernelAttr
  | NoDebugAttr

fun getKind :: "AttrData \<Rightarrow> AttrKind" where
  "getKind (SYCLReqdWorkGroupSizeAttr x y z) = AT_SYCLReqdWorkGroupSize"
| "getKind (SYCLIntelMaxWorkGroupSizeAttr x y z) = AT_SYCLIntelMaxWorkGroupSize"
| "getKind (SYCLIntelNumSimdWorkItemsAttr e) = AT_SYCLIntelNumSimdWorkItems"
| "getKind (SYCLIntelMaxGlobalWorkDimAttr e) = AT_SYCLIntelMaxGlobalWorkDim"
| "getKind (SYCLIntelBankWidthAttr e) = AT_SYCLIntelBankWidth"
| "getKind (SYCLIntelNumBanksAttr e) = AT_SYCLIntelNumBanks"
| "getKind (SYCLIntelBankBitsAttr es) = AT_SYCLIntelBankBits"
| "getKind (SYCLIntelMemoryAttr k) = AT_SYCLIntelMemory"
| "getKind SYCLIntelRegisterAttr = AT_SYCLIntelRegister"
| "getKind CUDAGlobalAttr = AT_CUDAGlobal"
| "getKind NVPTXKernelAttr = AT_NVPTXKernel"
| "getKind NoDebugAttr = AT_NoDebug"

record Attr =
  data :: AttrData
  isImplicit :: bool
  getLoc :: SourceLocation

text \<open>An attribute written by the user at a position, and one created implicitly.\<close>

definition Create :: "nat \<Rightarrow> AttrData \<Rightarrow> Attr" where
  "Create l d = \<lparr>data = d, isImplicit = False, getLoc = AttrLoc l\<rparr>"

definition CreateImplicit :: "AttrData \<Rightarrow> Attr" where
  "CreateImplicit d = \<lparr>data = d, isImplicit = True, getLoc = NoLoc\<rparr>"

datatype DeclKind = Var | ParmVar | ImplicitParam | NonTypeTemplateParm | Field | Function

text \<open>
  A declaration: the properties that \<^verbatim>\<open>CheckValidFPGAMemoryAttributesVar\<close> reads, the
  properties of a function that \<^verbatim>\<open>handleGlobalAttr\<close> reads, and the attribute list.
\<close>

record Decl =
  isaVarDecl :: bool
  isaFieldDecl :: bool
  declKind :: DeclKind
  typeIsDeviceGlobal :: bool
  typeIsConstQualified :: bool
  typeInOpenCLConstant :: bool
  storageClassIsStatic :: bool
  hasLocalStorage :: bool
  returnTypeIsVoid :: bool
  returnTypeIsAuto :: bool
  returnTypeIsInstantiationDependent :: bool
  isaCXXMethodDecl :: bool
  isInstance :: bool
  isInlineSpecified :: bool
  attrs :: "Attr list"

record LangOptions =
  SYCLIsDevice :: bool
  SYCLIsHost :: bool
  CUDAIsDevice :: bool
  HIP :: bool

datatype DiagID =
    err_expr_not_ice
  | err_attribute_requires_positive_integer
  | err_attribute_argument_not_power_of_two
  | err_fpga_attribute_incorrect_variable
  | warn_duplicate_attribute
  | warn_duplicate_attribute_exact
  | err_duplicate_attribute
  | note_previous_attribute
  | err_conflicting_sycl_function_attributes
  | note_conflicting_attribute
  | err_sycl_num_kernel_wrong_reqd_wg_size
  | err_sycl_x_y_z_arguments_must_be_one
  | err_bankbits_non_consecutive
  | err_bankbits_numbanks_conflicting
  | err_intel_fpga_memory_arg_invalid
  | err_attribute_argument_out_of_range
  | err_attribute_too_few_arguments
  | err_attributes_are_not_compatible
  | err_kern_type_not_void_return
  | err_kern_is_nonstatic_method
  | warn_kern_is_method
  | warn_kern_is_inline

text \<open>
  What is streamed into a diagnostic: an attribute's name, a selector, the declaration,
  its type, or a fix-it hint.
\<close>

datatype DiagArg = Name AttrKind | Select nat | TheDecl | TheDeclType | FixItHint

datatype Diagnostic = Diag DiagID SourceLocation "DiagArg list"

fun diagID :: "Diagnostic \<Rightarrow> DiagID" where
  "diagID (Diag i l as) = i"

fun diagLoc :: "Diagnostic \<Rightarrow> SourceLocation" where
  "diagLoc (Diag i l as) = l"

fun diagArgs :: "Diagnostic \<Rightarrow> DiagArg list" where
  "diagArgs (Diag i l as) = as"

text \<open>A note continues the diagnostic before it; every other entry starts a new one.\<close>

fun isNote :: "Diagnostic \<Rightarrow> bool" where
  "isNote (Diag i l as) = (i = note_previous_attribute \<or> i = note_conflicting_attribute)"

definition primaryDiags :: "Diagnostic list \<Rightarrow> Diagnostic list" where
  "primaryDiags ds = filter (\<lambda>d. \<not> isNote d) ds"

text \<open>\<^verbatim>\<open>AttributeCommonInfo\<close>: the kind and the position of the attribute being added.\<close>

record AttributeCommonInfo =
  getParsedKind :: AttrKind
  ciLoc :: nat

subsection \<open>The attribute list of a declaration\<close>

text \<open>
  \<^verbatim>\<open>D->getAttr<T>()\<close> returns the first attribute of class \<open>T\<close>.  The class is given
  by its cast, a function that returns the payload of an attribute of that class.
\<close>

fun getSpecificAttr :: "(AttrData \<Rightarrow> 'a option) \<Rightarrow> Attr list \<Rightarrow> (Attr \<times> 'a) option" where
  "getSpecificAttr T [] = None"
| "getSpecificAttr T (a # as) =
     (case T (data a) of Some x \<Rightarrow> Some (a, x) | None \<Rightarrow> getSpecificAttr T as)"

definition getAttr :: "(AttrData \<Rightarrow> 'a option) \<Rightarrow> Decl \<Rightarrow> (Attr \<times> 'a) option" where
  "getAttr T D = getSpecificAttr T (attrs D)"

definition hasAttr :: "(AttrData \<Rightarrow> 'a option) \<Rightarrow> Decl \<Rightarrow> bool" where
  "hasAttr T D = (getAttr T D \<noteq> None)"

definition dropAttr :: "(AttrData \<Rightarrow> 'a option) \<Rightarrow> Decl \<Rightarrow> Decl" where
  "dropAttr T D = D\<lparr>attrs := filter (\<lambda>a. T (data a) = None) (attrs D)\<rparr>"

definition addAttr :: "Attr \<Rightarrow> Decl \<Rightarrow> Decl" where
  "addAttr a D = D\<lparr>attrs := attrs D @ [a]\<rparr>"

fun castReqdWorkGroupSize :: "AttrData \<Rightarrow> (Expr \<times> Expr option \<times> Expr option) option" where
  "castReqdWorkGroupSize (SYCLReqdWorkGroupSizeAttr x y z) = Some (x, y, z)"
| "castReqdWorkGroupSize d = None"

fun castMaxWorkGroupSize :: "AttrData \<Rightarrow> (Expr \<times> Expr \<times> Expr) option" where
  "castMaxWorkGroupSize (SYCLIntelMaxWorkGroupSizeAttr x y z) = Some (x, y, z)"
| "castMaxWorkGroupSize d = None"

fun castNumSimdWorkItems :: "AttrData \<Rightarrow> Expr option" where
  "castNumSimdWorkItems (SYCLIntelNumSimdWorkItemsAttr e) = Some e"
| "castNumSimdWorkItems d = None"

fun castMaxGlobalWorkDim :: "AttrData \<Rightarrow> Expr option" where
  "castMaxGlobalWorkDim (SYCLIntelMaxGlobalWorkDimAttr e) = Some e"
| "castMaxGlobalWorkDim d = None"

fun castBankWidth :: "AttrData \<Rightarrow> Expr option" where
  "castBankWidth (SYCLIntelBankWidthAttr e) = Some e"
| "castBankWidth d = None"

fun castNumBanks :: "AttrData \<Rightarrow> Expr option" where
  "castNumBanks (SYCLIntelNumBanksAttr e) = Some e"
| "castNumBanks d = None"

fun castBankBits :: "AttrData \<Rightarrow> Expr list option" where
  "castBankBits (SYCLIntelBankBitsAttr es) = Some es"
| "castBankBits d = None"

fun castMemory :: "AttrData \<Rightarrow> MemoryKind option" where
  "castMemory (SYCLIntelMemoryAttr k) = Some k"
| "castMemory d = None"

fun castRegister :: "AttrData \<Rightarrow> unit option" where
  "castRegister SYCLIntelRegisterAttr = Some ()"
| "castRegister d = None"

fun castNoDebug :: "AttrData \<Rightarrow> unit option" where
  "castNoDebug NoDebugAttr = Some ()"
| "castNoDebug d = None"

text \<open>The attributes of one kind that a declaration carries, in order.\<close>

definition attrsOfKind :: "AttrKind \<Rightarrow> Decl \<Rightarrow> Attr list" where
  "attrsOfKind K D = filter (\<lambda>a. getKind (data a) = K) (attrs D)"

subsection \<open>The FPGA memory attributes\<close>

text \<open>\<^verbatim>\<open>CheckValidFPGAMemoryAttributesVar\<close>: true if the attribute does not apply.\<close>

definition CheckValidFPGAMemoryAttributesVar :: "Decl \<Rightarrow> bool" where
  "CheckValidFPGAMemoryAttributesVar D =
     (if isaVarDecl D then
        \<not> (isaFieldDecl D \<or>
           (declKind D \<noteq> ImplicitParam \<and> declKind D \<noteq> NonTypeTemplateParm \<and>
            (typeIsDeviceGlobal D \<or> typeIsConstQualified D \<or> typeInOpenCLConstant D \<or>
             storageClassIsStatic D \<or> hasLocalStorage D)))
      else False)"

text \<open>
  The tail shared by the FPGA memory attributes: create the implicit
  \<^verbatim>\<open>fpga_memory\<close> attribute when the declaration has none.
\<close>

definition addImplicitMemory :: "Decl \<Rightarrow> Decl" where
  "addImplicitMemory D =
     (if \<not> hasAttr castMemory D then addAttr (CreateImplicit (SYCLIntelMemoryAttr Default)) D
      else D)"

definition AddSYCLIntelBankWidthAttr ::
  "LangOptions \<Rightarrow> Decl \<Rightarrow> AttributeCommonInfo \<Rightarrow> Expr \<Rightarrow> Decl \<times> Diagnostic list" where
  "AddSYCLIntelBankWidthAttr L D CI E =
     (if \<not> isValueDependent E then
        (case VerifyIntegerConstantExpression E of
           None \<Rightarrow> (D, [Diag err_expr_not_ice (ExprLoc (ciLoc CI) 0) []])
         | Some (E', ArgVal) \<Rightarrow>
             if ArgVal \<le> 0 then
               (D, [Diag err_attribute_requires_positive_integer (ExprLoc (ciLoc CI) 0)
                      [Name (getParsedKind CI), Select 0]])
             else if \<not> isPowerOf2 ArgVal then
               (D, [Diag err_attribute_argument_not_power_of_two (ExprLoc (ciLoc CI) 0)
                      [Name (getParsedKind CI)]])
             else if SYCLIsDevice L \<and> CheckValidFPGAMemoryAttributesVar D then
               (D, [Diag err_fpga_attribute_incorrect_variable (AttrLoc (ciLoc CI))
                      [Name (getParsedKind CI), Select 1]])
             else
               (case getAttr castBankWidth D of
                  Some (DeclAttr, DeclValue) \<Rightarrow>
                    (case dyn_cast_ConstantExpr DeclValue of
                       Some DeclVal \<Rightarrow>
                         if ArgVal \<noteq> DeclVal then
                           (D, [Diag warn_duplicate_attribute (AttrLoc (ciLoc CI))
                                  [Name (getParsedKind CI)],
                                Diag note_previous_attribute (getLoc DeclAttr) []])
                         else (D, [])
                     | None \<Rightarrow>
                         (addAttr (Create (ciLoc CI) (SYCLIntelBankWidthAttr E'))
                            (addImplicitMemory D), []))
                | None \<Rightarrow>
                    (addAttr (Create (ciLoc CI) (SYCLIntelBankWidthAttr E'))
                       (addImplicitMemory D), [])))
      else
        (addAttr (Create (ciLoc CI) (SYCLIntelBankWidthAttr E)) (addImplicitMemory D), []))"

text \<open>
  \<^verbatim>\<open>MergeSYCLIntelBankWidthAttr\<close>, used when a redeclaration brings the attribute \<open>A\<close>:
  the result is the attribute to add to \<open>D\<close>, if any.
\<close>

definition MergeSYCLIntelBankWidthAttr :: "Decl \<Rightarrow> Attr \<Rightarrow> Expr \<Rightarrow> Attr option \<times> Diagnostic list" where
  "MergeSYCLIntelBankWidthAttr D A AValue =
     (case getAttr castBankWidth D of
        Some (DeclAttr, DeclValue) \<Rightarrow>
          (case (dyn_cast_ConstantExpr DeclValue, dyn_cast_ConstantExpr AValue) of
             (Some DeclVal, Some MergeVal) \<Rightarrow>
               if DeclVal \<noteq> MergeVal then
                 (None, [Diag warn_duplicate_attribute (getLoc DeclAttr) [Name AT_SYCLIntelBankWidth],
                         Diag note_previous_attribute (getLoc A) []])
               else (Some (A\<lparr>data := SYCLIntelBankWidthAttr AValue\<rparr>), [])
           | _ \<Rightarrow> (Some (A\<lparr>data := SYCLIntelBankWidthAttr AValue\<rparr>), []))
      | None \<Rightarrow> (Some (A\<lparr>data := SYCLIntelBankWidthAttr AValue\<rparr>), []))"

text \<open>
  The last step of \<^verbatim>\<open>AddSYCLIntelNumBanksAttr\<close>: create the implicit memory attribute,
  drop an implicit \<^verbatim>\<open>numbanks\<close>, add the new one.
\<close>

definition attachNumBanks :: "Decl \<Rightarrow> AttributeCommonInfo \<Rightarrow> Expr \<Rightarrow> Decl" where
  "attachNumBanks D CI E =
     (let D1 = addImplicitMemory D;
          D2 = (case getAttr castNumBanks D1 of
                  Some (NBA, v) \<Rightarrow> if isImplicit NBA then dropAttr castNumBanks D1 else D1
                | None \<Rightarrow> D1)
      in addAttr (Create (ciLoc CI) (SYCLIntelNumBanksAttr E)) D2)"

definition AddSYCLIntelNumBanksAttr ::
  "LangOptions \<Rightarrow> Decl \<Rightarrow> AttributeCommonInfo \<Rightarrow> Expr \<Rightarrow> Decl \<times> Diagnostic list" where
  "AddSYCLIntelNumBanksAttr L D CI E =
     (if \<not> isValueDependent E then
        (case VerifyIntegerConstantExpression E of
           None \<Rightarrow> (D, [Diag err_expr_not_ice (ExprLoc (ciLoc CI) 0) []])
         | Some (E', ArgVal) \<Rightarrow>
             if ArgVal \<le> 0 then
               (D, [Diag err_attribute_requires_positive_integer (ExprLoc (ciLoc CI) 0)
                      [Name (getParsedKind CI), Select 0]])
             else if \<not> isPowerOf2 ArgVal then
               (D, [Diag err_attribute_argument_not_power_of_two (ExprLoc (ciLoc CI) 0)
                      [Name (getParsedKind CI)]])
             else if (case getAttr castBankBits D of
                        Some (BBA, BBArgs) \<Rightarrow> length BBArgs \<noteq> ceilLogBase2 ArgVal
                      | None \<Rightarrow> False) then
               (D, [Diag err_bankbits_numbanks_conflicting (ExprLoc (ciLoc CI) 0)
                      [Name (getParsedKind CI)]])
             else if SYCLIsDevice L \<and> CheckValidFPGAMemoryAttributesVar D then
               (D, [Diag err_fpga_attribute_incorrect_variable (AttrLoc (ciLoc CI))
                      [Name (getParsedKind CI), Select 1]])
             else
               (case getAttr castNumBanks D of
                  Some (DeclAttr, DeclValue) \<Rightarrow>
                    (case dyn_cast_ConstantExpr DeclValue of
                       Some DeclVal \<Rightarrow>
                         if ArgVal \<noteq> DeclVal then
                           (D, [Diag warn_duplicate_attribute (AttrLoc (ciLoc CI))
                                  [Name (getParsedKind CI)],
                                Diag note_previous_attribute (getLoc DeclAttr) []])
                         else (D, [])
                     | None \<Rightarrow> (attachNumBanks D CI E', []))
                | None \<Rightarrow> (attachNumBanks D CI E', [])))
      else (attachNumBanks D CI E, []))"

text \<open>\<^verbatim>\<open>handleSYCLIntelRegisterAttr\<close>; a parameter is never a subject of the attribute.\<close>

definition handleSYCLIntelRegisterAttr ::
  "LangOptions \<Rightarrow> Decl \<Rightarrow> AttributeCommonInfo \<Rightarrow> Decl \<times> Diagnostic list" where
  "handleSYCLIntelRegisterAttr L D A =
     (case getAttr castRegister D of
        Some (ExistingAttr, u) \<Rightarrow>
          if \<not> isImplicit ExistingAttr then
            (D, [Diag warn_duplicate_attribute_exact (AttrLoc (ciLoc A)) [Name (getParsedKind A)],
                 Diag note_previous_attribute (getLoc ExistingAttr) []])
          else if SYCLIsDevice L \<and> (declKind D = ParmVar \<or> CheckValidFPGAMemoryAttributesVar D) then
            (D, [Diag err_fpga_attribute_incorrect_variable (AttrLoc (ciLoc A))
                   [Name (getParsedKind A), Select 0]])
          else (addAttr (Create (ciLoc A) SYCLIntelRegisterAttr) D, [])
      | None \<Rightarrow>
          if SYCLIsDevice L \<and> (declKind D = ParmVar \<or> CheckValidFPGAMemoryAttributesVar D) then
            (D, [Diag err_fpga_attribute_incorrect_variable (AttrLoc (ciLoc A))
                   [Name (getParsedKind A), Select 0]])
          else (addAttr (Create (ciLoc A) SYCLIntelRegisterAttr) D, []))"

text \<open>
  \<^verbatim>\<open>handleSYCLIntelMemoryAttr\<close>.  The argument, when there is one, has been read as a
  string literal and converted by \<^verbatim>\<open>ConvertStrToMemoryKind\<close>, a table generated from
  the attribute's declaration; \<open>None\<close> stands for a string that the table does not hold.
\<close>

definition handleSYCLIntelMemoryAttr ::
  "LangOptions \<Rightarrow> Decl \<Rightarrow> AttributeCommonInfo \<Rightarrow> MemoryKind option option \<Rightarrow> Decl \<times> Diagnostic list" where
  "handleSYCLIntelMemoryAttr L D AL StrArg =
     (case (case StrArg of None \<Rightarrow> Some Default | Some r \<Rightarrow> r) of
        None \<Rightarrow> (D, [Diag err_intel_fpga_memory_arg_invalid (AttrLoc (ciLoc AL))
                       [Name (getParsedKind AL)]])
      | Some Kind \<Rightarrow>
          (case getAttr castMemory D of
             Some (MA, MAKind) \<Rightarrow>
               if \<not> isImplicit MA then
                 (if MAKind \<noteq> Kind then
                    (D, [Diag warn_duplicate_attribute (AttrLoc (ciLoc AL)) [Name (getParsedKind AL)],
                         Diag note_previous_attribute (getLoc MA) []])
                  else (D, []))
               else
                 (let D1 = dropAttr castMemory D in
                  if SYCLIsDevice L \<and> CheckValidFPGAMemoryAttributesVar D1 then
                    (D1, [Diag err_fpga_attribute_incorrect_variable (AttrLoc (ciLoc AL))
                            [Name (getParsedKind AL), Select 1]])
                  else (addAttr (Create (ciLoc AL) (SYCLIntelMemoryAttr Kind)) D1, []))
           | None \<Rightarrow>
               if SYCLIsDevice L \<and> CheckValidFPGAMemoryAttributesVar D then
                 (D, [Diag err_fpga_attribute_incorrect_variable (AttrLoc (ciLoc AL))
                        [Name (getParsedKind AL), Select 1]])
               else (addAttr (Create (ciLoc AL) (SYCLIntelMemoryAttr Kind)) D, [])))"

subsection \<open>The bank\_bits attribute\<close>

text \<open>
  Modelled from the spec: \<^verbatim>\<open>APSInt::getExtValue\<close> belongs to the support library and
  is not part of \<^verbatim>\<open>SemaDeclAttr.cpp\<close>.  It asserts that the value is representable in
  64 signed bits and returns the low 64 bits of the value; the result is stored in an
  \<^verbatim>\<open>int64_t\<close>.  Where assertions are compiled out, a value that is not representable
  (an unsigned constant from \<open>2 ^ 63\<close> on) is read in two's complement:
  \<open>2 ^ 64 - 1\<close> is read as \<open>-1\<close>.
\<close>

definition getExtValue :: "int \<Rightarrow> int" where
  "getExtValue v = (v + 2 ^ 63) mod 2 ^ 64 - 2 ^ 63"

text \<open>
  The first loop of \<^verbatim>\<open>AddSYCLIntelBankBitsAttr\<close>: every argument that is not
  value-dependent must be a non-negative integer constant.  The loop stops at the first
  argument that is not; otherwise it yields the converted arguments and their values as
  \<^verbatim>\<open>int64_t\<close> (\<open>0\<close>, the initial value of \<^verbatim>\<open>Value\<close>, for a value-dependent
  argument).
\<close>

fun convertBankBitsArgs ::
  "AttributeCommonInfo \<Rightarrow> nat \<Rightarrow> Expr list \<Rightarrow> Diagnostic list + (Expr list \<times> int list)" where
  "convertBankBitsArgs CI i [] = Inr ([], [])"
| "convertBankBitsArgs CI i (E # Es) =
     (if \<not> isValueDependent E then
        (case VerifyIntegerConstantExpression E of
           None \<Rightarrow> Inl [Diag err_expr_not_ice (ExprLoc (ciLoc CI) i) []]
         | Some (E', Value) \<Rightarrow>
             if \<not> 0 \<le> Value then
               Inl [Diag err_attribute_requires_positive_integer (ExprLoc (ciLoc CI) i)
                      [Name (getParsedKind CI), Select 1]]
             else
               (case convertBankBitsArgs CI (Suc i) Es of
                  Inl ds \<Rightarrow> Inl ds
                | Inr (Args, Values) \<Rightarrow> Inr (E' # Args, getExtValue Value # Values)))
      else
        (case convertBankBitsArgs CI (Suc i) Es of
           Inl ds \<Rightarrow> Inl ds
         | Inr (Args, Values) \<Rightarrow> Inr (E # Args, 0 # Values)))"

text \<open>
  The second loop: every value is its predecessor plus the step, which is \<open>1\<close> when
  the first value is below the second and \<open>-1\<close> otherwise.  The values and the sum are
  \<^verbatim>\<open>int64_t\<close>; a sum that leaves the range (which the language does not define) is
  taken in two's complement.
\<close>

fun stepsBy :: "int \<Rightarrow> int list \<Rightarrow> bool" where
  "stepsBy s (a # b # vs) = (b = getExtValue (a + s) \<and> stepsBy s (b # vs))"
| "stepsBy s vs = True"

definition ListIsConsecutive :: "int list \<Rightarrow> bool" where
  "ListIsConsecutive Values =
     (case Values of
        a # b # vs \<Rightarrow> stepsBy (if a < b then 1 else - 1) Values
      | _ \<Rightarrow> True)"

text \<open>
  Modelled from the spec: \<^verbatim>\<open>Expr::EvaluateAsInt\<close> is defined outside
  \<^verbatim>\<open>SemaDeclAttr.cpp\<close>; here it folds the value of an attached \<^verbatim>\<open>numbanks\<close>
  attribute that is not value-dependent, which is an integer literal or a constant
  expression.  An attached attribute never holds another expression; the comparison is
  skipped for one.
\<close>

fun EvaluateAsInt :: "Expr \<Rightarrow> int option" where
  "EvaluateAsInt (IntegerLiteral v) = Some v"
| "EvaluateAsInt (ConstantExpr v) = Some v"
| "EvaluateAsInt e = None"

text \<open>
  The value of the implicit \<^verbatim>\<open>numbanks\<close>: \<^verbatim>\<open>llvm::APInt Num(32, (unsigned)(1 << Args.size()))\<close>,
  a shift of the 32-bit \<^verbatim>\<open>int\<close> constant \<open>1\<close>.  For fewer than 32 arguments the value
  is \<open>2 ^ n\<close>.  With 32 or more arguments the language does not define the shift; the
  model takes what the shift instruction of the usual targets computes, which reads the
  low five bits of the count (so that 32 arguments give \<open>1\<close>).
\<close>

definition implicitNumBanks :: "nat \<Rightarrow> int" where
  "implicitNumBanks n = 2 ^ (n mod 32)"

definition AddSYCLIntelBankBitsAttr ::
  "LangOptions \<Rightarrow> Decl \<Rightarrow> AttributeCommonInfo \<Rightarrow> Expr list \<Rightarrow> Decl \<times> Diagnostic list" where
  "AddSYCLIntelBankBitsAttr L D CI Exprs =
     (case convertBankBitsArgs CI 0 Exprs of
        Inl ds \<Rightarrow> (D, ds)
      | Inr (Args, Values) \<Rightarrow>
          if \<not> list_ex isValueDependent Exprs \<and> 1 < length Values \<and> \<not> ListIsConsecutive Values then
            (D, [Diag err_bankbits_non_consecutive (AttrLoc (ciLoc CI)) [Name AT_SYCLIntelBankBits]])
          else
            (case getAttr castNumBanks D of
               Some (NBA, E) \<Rightarrow>
                 if \<not> isValueDependent E \<and>
                    (case EvaluateAsInt E of
                       Some Value \<Rightarrow> length Args \<noteq> ceilLogBase2 Value
                     | None \<Rightarrow> False) then
                   (D, [Diag err_bankbits_numbanks_conflicting (AttrLoc (ciLoc CI)) []])
                 else if SYCLIsDevice L \<and> CheckValidFPGAMemoryAttributesVar D then
                   (D, [Diag err_fpga_attribute_incorrect_variable (AttrLoc (ciLoc CI))
                          [Name (getParsedKind CI), Select 1]])
                 else
                   (addAttr (Create (ciLoc CI) (SYCLIntelBankBitsAttr Args))
                      (addImplicitMemory D), [])
             | None \<Rightarrow>
                 (let D1 = addAttr (CreateImplicit (SYCLIntelNumBanksAttr
                                      (IntegerLiteral (implicitNumBanks (length Args))))) D
                  in if SYCLIsDevice L \<and> CheckValidFPGAMemoryAttributesVar D1 then
                       (D1, [Diag err_fpga_attribute_incorrect_variable (AttrLoc (ciLoc CI))
                               [Name (getParsedKind CI), Select 1]])
                     else
                       (addAttr (Create (ciLoc CI) (SYCLIntelBankBitsAttr Args))
                          (addImplicitMemory D1), []))))"

text \<open>
  \<^verbatim>\<open>checkForDuplicateAttribute<SYCLIntelBankBitsAttr>\<close>: the warning it gives, and
  whether there is a duplicate.
\<close>

definition checkForDuplicateAttribute_BankBits ::
  "Decl \<Rightarrow> AttributeCommonInfo \<Rightarrow> bool \<times> Diagnostic list" where
  "checkForDuplicateAttribute_BankBits D A =
     (case getAttr castBankBits D of
        Some (B, es) \<Rightarrow>
          if \<not> isImplicit B then
            (True, [Diag warn_duplicate_attribute_exact (AttrLoc (ciLoc A)) [Name AT_SYCLIntelBankBits]])
          else (False, [])
      | None \<Rightarrow> (False, []))"

text \<open>
  \<^verbatim>\<open>handleSYCLIntelBankBitsAttr\<close>.  The handler does not use the result of the
  duplicate check.  \<^verbatim>\<open>checkAtLeastNumArgs(S, 1)\<close> diagnoses an empty argument list.
\<close>

definition handleSYCLIntelBankBitsAttr ::
  "LangOptions \<Rightarrow> Decl \<Rightarrow> AttributeCommonInfo \<Rightarrow> Expr list \<Rightarrow> Decl \<times> Diagnostic list" where
  "handleSYCLIntelBankBitsAttr L D A Args =
     (let ds = snd (checkForDuplicateAttribute_BankBits D A) in
      if length Args < 1 then
        (D, ds @ [Diag err_attribute_too_few_arguments (AttrLoc (ciLoc A)) [Name (getParsedKind A), Select 1]])
      else (let (D', ds') = AddSYCLIntelBankBitsAttr L D A Args in (D', ds @ ds')))"

subsection \<open>The work-group size attributes\<close>

datatype DupArgResult = Unknown | Same | Different

fun AreArgValuesIdentical :: "Expr option \<Rightarrow> Expr option \<Rightarrow> DupArgResult" where
  "AreArgValuesIdentical None None = Same"
| "AreArgValuesIdentical None (Some r) = Different"
| "AreArgValuesIdentical (Some l) None = Different"
| "AreArgValuesIdentical (Some l) (Some r) =
     (case (dyn_cast_ConstantExpr l, dyn_cast_ConstantExpr r) of
        (Some lv, Some rv) \<Rightarrow> if lv = rv then Same else Different
      | _ \<Rightarrow> Unknown)"

definition AnyWorkGroupSizesDiffer ::
  "Expr option \<Rightarrow> Expr option \<Rightarrow> Expr option \<Rightarrow> Expr option \<Rightarrow> Expr option \<Rightarrow> Expr option \<Rightarrow> bool" where
  "AnyWorkGroupSizesDiffer LHSXDim LHSYDim LHSZDim RHSXDim RHSYDim RHSZDim =
     (Different \<in> set [AreArgValuesIdentical LHSXDim RHSXDim,
                        AreArgValuesIdentical LHSYDim RHSYDim,
                        AreArgValuesIdentical LHSZDim RHSZDim])"

definition AllWorkGroupSizesSame ::
  "Expr option \<Rightarrow> Expr option \<Rightarrow> Expr option \<Rightarrow> Expr option \<Rightarrow> Expr option \<Rightarrow> Expr option \<Rightarrow> bool" where
  "AllWorkGroupSizesSame LHSXDim LHSYDim LHSZDim RHSXDim RHSYDim RHSZDim =
     list_all (\<lambda>V. V = Same) [AreArgValuesIdentical LHSXDim RHSXDim,
                               AreArgValuesIdentical LHSYDim RHSYDim,
                               AreArgValuesIdentical LHSZDim RHSZDim]"

text \<open>
  \<^verbatim>\<open>dyn_cast_or_null<ConstantExpr>\<close> on an optional dimension, together with the test
  \<^verbatim>\<open>(!YDimExpr && YDim)\<close>: \<open>None\<close> if the dimension is given and is not a constant
  expression, otherwise the value of the dimension if it is given.
\<close>

fun optionalDim :: "Expr option \<Rightarrow> int option option" where
  "optionalDim None = Some None"
| "optionalDim (Some e) = (case dyn_cast_ConstantExpr e of None \<Rightarrow> None | Some v \<Rightarrow> Some (Some v))"

text \<open>
  Modelled from the spec: \<^verbatim>\<open>APInt::getZExtValue\<close> belongs to the support library;
  it reads the value as an unsigned 64-bit number.  Every value that an attribute holds
  as a constant has passed the test \<^verbatim>\<open>ArgVal <= 0\<close> and is positive, and the
  theorems about the comparisons assume so.
\<close>

definition getZExtValue :: "int \<Rightarrow> nat" where
  "getZExtValue v = nat v"

definition InvalidWorkGroupSizeAttrs :: "Expr \<Rightarrow> Expr \<Rightarrow> Expr option \<Rightarrow> Expr option \<Rightarrow> bool" where
  "InvalidWorkGroupSizeAttrs MGValue XDim YDim ZDim =
     (case (dyn_cast_ConstantExpr MGValue, dyn_cast_ConstantExpr XDim) of
        (Some MGVal, Some XVal) \<Rightarrow>
          (case (optionalDim YDim, optionalDim ZDim) of
             (Some YVal, Some ZVal) \<Rightarrow>
               MGVal = 0 \<and> (XVal \<noteq> 1 \<or> (case YVal of Some y \<Rightarrow> y \<noteq> 1 | None \<Rightarrow> False) \<or>
                            (case ZVal of Some z \<Rightarrow> z \<noteq> 1 | None \<Rightarrow> False))
           | _ \<Rightarrow> False)
      | _ \<Rightarrow> False)"

text \<open>
  \<^verbatim>\<open>Sema::CheckMaxAllowedWorkGroupSize\<close>.  In SYCL device mode, when a second
  dimension is given, the first dimension is swapped with the last one given.  Then the
  first, second and third are compared with the Z, Y and X maximum.
\<close>

definition CheckMaxAllowedWorkGroupSize ::
  "LangOptions \<Rightarrow> Expr \<Rightarrow> Expr option \<Rightarrow> Expr option \<Rightarrow> Expr \<Rightarrow> Expr \<Rightarrow> Expr \<Rightarrow> bool" where
  "CheckMaxAllowedWorkGroupSize L RWGSXDim RWGSYDim RWGSZDim MWGSXDim MWGSYDim MWGSZDim =
     (case (dyn_cast_ConstantExpr RWGSXDim, dyn_cast_ConstantExpr MWGSXDim,
            dyn_cast_ConstantExpr MWGSYDim, dyn_cast_ConstantExpr MWGSZDim) of
        (Some RX, Some MX, Some MY, Some MZ) \<Rightarrow>
          (case (optionalDim RWGSYDim, optionalDim RWGSZDim) of
             (Some RY, Some RZ) \<Rightarrow>
               (let (FirstRWGDim, SecondRWGDim, ThirdRWGDim) =
                      (if SYCLIsDevice L \<and> RWGSYDim \<noteq> None then
                         (if RWGSZDim \<noteq> None then
                            (case RZ of Some z \<Rightarrow> (z, RY, Some RX) | None \<Rightarrow> (RX, RY, RZ))
                          else
                            (case RY of Some y \<Rightarrow> (y, Some RX, RZ) | None \<Rightarrow> (RX, RY, RZ)))
                       else (RX, RY, RZ));
                    CheckFirstArgument = getZExtValue FirstRWGDim > getZExtValue MZ;
                    CheckSecondArgument =
                      (case SecondRWGDim of Some s \<Rightarrow> getZExtValue s > getZExtValue MY | None \<Rightarrow> False);
                    CheckThirdArgument =
                      (case ThirdRWGDim of Some t \<Rightarrow> getZExtValue t > getZExtValue MX | None \<Rightarrow> False)
                in CheckFirstArgument \<or> CheckSecondArgument \<or> CheckThirdArgument)
           | _ \<Rightarrow> False)
      | _ \<Rightarrow> False)"

text \<open>
  \<^verbatim>\<open>CheckWorkGroupSize\<close>.  The fastest dimension is the last one given; its value is
  stored in a variable of type \<^verbatim>\<open>unsigned\<close>, which keeps the low 32 bits.
\<close>

definition CheckWorkGroupSize :: "Expr \<Rightarrow> Expr \<Rightarrow> Expr option \<Rightarrow> Expr option \<Rightarrow> bool" where
  "CheckWorkGroupSize NSWIValue RWGSXDim RWGSYDim RWGSZDim =
     (case (dyn_cast_ConstantExpr NSWIValue, dyn_cast_ConstantExpr RWGSXDim) of
        (Some NSWI, Some RX) \<Rightarrow>
          (case (optionalDim RWGSYDim, optionalDim RWGSZDim) of
             (Some RY, Some RZ) \<Rightarrow>
               (let LastRWGSDim =
                      (case RZ of Some z \<Rightarrow> z
                       | None \<Rightarrow> (case RY of Some y \<Rightarrow> y | None \<Rightarrow> RX));
                    WorkGroupSize = getZExtValue LastRWGSDim mod 2 ^ 32
                in WorkGroupSize mod getZExtValue NSWI \<noteq> 0)
           | _ \<Rightarrow> False)
      | _ \<Rightarrow> False)"

text \<open>
  The lambda \<^verbatim>\<open>CheckAndConvertArg\<close> of the work-group size attributes, for the
  argument at index \<open>i\<close>: the converted expression, or \<open>None\<close> with a diagnostic.
\<close>

definition CheckAndConvertArg ::
  "AttributeCommonInfo \<Rightarrow> nat \<Rightarrow> Expr \<Rightarrow> Expr option \<times> Diagnostic list" where
  "CheckAndConvertArg CI i E =
     (if \<not> isValueDependent E then
        (case VerifyIntegerConstantExpression E of
           None \<Rightarrow> (None, [Diag err_expr_not_ice (ExprLoc (ciLoc CI) i) []])
         | Some (E', ArgVal) \<Rightarrow>
             if ArgVal \<le> 0 then
               (None, [Diag err_attribute_requires_positive_integer (ExprLoc (ciLoc CI) i)
                         [Name (getParsedKind CI), Select 0]])
             else (Some E', []))
      else (Some E, []))"

text \<open>The same for a dimension that may be absent (a null pointer).\<close>

definition CheckAndConvertOptArg ::
  "AttributeCommonInfo \<Rightarrow> nat \<Rightarrow> Expr option \<Rightarrow> Expr option option \<times> Diagnostic list" where
  "CheckAndConvertOptArg CI i E =
     (case E of
        None \<Rightarrow> (Some None, [])
      | Some e \<Rightarrow>
          (case CheckAndConvertArg CI i e of
             (None, ds) \<Rightarrow> (None, ds)
           | (Some e', ds) \<Rightarrow> (Some (Some e'), ds)))"

definition AddSYCLIntelMaxWorkGroupSizeAttr ::
  "LangOptions \<Rightarrow> Decl \<Rightarrow> AttributeCommonInfo \<Rightarrow> Expr \<Rightarrow> Expr \<Rightarrow> Expr \<Rightarrow> Decl \<times> Diagnostic list" where
  "AddSYCLIntelMaxWorkGroupSizeAttr L D CI XDim0 YDim0 ZDim0 =
     (let (XConv, dsX) = CheckAndConvertArg CI 0 XDim0;
          (YConv, dsY) = CheckAndConvertArg CI 1 YDim0;
          (ZConv, dsZ) = CheckAndConvertArg CI 2 ZDim0
      in case (XConv, YConv, ZConv) of
           (Some XDim, Some YDim, Some ZDim) \<Rightarrow>
             if (case getAttr castReqdWorkGroupSize D of
                   Some (DeclAttr, (RX, RY, RZ)) \<Rightarrow>
                     CheckMaxAllowedWorkGroupSize L RX RY RZ XDim YDim ZDim
                 | None \<Rightarrow> False) then
               (D, [Diag err_conflicting_sycl_function_attributes (AttrLoc (ciLoc CI))
                      [Name (getParsedKind CI), Name AT_SYCLReqdWorkGroupSize],
                    Diag note_conflicting_attribute
                      (case getAttr castReqdWorkGroupSize D of
                         Some (DeclAttr, r) \<Rightarrow> getLoc DeclAttr | None \<Rightarrow> NoLoc) []])
             else if (case getAttr castMaxGlobalWorkDim D of
                        Some (DeclAttr, MGValue) \<Rightarrow>
                          InvalidWorkGroupSizeAttrs MGValue XDim (Some YDim) (Some ZDim)
                      | None \<Rightarrow> False) then
               (D, [Diag err_sycl_x_y_z_arguments_must_be_one (AttrLoc (ciLoc CI))
                      [Name (getParsedKind CI), Name AT_SYCLIntelMaxGlobalWorkDim]])
             else
               (case getAttr castMaxWorkGroupSize D of
                  Some (Existing, (OldX, OldY, OldZ)) \<Rightarrow>
                    if AnyWorkGroupSizesDiffer (Some XDim) (Some YDim) (Some ZDim)
                         (Some OldX) (Some OldY) (Some OldZ) then
                      (D, [Diag warn_duplicate_attribute (AttrLoc (ciLoc CI)) [Name (getParsedKind CI)],
                           Diag note_previous_attribute (getLoc Existing) []])
                    else if AllWorkGroupSizesSame (Some XDim) (Some YDim) (Some ZDim)
                              (Some OldX) (Some OldY) (Some OldZ) then
                      (D, [])
                    else
                      (addAttr (Create (ciLoc CI) (SYCLIntelMaxWorkGroupSizeAttr XDim YDim ZDim)) D, [])
                | None \<Rightarrow>
                    (addAttr (Create (ciLoc CI) (SYCLIntelMaxWorkGroupSizeAttr XDim YDim ZDim)) D, []))
         | _ \<Rightarrow> (D, dsX @ dsY @ dsZ))"

definition AddSYCLReqdWorkGroupSizeAttr ::
  "LangOptions \<Rightarrow> Decl \<Rightarrow> AttributeCommonInfo \<Rightarrow> Expr \<Rightarrow> Expr option \<Rightarrow> Expr option \<Rightarrow>
   Decl \<times> Diagnostic list" where
  "AddSYCLReqdWorkGroupSizeAttr L D CI XDim0 YDim0 ZDim0 =
     (let (XConv, dsX) = CheckAndConvertArg CI 0 XDim0;
          (YConv, dsY) = CheckAndConvertOptArg CI 1 YDim0;
          (ZConv, dsZ) = CheckAndConvertOptArg CI 2 ZDim0
      in case (XConv, YConv, ZConv) of
           (Some XDim, Some YDim, Some ZDim) \<Rightarrow>
             (let dsMG =
                    (case getAttr castMaxGlobalWorkDim D of
                       Some (DeclAttr, MGValue) \<Rightarrow>
                         if InvalidWorkGroupSizeAttrs MGValue XDim YDim ZDim then
                           [Diag err_sycl_x_y_z_arguments_must_be_one (AttrLoc (ciLoc CI))
                              [Name (getParsedKind CI), Name AT_SYCLIntelMaxGlobalWorkDim]]
                         else []
                     | None \<Rightarrow> [])
              in
                if (case getAttr castMaxWorkGroupSize D of
                      Some (DeclAttr, (MX, MY, MZ)) \<Rightarrow>
                        CheckMaxAllowedWorkGroupSize L XDim YDim ZDim MX MY MZ
                    | None \<Rightarrow> False) then
                  (D, dsMG @
                      [Diag err_conflicting_sycl_function_attributes (AttrLoc (ciLoc CI))
                         [Name (getParsedKind CI), Name AT_SYCLIntelMaxWorkGroupSize],
                       Diag note_conflicting_attribute
                         (case getAttr castMaxWorkGroupSize D of
                            Some (DeclAttr, m) \<Rightarrow> getLoc DeclAttr | None \<Rightarrow> NoLoc) []])
                else if (case getAttr castNumSimdWorkItems D of
                           Some (DeclAttr, NSWIValue) \<Rightarrow> CheckWorkGroupSize NSWIValue XDim YDim ZDim
                         | None \<Rightarrow> False) then
                  (D, dsMG @
                      [Diag err_sycl_num_kernel_wrong_reqd_wg_size
                         (case getAttr castNumSimdWorkItems D of
                            Some (DeclAttr, n) \<Rightarrow> getLoc DeclAttr | None \<Rightarrow> NoLoc)
                         [Name AT_SYCLIntelNumSimdWorkItems, Name (getParsedKind CI)],
                       Diag note_conflicting_attribute (AttrLoc (ciLoc CI)) []])
                else
                  (case getAttr castReqdWorkGroupSize D of
                     Some (Existing, (OldX, OldY, OldZ)) \<Rightarrow>
                       if AnyWorkGroupSizesDiffer (Some XDim) YDim ZDim (Some OldX) OldY OldZ then
                         (D, dsMG @
                             [Diag err_duplicate_attribute (AttrLoc (ciLoc CI)) [Name (getParsedKind CI)],
                              Diag note_previous_attribute (getLoc Existing) []])
                       else if AllWorkGroupSizesSame (Some XDim) YDim ZDim (Some OldX) OldY OldZ then
                         (D, dsMG)
                       else
                         (addAttr (Create (ciLoc CI) (SYCLReqdWorkGroupSizeAttr XDim YDim ZDim)) D, dsMG)
                   | None \<Rightarrow>
                       (addAttr (Create (ciLoc CI) (SYCLReqdWorkGroupSizeAttr XDim YDim ZDim)) D, dsMG)))
         | _ \<Rightarrow> (D, dsX @ dsY @ dsZ))"

definition AddSYCLIntelNumSimdWorkItemsAttr ::
  "LangOptions \<Rightarrow> Decl \<Rightarrow> AttributeCommonInfo \<Rightarrow> Expr \<Rightarrow> Decl \<times> Diagnostic list" where
  "AddSYCLIntelNumSimdWorkItemsAttr L D CI E =
     (if \<not> isValueDependent E then
        (case VerifyIntegerConstantExpression E of
           None \<Rightarrow> (D, [Diag err_expr_not_ice (ExprLoc (ciLoc CI) 0) []])
         | Some (E', ArgVal) \<Rightarrow>
             if ArgVal \<le> 0 then
               (D, [Diag err_attribute_requires_positive_integer (ExprLoc (ciLoc CI) 0)
                      [Name (getParsedKind CI), Select 0]])
             else
               (case (case getAttr castNumSimdWorkItems D of
                        Some (DeclAttr, DeclValue) \<Rightarrow>
                          (case dyn_cast_ConstantExpr DeclValue of
                             Some DeclVal \<Rightarrow> Some (DeclAttr, DeclVal)
                           | None \<Rightarrow> None)
                      | None \<Rightarrow> None) of
                  Some (DeclAttr, DeclVal) \<Rightarrow>
                    if ArgVal \<noteq> DeclVal then
                      (D, [Diag warn_duplicate_attribute (AttrLoc (ciLoc CI)) [Name (getParsedKind CI)],
                           Diag note_previous_attribute (getLoc DeclAttr) []])
                    else (D, [])
                | None \<Rightarrow>
                    (case getAttr castReqdWorkGroupSize D of
                       Some (DeclAttr, (RX, RY, RZ)) \<Rightarrow>
                         if CheckWorkGroupSize E' RX RY RZ then
                           (D, [Diag err_sycl_num_kernel_wrong_reqd_wg_size (AttrLoc (ciLoc CI))
                                  [Name (getParsedKind CI), Name AT_SYCLReqdWorkGroupSize],
                                Diag note_conflicting_attribute (getLoc DeclAttr) []])
                         else
                           (addAttr (Create (ciLoc CI) (SYCLIntelNumSimdWorkItemsAttr E')) D, [])
                     | None \<Rightarrow>
                         (addAttr (Create (ciLoc CI) (SYCLIntelNumSimdWorkItemsAttr E')) D, []))))
      else (addAttr (Create (ciLoc CI) (SYCLIntelNumSimdWorkItemsAttr E)) D, []))"

text \<open>The attribute \<^verbatim>\<open>max_global_work_dim\<close>.\<close>

datatype OneArgResult = UnknownArg | EqualToOne | NotEqualToOne

fun AreAllArgsOne :: "Expr option list \<Rightarrow> OneArgResult" where
  "AreAllArgsOne [] = EqualToOne"
| "AreAllArgsOne (None # Args) = EqualToOne"
| "AreAllArgsOne (Some e # Args) =
     (case dyn_cast_ConstantExpr e of
        None \<Rightarrow> UnknownArg
      | Some v \<Rightarrow> if v \<noteq> 1 then NotEqualToOne else AreAllArgsOne Args)"

text \<open>\<^verbatim>\<open>checkWorkGroupSizeAttrExpr\<close> for the two attribute classes it is used with.\<close>

definition checkWorkGroupSizeAttrExpr_Max :: "Decl \<Rightarrow> AttributeCommonInfo \<Rightarrow> Diagnostic list" where
  "checkWorkGroupSizeAttrExpr_Max D AL =
     (case getAttr castMaxWorkGroupSize D of
        Some (A, (X, Y, Z)) \<Rightarrow>
          if AreAllArgsOne [Some X, Some Y, Some Z] = NotEqualToOne then
            [Diag err_sycl_x_y_z_arguments_must_be_one (getLoc A)
               [Name AT_SYCLIntelMaxWorkGroupSize, Name (getParsedKind AL)]]
          else []
      | None \<Rightarrow> [])"

definition checkWorkGroupSizeAttrExpr_Reqd :: "Decl \<Rightarrow> AttributeCommonInfo \<Rightarrow> Diagnostic list" where
  "checkWorkGroupSizeAttrExpr_Reqd D AL =
     (case getAttr castReqdWorkGroupSize D of
        Some (A, (X, Y, Z)) \<Rightarrow>
          if AreAllArgsOne [Some X, Y, Z] = NotEqualToOne then
            [Diag err_sycl_x_y_z_arguments_must_be_one (getLoc A)
               [Name AT_SYCLReqdWorkGroupSize, Name (getParsedKind AL)]]
          else []
      | None \<Rightarrow> [])"

definition AddSYCLIntelMaxGlobalWorkDimAttr ::
  "LangOptions \<Rightarrow> Decl \<Rightarrow> AttributeCommonInfo \<Rightarrow> Expr \<Rightarrow> Decl \<times> Diagnostic list" where
  "AddSYCLIntelMaxGlobalWorkDimAttr L D CI E =
     (if \<not> isValueDependent E then
        (case VerifyIntegerConstantExpression E of
           None \<Rightarrow> (D, [Diag err_expr_not_ice (ExprLoc (ciLoc CI) 0) []])
         | Some (E', ArgVal) \<Rightarrow>
             if ArgVal < 0 \<or> ArgVal > 3 then
               (D, [Diag err_attribute_argument_out_of_range (ExprLoc (ciLoc CI) 0)
                      [Name (getParsedKind CI), Select 0, Select 3]])
             else
               (case (case getAttr castMaxGlobalWorkDim D of
                        Some (DeclAttr, DeclValue) \<Rightarrow>
                          (case dyn_cast_ConstantExpr DeclValue of
                             Some DeclVal \<Rightarrow> Some (DeclAttr, DeclVal)
                           | None \<Rightarrow> None)
                      | None \<Rightarrow> None) of
                  Some (DeclAttr, DeclVal) \<Rightarrow>
                    if ArgVal \<noteq> DeclVal then
                      (D, [Diag warn_duplicate_attribute (AttrLoc (ciLoc CI)) [Name (getParsedKind CI)],
                           Diag note_previous_attribute (getLoc DeclAttr) []])
                    else (D, [])
                | None \<Rightarrow>
                    if ArgVal = 0 \<and> checkWorkGroupSizeAttrExpr_Max D CI \<noteq> [] then
                      (D, checkWorkGroupSizeAttrExpr_Max D CI)
                    else if ArgVal = 0 \<and> checkWorkGroupSizeAttrExpr_Reqd D CI \<noteq> [] then
                      (D, checkWorkGroupSizeAttrExpr_Reqd D CI)
                    else
                      (addAttr (Create (ciLoc CI) (SYCLIntelMaxGlobalWorkDimAttr E')) D, [])))
      else (addAttr (Create (ciLoc CI) (SYCLIntelMaxGlobalWorkDimAttr E)) D, []))"

subsection \<open>Kernel functions and debug information\<close>

text \<open>
  \<^verbatim>\<open>handleGlobalAttr\<close>, the handler of the attributes that mark a CUDA or HIP kernel.
  In a HIP host compilation the kernel also gets an implicit \<^verbatim>\<open>nodebug\<close> attribute.
\<close>

definition handleGlobalAttr ::
  "LangOptions \<Rightarrow> Decl \<Rightarrow> AttributeCommonInfo \<Rightarrow> Decl \<times> Diagnostic list" where
  "handleGlobalAttr L D AL =
     (if \<not> returnTypeIsVoid D \<and> \<not> returnTypeIsAuto D \<and>
         \<not> returnTypeIsInstantiationDependent D then
        (D, [Diag err_kern_type_not_void_return DeclTypeSpecStartLoc [TheDeclType, FixItHint]])
      else if isaCXXMethodDecl D \<and> isInstance D then
        (D, [Diag err_kern_is_nonstatic_method DeclBeginLoc [TheDecl]])
      else
        (let dsMethod = (if isaCXXMethodDecl D then [Diag warn_kern_is_method DeclBeginLoc [TheDecl]]
                         else []);
             dsInline = (if isInlineSpecified D \<and> \<not> CUDAIsDevice L then
                           [Diag warn_kern_is_inline DeclBeginLoc [TheDecl]]
                         else []);
             D1 = (if getParsedKind AL = AT_NVPTXKernel then
                     addAttr (Create (ciLoc AL) NVPTXKernelAttr) D
                   else addAttr (Create (ciLoc AL) CUDAGlobalAttr) D);
             D2 = (if HIP L \<and> \<not> CUDAIsDevice L then addAttr (CreateImplicit NoDebugAttr) D1
                   else D1)
         in (D2, dsMethod @ dsInline)))"

text \<open>\<^verbatim>\<open>handleNoDebugAttr\<close>, the handler of the \<^verbatim>\<open>nodebug\<close> attribute that the user writes.\<close>

definition handleNoDebugAttr ::
  "LangOptions \<Rightarrow> Decl \<Rightarrow> AttributeCommonInfo \<Rightarrow> Decl \<times> Diagnostic list" where
  "handleNoDebugAttr L D AL = (addAttr (Create (ciLoc AL) NoDebugAttr) D, [])"

subsection \<open>Processing a parsed attribute\<close>

text \<open>
  A parsed attribute that has passed the arity checks: its position and its arguments.
  The argument of \<^verbatim>\<open>fpga_memory\<close> is absent, or a string that
  \<^verbatim>\<open>ConvertStrToMemoryKind\<close> converts or rejects.
\<close>

datatype ParsedArgs =
    Args_ReqdWorkGroupSize Expr "Expr option" "Expr option"
  | Args_MaxWorkGroupSize Expr Expr Expr
  | Args_NumSimdWorkItems Expr
  | Args_MaxGlobalWorkDim Expr
  | Args_BankWidth Expr
  | Args_NumBanks Expr
  | Args_BankBits "Expr list"
  | Args_Memory "MemoryKind option option"
  | Args_Register

fun parsedKind :: "ParsedArgs \<Rightarrow> AttrKind" where
  "parsedKind (Args_ReqdWorkGroupSize x y z) = AT_SYCLReqdWorkGroupSize"
| "parsedKind (Args_MaxWorkGroupSize x y z) = AT_SYCLIntelMaxWorkGroupSize"
| "parsedKind (Args_NumSimdWorkItems e) = AT_SYCLIntelNumSimdWorkItems"
| "parsedKind (Args_MaxGlobalWorkDim e) = AT_SYCLIntelMaxGlobalWorkDim"
| "parsedKind (Args_BankWidth e) = AT_SYCLIntelBankWidth"
| "parsedKind (Args_NumBanks e) = AT_SYCLIntelNumBanks"
| "parsedKind (Args_BankBits es) = AT_SYCLIntelBankBits"
| "parsedKind (Args_Memory m) = AT_SYCLIntelMemory"
| "parsedKind Args_Register = AT_SYCLIntelRegister"

record ParsedAttr =
  parsedLoc :: nat
  parsedArgs :: ParsedArgs

definition commonInfo :: "ParsedAttr \<Rightarrow> AttributeCommonInfo" where
  "commonInfo AL = \<lparr>getParsedKind = parsedKind (parsedArgs AL), ciLoc = parsedLoc AL\<rparr>"

text \<open>
  The cases of the switch in \<^verbatim>\<open>ProcessDeclAttribute\<close> for these attributes in a SYCL
  compilation, each with its handler, which picks the argument expressions and calls the
  function that adds the attribute.
\<close>

definition handleDeclAttribute :: "LangOptions \<Rightarrow> Decl \<Rightarrow> ParsedAttr \<Rightarrow> Decl \<times> Diagnostic list" where
  "handleDeclAttribute L D AL =
     (case parsedArgs AL of
        Args_ReqdWorkGroupSize x y z \<Rightarrow> AddSYCLReqdWorkGroupSizeAttr L D (commonInfo AL) x y z
      | Args_MaxWorkGroupSize x y z \<Rightarrow> AddSYCLIntelMaxWorkGroupSizeAttr L D (commonInfo AL) x y z
      | Args_NumSimdWorkItems e \<Rightarrow> AddSYCLIntelNumSimdWorkItemsAttr L D (commonInfo AL) e
      | Args_MaxGlobalWorkDim e \<Rightarrow> AddSYCLIntelMaxGlobalWorkDimAttr L D (commonInfo AL) e
      | Args_BankWidth e \<Rightarrow> AddSYCLIntelBankWidthAttr L D (commonInfo AL) e
      | Args_NumBanks e \<Rightarrow> AddSYCLIntelNumBanksAttr L D (commonInfo AL) e
      | Args_BankBits es \<Rightarrow> handleSYCLIntelBankBitsAttr L D (commonInfo AL) es
      | Args_Memory m \<Rightarrow> handleSYCLIntelMemoryAttr L D (commonInfo AL) m
      | Args_Register \<Rightarrow> handleSYCLIntelRegisterAttr L D (commonInfo AL))"

text \<open>
  Modelled from the spec: the table of mutually exclusive attributes and the function
  \<^verbatim>\<open>Sema::checkCommonAttributeFeatures\<close> that consults it are generated from the
  attribute declarations and are not part of \<^verbatim>\<open>SemaDeclAttr.cpp\<close>.  "Flat mutual
  exclusion: kinds A and B may never both be explicit on the same declaration"; "a
  violated rule emits a diagnostic naming both decorations".  The pairs are the ones the
  comments of the handlers name: the register attribute is incompatible with the memory,
  bankwidth, numbanks and bank\_bits attributes.
\<close>

definition mutuallyExclusive :: "AttrKind \<Rightarrow> AttrKind \<Rightarrow> bool" where
  "mutuallyExclusive A B =
     ((A = AT_SYCLIntelRegister \<and>
         B \<in> {AT_SYCLIntelMemory, AT_SYCLIntelBankWidth, AT_SYCLIntelNumBanks, AT_SYCLIntelBankBits}) \<or>
      (B = AT_SYCLIntelRegister \<and>
         A \<in> {AT_SYCLIntelMemory, AT_SYCLIntelBankWidth, AT_SYCLIntelNumBanks, AT_SYCLIntelBankBits}))"

text \<open>
  Modelled from the spec: the diagnostics of the mutual-exclusion check for a parsed
  attribute against the explicit attributes of the declaration; the check fails when
  there is one.
\<close>

definition diagnoseMutualExclusion :: "Decl \<Rightarrow> ParsedAttr \<Rightarrow> Diagnostic list" where
  "diagnoseMutualExclusion D AL =
     (case List.find (\<lambda>a. \<not> isImplicit a \<and>
                          mutuallyExclusive (parsedKind (parsedArgs AL)) (getKind (data a))) (attrs D) of
        Some a \<Rightarrow>
          [Diag err_attributes_are_not_compatible (AttrLoc (parsedLoc AL))
             [Name (parsedKind (parsedArgs AL)), Name (getKind (data a))],
           Diag note_conflicting_attribute (getLoc a) []]
      | None \<Rightarrow> [])"

text \<open>
  \<^verbatim>\<open>ProcessDeclAttribute\<close> for an attribute that exists for the target and whose
  arguments need not be delayed: if the check of the common features fails the
  attribute is not handled.
\<close>

definition ProcessDeclAttribute :: "LangOptions \<Rightarrow> Decl \<Rightarrow> ParsedAttr \<Rightarrow> Decl \<times> Diagnostic list" where
  "ProcessDeclAttribute L D AL =
     (if diagnoseMutualExclusion D AL \<noteq> [] then (D, diagnoseMutualExclusion D AL)
      else handleDeclAttribute L D AL)"

text \<open>Processing the attributes of a declaration in source order.\<close>

fun ProcessDeclAttributeList ::
  "LangOptions \<Rightarrow> Decl \<Rightarrow> ParsedAttr list \<Rightarrow> Decl \<times> Diagnostic list" where
  "ProcessDeclAttributeList L D [] = (D, [])"
| "ProcessDeclAttributeList L D (AL # ALs) =
     (let (D1, ds1) = ProcessDeclAttribute L D AL;
          (D2, ds2) = ProcessDeclAttributeList L D1 ALs
      in (D2, ds1 @ ds2))"

subsection \<open>Template instantiation\<close>

text \<open>
  Modelled from the spec: the instantiation of templates is done outside
  \<^verbatim>\<open>SemaDeclAttr.cpp\<close>.  "When the enclosing template is instantiated with concrete
  arguments, the same validation pipeline re-runs on the now-concrete values and the
  stored decoration transitions to Resolved (or is diagnosed and dropped)."  The
  substitution gives every template parameter its value.
\<close>

fun substExpr :: "(nat \<Rightarrow> int) \<Rightarrow> Expr \<Rightarrow> Expr" where
  "substExpr \<sigma> (ValueDependent n) = IntegerLiteral (\<sigma> n)"
| "substExpr \<sigma> e = e"

text \<open>Modelled from the spec: a decoration is pending if an argument of it is value-dependent.\<close>

fun isPending :: "AttrData \<Rightarrow> bool" where
  "isPending (SYCLReqdWorkGroupSizeAttr x y z) =
     (isValueDependent x \<or> (case y of Some e \<Rightarrow> isValueDependent e | None \<Rightarrow> False) \<or>
      (case z of Some e \<Rightarrow> isValueDependent e | None \<Rightarrow> False))"
| "isPending (SYCLIntelMaxWorkGroupSizeAttr x y z) =
     (isValueDependent x \<or> isValueDependent y \<or> isValueDependent z)"
| "isPending (SYCLIntelNumSimdWorkItemsAttr e) = isValueDependent e"
| "isPending (SYCLIntelMaxGlobalWorkDimAttr e) = isValueDependent e"
| "isPending (SYCLIntelBankWidthAttr e) = isValueDependent e"
| "isPending (SYCLIntelNumBanksAttr e) = isValueDependent e"
| "isPending (SYCLIntelBankBitsAttr es) = list_ex isValueDependent es"
| "isPending d = False"

text \<open>The position at which an attribute was written, read back from its location.\<close>

fun locNumber :: "SourceLocation \<Rightarrow> nat" where
  "locNumber (AttrLoc l) = l"
| "locNumber (ExprLoc l i) = l"
| "locNumber l = 0"

text \<open>
  Modelled from the spec: re-entering the pipeline (argument evaluation, validation,
  consistency checks, merging and synthesis) for one pending decoration takes it out of
  the set and runs the function that adds a decoration of its kind on the substituted
  arguments, at the position of the decoration.
\<close>

definition reenter :: "LangOptions \<Rightarrow> (nat \<Rightarrow> int) \<Rightarrow> Decl \<Rightarrow> Attr \<Rightarrow> Decl \<times> Diagnostic list" where
  "reenter L \<sigma> D a =
     (let D' = D\<lparr>attrs := remove1 a (attrs D)\<rparr>;
          CI = \<lparr>getParsedKind = getKind (data a), ciLoc = locNumber (getLoc a)\<rparr>
      in case data a of
           SYCLReqdWorkGroupSizeAttr x y z \<Rightarrow>
             AddSYCLReqdWorkGroupSizeAttr L D' CI (substExpr \<sigma> x)
               (map_option (substExpr \<sigma>) y) (map_option (substExpr \<sigma>) z)
         | SYCLIntelMaxWorkGroupSizeAttr x y z \<Rightarrow>
             AddSYCLIntelMaxWorkGroupSizeAttr L D' CI (substExpr \<sigma> x) (substExpr \<sigma> y)
               (substExpr \<sigma> z)
         | SYCLIntelNumSimdWorkItemsAttr e \<Rightarrow>
             AddSYCLIntelNumSimdWorkItemsAttr L D' CI (substExpr \<sigma> e)
         | SYCLIntelMaxGlobalWorkDimAttr e \<Rightarrow>
             AddSYCLIntelMaxGlobalWorkDimAttr L D' CI (substExpr \<sigma> e)
         | SYCLIntelBankWidthAttr e \<Rightarrow> AddSYCLIntelBankWidthAttr L D' CI (substExpr \<sigma> e)
         | SYCLIntelNumBanksAttr e \<Rightarrow> AddSYCLIntelNumBanksAttr L D' CI (substExpr \<sigma> e)
         | SYCLIntelBankBitsAttr es \<Rightarrow> AddSYCLIntelBankBitsAttr L D' CI (map (substExpr \<sigma>) es)
         | _ \<Rightarrow> (D, []))"

text \<open>
  Modelled from the spec: re-entering the pipeline for a list of pending decorations, one
  after the other, each on the declaration that the one before has left.
\<close>

fun reenterAll ::
  "LangOptions \<Rightarrow> (nat \<Rightarrow> int) \<Rightarrow> Attr list \<Rightarrow> Decl \<Rightarrow> Decl \<times> Diagnostic list" where
  "reenterAll L \<sigma> [] D = (D, [])"
| "reenterAll L \<sigma> (a # as) D =
     (let (D1, ds1) = reenter L \<sigma> D a;
          (D2, ds2) = reenterAll L \<sigma> as D1
      in (D2, ds1 @ ds2))"

text \<open>
  Modelled from the spec: "a callback \<^verbatim>\<open>on_instantiated(declaration, substitution_map)\<close>
  that re-enters the pipeline for every Pending SemanticDecoration owned by that
  declaration", in the order of the set.
\<close>

definition on_instantiated :: "LangOptions \<Rightarrow> (nat \<Rightarrow> int) \<Rightarrow> Decl \<Rightarrow> Decl \<times> Diagnostic list" where
  "on_instantiated L \<sigma> D = reenterAll L \<sigma> (filter (\<lambda>a. isPending (data a)) (attrs D)) D"

subsection \<open>Sample declarations\<close>

text \<open>A local variable and a kernel function without attributes, and SYCL device mode.\<close>

definition localVariable :: Decl where
  "localVariable =
     \<lparr>isaVarDecl = True, isaFieldDecl = False, declKind = Var, typeIsDeviceGlobal = False,
      typeIsConstQualified = False, typeInOpenCLConstant = False, storageClassIsStatic = False,
      hasLocalStorage = True, returnTypeIsVoid = False, returnTypeIsAuto = False,
      returnTypeIsInstantiationDependent = False, isaCXXMethodDecl = False, isInstance = False,
      isInlineSpecified = False, attrs = []\<rparr>"

definition kernelFunction :: Decl where
  "kernelFunction =
     \<lparr>isaVarDecl = False, isaFieldDecl = False, declKind = Function, typeIsDeviceGlobal = False,
      typeIsConstQualified = False, typeInOpenCLConstant = False, storageClassIsStatic = False,
      hasLocalStorage = False, returnTypeIsVoid = True, returnTypeIsAuto = False,
      returnTypeIsInstantiationDependent = False, isaCXXMethodDecl = False, isInstance = False,
      isInlineSpecified = False, attrs = []\<rparr>"

definition syclDevice :: LangOptions where
  "syclDevice = \<lparr>SYCLIsDevice = True, SYCLIsHost = False, CUDAIsDevice = False, HIP = False\<rparr>"

text \<open>
  The SYCL host pass, a HIP host compilation, and a variable at namespace scope that is
  neither constant nor static.
\<close>

definition syclHost :: LangOptions where
  "syclHost = \<lparr>SYCLIsDevice = False, SYCLIsHost = True, CUDAIsDevice = False, HIP = False\<rparr>"

definition hipHost :: LangOptions where
  "hipHost = \<lparr>SYCLIsDevice = False, SYCLIsHost = False, CUDAIsDevice = False, HIP = True\<rparr>"

definition globalVariable :: Decl where
  "globalVariable = localVariable\<lparr>hasLocalStorage := False\<rparr>"

text \<open>
  The local variable after \<^verbatim>\<open>bank_bits(0,1)\<close>, which carries an implicit
  \<^verbatim>\<open>numbanks\<close> and an implicit memory attribute.
\<close>

definition localVariableWithBankBits :: Decl where
  "localVariableWithBankBits =
     localVariable\<lparr>attrs :=
       [\<lparr>data = SYCLIntelNumBanksAttr (IntegerLiteral 4), isImplicit = True, getLoc = NoLoc\<rparr>,
        \<lparr>data = SYCLIntelMemoryAttr Default, isImplicit = True, getLoc = NoLoc\<rparr>,
        \<lparr>data = SYCLIntelBankBitsAttr [ConstantExpr 0, ConstantExpr 1], isImplicit = False,
           getLoc = AttrLoc 1\<rparr>]\<rparr>"

text \<open>The substitution that gives every template parameter the value \<open>v\<close>.\<close>

definition substituteAll :: "int \<Rightarrow> nat \<Rightarrow> int" where
  "substituteAll v p = v"

text \<open>The attribute of a kind written at a position.\<close>

definition written :: "AttrKind \<Rightarrow> nat \<Rightarrow> AttributeCommonInfo" where
  "written K l = \<lparr>getParsedKind = K, ciLoc = l\<rparr>"

section \<open>Auxiliary facts\<close>

lemma floorlog_two_power: "floorlog 2 (2 ^ k) = Suc k"
proof -
  have "floorlog 2 (1 * 2 ^ k) = floorlog 2 1 + k"
    by (rule floorlog_power) simp_all
  moreover have "floorlog 2 1 = 1" by (simp add: compute_floorlog)
  ultimately show ?thesis by simp
qed

lemma isPowerOf2_iff: "isPowerOf2 v \<longleftrightarrow> (\<exists>k. v = 2 ^ k)"
proof
  assume "isPowerOf2 v"
  then show "\<exists>k. v = 2 ^ k" unfolding isPowerOf2_def by blast
next
  assume "\<exists>k. v = 2 ^ k"
  then obtain k where k: "v = 2 ^ k" by blast
  have nv: "nat v = 2 ^ k" using k by (simp add: nat_power_eq)
  have "floorlog 2 (nat v) = Suc k" unfolding nv by (rule floorlog_two_power)
  then show "isPowerOf2 v" unfolding isPowerOf2_def using k by simp
qed

lemma Verify_Some:
  "VerifyIntegerConstantExpression E = Some (E', v) \<Longrightarrow> E' = ConstantExpr v \<and> \<not> isValueDependent E"
  by (cases E) auto

lemma getSpecificAttr_append:
  "getSpecificAttr T (xs @ ys) =
     (case getSpecificAttr T xs of Some r \<Rightarrow> Some r | None \<Rightarrow> getSpecificAttr T ys)"
  by (induction xs) (auto split: option.splits)

lemma getAttr_addAttr:
  "getAttr T (addAttr a D) =
     (case getAttr T D of
        Some r \<Rightarrow> Some r
      | None \<Rightarrow> (case T (data a) of Some x \<Rightarrow> Some (a, x) | None \<Rightarrow> None))"
  by (simp add: getAttr_def addAttr_def getSpecificAttr_append split: option.splits)

lemma hasAttr_addAttr: "hasAttr T (addAttr a D) = (hasAttr T D \<or> T (data a) \<noteq> None)"
  by (auto simp: hasAttr_def getAttr_addAttr split: option.splits)

lemma getAttr_addImplicitMemory:
  "T (SYCLIntelMemoryAttr Default) = None \<Longrightarrow> getAttr T (addImplicitMemory D) = getAttr T D"
  by (simp add: addImplicitMemory_def getAttr_addAttr CreateImplicit_def split: option.splits)

lemma CheckValid_attrs [simp]:
  "CheckValidFPGAMemoryAttributesVar (D\<lparr>attrs := as\<rparr>) = CheckValidFPGAMemoryAttributesVar D"
  by (simp add: CheckValidFPGAMemoryAttributesVar_def)

lemma CheckValid_addAttr [simp]:
  "CheckValidFPGAMemoryAttributesVar (addAttr a D) = CheckValidFPGAMemoryAttributesVar D"
  by (simp add: addAttr_def)

lemma CheckValid_addImplicitMemory [simp]:
  "CheckValidFPGAMemoryAttributesVar (addImplicitMemory D) = CheckValidFPGAMemoryAttributesVar D"
  by (simp add: addImplicitMemory_def)

lemma getSpecificAttr_None_iff:
  "getSpecificAttr T as = None \<longleftrightarrow> (\<forall>a \<in> set as. T (data a) = None)"
  by (induction as) (auto split: option.splits)

lemma getSpecificAttr_filter_None:
  "getSpecificAttr T (filter (\<lambda>a. T (data a) = None) as) = None"
  by (simp add: getSpecificAttr_None_iff)

lemma getAttr_dropAttr_same: "getAttr T (dropAttr T D) = None"
  by (simp add: getAttr_def dropAttr_def getSpecificAttr_filter_None)

lemma getSpecificAttr_filter_other:
  "(\<And>d x. T d = Some x \<Longrightarrow> T' d = None) \<Longrightarrow>
   getSpecificAttr T (filter (\<lambda>a. T' (data a) = None) as) = getSpecificAttr T as"
  by (induction as) (auto split: option.splits)

lemma getAttr_dropAttr_other:
  assumes "\<And>d x. T d = Some x \<Longrightarrow> T' d = None"
  shows "getAttr T (dropAttr T' D) = getAttr T D"
  unfolding getAttr_def dropAttr_def using getSpecificAttr_filter_other [of T T', OF assms]
  by simp

lemma hasAttr_addImplicitMemory [simp]: "hasAttr castMemory (addImplicitMemory D)"
  by (simp add: addImplicitMemory_def hasAttr_addAttr CreateImplicit_def)

lemma addImplicitMemory_idem:
  "hasAttr castMemory D \<Longrightarrow> addImplicitMemory D = D"
  by (simp add: addImplicitMemory_def)

lemma castNumBanks_None_iff: "castNumBanks d = None \<longleftrightarrow> getKind d \<noteq> AT_SYCLIntelNumBanks"
  by (cases d) auto

lemma castBankWidth_None_iff: "castBankWidth d = None \<longleftrightarrow> getKind d \<noteq> AT_SYCLIntelBankWidth"
  by (cases d) auto

lemma castMemory_None_iff: "castMemory d = None \<longleftrightarrow> getKind d \<noteq> AT_SYCLIntelMemory"
  by (cases d) auto

lemma castBankBits_None_iff: "castBankBits d = None \<longleftrightarrow> getKind d \<noteq> AT_SYCLIntelBankBits"
  by (cases d) auto

lemma castNumSimdWorkItems_None_iff:
  "castNumSimdWorkItems d = None \<longleftrightarrow> getKind d \<noteq> AT_SYCLIntelNumSimdWorkItems"
  by (cases d) auto

lemma castReqdWorkGroupSize_None_iff:
  "castReqdWorkGroupSize d = None \<longleftrightarrow> getKind d \<noteq> AT_SYCLReqdWorkGroupSize"
  by (cases d) auto

lemma castMaxWorkGroupSize_None_iff:
  "castMaxWorkGroupSize d = None \<longleftrightarrow> getKind d \<noteq> AT_SYCLIntelMaxWorkGroupSize"
  by (cases d) auto

lemma attrsOfKind_addAttr:
  "attrsOfKind K (addAttr a D) =
     attrsOfKind K D @ (if getKind (data a) = K then [a] else [])"
  by (simp add: attrsOfKind_def addAttr_def)

lemma attrsOfKind_dropNumBanks:
  "attrsOfKind AT_SYCLIntelNumBanks (dropAttr castNumBanks D) = []"
  by (simp add: attrsOfKind_def dropAttr_def castNumBanks_None_iff filter_empty_conv)

lemma attrsOfKind_dropMemory:
  "attrsOfKind AT_SYCLIntelMemory (dropAttr castMemory D) = []"
  by (simp add: attrsOfKind_def dropAttr_def castMemory_None_iff filter_empty_conv)

lemma attrsOfKind_Nil_iff_NumBanks:
  "attrsOfKind AT_SYCLIntelNumBanks D = [] \<longleftrightarrow> getAttr castNumBanks D = None"
  by (simp add: attrsOfKind_def getAttr_def getSpecificAttr_None_iff castNumBanks_None_iff
      filter_empty_conv)

lemma hasAttr_castMemory_iff:
  "hasAttr castMemory D \<longleftrightarrow> list_ex (\<lambda>a. \<exists>k. data a = SYCLIntelMemoryAttr k) (attrs D)"
proof -
  have c: "(castMemory d = None) = (\<nexists>k. d = SYCLIntelMemoryAttr k)" for d
    by (cases d) auto
  show ?thesis
    unfolding hasAttr_def getAttr_def getSpecificAttr_None_iff list_ex_iff c by blast
qed

section \<open>The power-of-two gate of bank\_width\<close>

text \<open>
  Claim C4, amended.  Let the argument of \<^verbatim>\<open>bank_width\<close> be an integer constant expression with
  value \<open>v\<close>.  If \<open>v\<close> is not positive or not a power of two, the declaration is left as
  it is and exactly one diagnostic is emitted, the one that requires a positive integer
  or the one that requires a power of two.  If \<open>v\<close> is a power of two and the attribute
  applies to the declaration, then: if the declaration's \<^verbatim>\<open>bank_width\<close>, when it has
  one, does not hold a constant, nothing is diagnosed and the attribute list grows at its
  end by the implicit memory attribute (when the declaration had no memory attribute) and
  by the \<^verbatim>\<open>bank_width\<close> attribute, which stores the constant expression of value \<open>v\<close>
  and is the last of the list; if the declaration's \<^verbatim>\<open>bank_width\<close> holds the constant
  \<open>v\<close> already, nothing changes and nothing is diagnosed.
\<close>

theorem bank_width_power_of_two_gate:
  assumes "VerifyIntegerConstantExpression E = Some (E', v)"
  shows "(\<not> (0 < v \<and> (\<exists>k. v = 2 ^ k)) \<longrightarrow>
            fst (AddSYCLIntelBankWidthAttr L D CI E) = D \<and>
            (\<exists>d. snd (AddSYCLIntelBankWidthAttr L D CI E) = [d] \<and>
                 diagID d \<in> {err_attribute_requires_positive_integer,
                              err_attribute_argument_not_power_of_two})) \<and>
         ((\<exists>k. v = 2 ^ k) \<and> \<not> (SYCLIsDevice L \<and> CheckValidFPGAMemoryAttributesVar D) \<and>
            (\<forall>A0 e. getAttr castBankWidth D = Some (A0, e) \<longrightarrow> dyn_cast_ConstantExpr e = None) \<longrightarrow>
            snd (AddSYCLIntelBankWidthAttr L D CI E) = [] \<and>
            fst (AddSYCLIntelBankWidthAttr L D CI E) =
              D\<lparr>attrs :=
                  attrs D @
                  (if list_ex (\<lambda>a. \<exists>k. data a = SYCLIntelMemoryAttr k) (attrs D) then []
                   else [\<lparr>data = SYCLIntelMemoryAttr Default, isImplicit = True, getLoc = NoLoc\<rparr>]) @
                  [\<lparr>data = SYCLIntelBankWidthAttr (ConstantExpr v), isImplicit = False,
                     getLoc = AttrLoc (ciLoc CI)\<rparr>]\<rparr>) \<and>
         ((\<exists>k. v = 2 ^ k) \<and> \<not> (SYCLIsDevice L \<and> CheckValidFPGAMemoryAttributesVar D) \<and>
            getAttr castBankWidth D = Some (A1, ConstantExpr v) \<longrightarrow>
            AddSYCLIntelBankWidthAttr L D CI E = (D, []))"
proof -
  from assms have E': "E' = ConstantExpr v" and nd: "\<not> isValueDependent E"
    using Verify_Some by blast+
  have pos: "(\<exists>k. v = 2 ^ k) \<Longrightarrow> 0 < v" by auto
  have grow: "addAttr (Create (ciLoc CI) (SYCLIntelBankWidthAttr (ConstantExpr v)))
                (addImplicitMemory D) =
              D\<lparr>attrs :=
                  attrs D @
                  (if list_ex (\<lambda>a. \<exists>k. data a = SYCLIntelMemoryAttr k) (attrs D) then []
                   else [\<lparr>data = SYCLIntelMemoryAttr Default, isImplicit = True, getLoc = NoLoc\<rparr>]) @
                  [\<lparr>data = SYCLIntelBankWidthAttr (ConstantExpr v), isImplicit = False,
                     getLoc = AttrLoc (ciLoc CI)\<rparr>]\<rparr>"
    by (simp add: addAttr_def addImplicitMemory_def hasAttr_castMemory_iff Create_def
        CreateImplicit_def)
  have one: "\<not> (0 < v \<and> (\<exists>k. v = 2 ^ k)) \<longrightarrow>
            fst (AddSYCLIntelBankWidthAttr L D CI E) = D \<and>
            (\<exists>d. snd (AddSYCLIntelBankWidthAttr L D CI E) = [d] \<and>
                 diagID d \<in> {err_attribute_requires_positive_integer,
                              err_attribute_argument_not_power_of_two})"
    using assms nd E' by (auto simp: AddSYCLIntelBankWidthAttr_def isPowerOf2_iff)
  have two: "(\<exists>k. v = 2 ^ k) \<and> \<not> (SYCLIsDevice L \<and> CheckValidFPGAMemoryAttributesVar D) \<and>
            (\<forall>A0 e. getAttr castBankWidth D = Some (A0, e) \<longrightarrow> dyn_cast_ConstantExpr e = None) \<longrightarrow>
            AddSYCLIntelBankWidthAttr L D CI E =
              (addAttr (Create (ciLoc CI) (SYCLIntelBankWidthAttr (ConstantExpr v)))
                 (addImplicitMemory D), [])"
    using assms nd E' pos
    by (auto simp: AddSYCLIntelBankWidthAttr_def isPowerOf2_iff split: option.splits)
  have three: "(\<exists>k. v = 2 ^ k) \<and> \<not> (SYCLIsDevice L \<and> CheckValidFPGAMemoryAttributesVar D) \<and>
            getAttr castBankWidth D = Some (A1, ConstantExpr v) \<longrightarrow>
            AddSYCLIntelBankWidthAttr L D CI E = (D, [])"
    using assms nd E' pos
    by (auto simp: AddSYCLIntelBankWidthAttr_def isPowerOf2_iff)
  show ?thesis
    using one two three unfolding grow [symmetric] by simp
qed

theorem bank_width_power_of_two_gate_witness:
  "fst (AddSYCLIntelBankWidthAttr syclDevice localVariable (written AT_SYCLIntelBankWidth 2)
          (IntegerLiteral 6)) = localVariable \<and>
   (\<exists>d. snd (AddSYCLIntelBankWidthAttr syclDevice localVariable (written AT_SYCLIntelBankWidth 2)
               (IntegerLiteral 6)) = [d] \<and>
        diagID d \<in> {err_attribute_requires_positive_integer,
                     err_attribute_argument_not_power_of_two}) \<and>
   AddSYCLIntelBankWidthAttr syclDevice localVariable (written AT_SYCLIntelBankWidth 2)
     (IntegerLiteral 8) =
     (localVariable\<lparr>attrs :=
        [\<lparr>data = SYCLIntelMemoryAttr Default, isImplicit = True, getLoc = NoLoc\<rparr>,
         \<lparr>data = SYCLIntelBankWidthAttr (ConstantExpr 8), isImplicit = False, getLoc = AttrLoc 2\<rparr>]\<rparr>,
      []) \<and>
   AddSYCLIntelBankWidthAttr syclDevice
     (localVariable\<lparr>attrs :=
        [\<lparr>data = SYCLIntelMemoryAttr Default, isImplicit = True, getLoc = NoLoc\<rparr>,
         \<lparr>data = SYCLIntelBankWidthAttr (ConstantExpr 8), isImplicit = False, getLoc = AttrLoc 2\<rparr>]\<rparr>)
     (written AT_SYCLIntelBankWidth 3) (IntegerLiteral 8) =
     (localVariable\<lparr>attrs :=
        [\<lparr>data = SYCLIntelMemoryAttr Default, isImplicit = True, getLoc = NoLoc\<rparr>,
         \<lparr>data = SYCLIntelBankWidthAttr (ConstantExpr 8), isImplicit = False, getLoc = AttrLoc 2\<rparr>]\<rparr>,
      [])"
proof -
  let ?M = "\<lparr>data = SYCLIntelMemoryAttr Default, isImplicit = True, getLoc = NoLoc\<rparr>"
  let ?B = "\<lparr>data = SYCLIntelBankWidthAttr (ConstantExpr 8), isImplicit = False, getLoc = AttrLoc 2\<rparr>"
  let ?D = "localVariable\<lparr>attrs := [?M, ?B]\<rparr>"
  have six: "\<not> (0 < (6::int) \<and> (\<exists>k. (6::int) = 2 ^ k))"
    using isPowerOf2_iff [of 6] by (simp add: isPowerOf2_def compute_floorlog)
  have eight: "\<exists>k. (8::int) = 2 ^ k"
    by (rule exI [of _ 3]) simp
  have ok: "\<not> (SYCLIsDevice syclDevice \<and> CheckValidFPGAMemoryAttributesVar localVariable)"
    by (simp add: CheckValidFPGAMemoryAttributesVar_def localVariable_def)
  have ok': "\<not> (SYCLIsDevice syclDevice \<and> CheckValidFPGAMemoryAttributesVar ?D)"
    using ok by simp
  have none: "\<forall>A0 e. getAttr castBankWidth localVariable = Some (A0, e) \<longrightarrow>
                dyn_cast_ConstantExpr e = None"
    by (simp add: getAttr_def localVariable_def)
  have some: "getAttr castBankWidth ?D = Some (?B, ConstantExpr 8)"
    by (simp add: getAttr_def)
  have v6: "VerifyIntegerConstantExpression (IntegerLiteral 6) = Some (ConstantExpr 6, 6)"
    by simp
  have v8: "VerifyIntegerConstantExpression (IntegerLiteral 8) = Some (ConstantExpr 8, 8)"
    by simp
  note a = bank_width_power_of_two_gate [OF v6, of syclDevice localVariable
      "written AT_SYCLIntelBankWidth 2" ?B, THEN conjunct1, rule_format, OF six]
  note b = bank_width_power_of_two_gate [OF v8, of syclDevice localVariable
      "written AT_SYCLIntelBankWidth 2" ?B, THEN conjunct2, THEN conjunct1, rule_format,
      OF conjI [OF eight conjI [OF ok none]]]
  note c = bank_width_power_of_two_gate [OF v8, of syclDevice ?D
      "written AT_SYCLIntelBankWidth 3" ?B, THEN conjunct2, THEN conjunct2, rule_format,
      OF conjI [OF eight conjI [OF ok' some]]]
  have b': "AddSYCLIntelBankWidthAttr syclDevice localVariable (written AT_SYCLIntelBankWidth 2)
              (IntegerLiteral 8) = (?D, [])"
    using b by (simp add: prod_eq_iff written_def localVariable_def)
  show ?thesis using a b' c by simp
qed

text \<open>
  Claim C4 as stated fails: \<open>16\<close> is a power of two greater than zero, but after
  \<^verbatim>\<open>bank_width(8)\<close> the attribute \<^verbatim>\<open>bank_width(16)\<close> is diagnosed as a duplicate and
  the declaration keeps \<open>8\<close>; and in a device compilation \<^verbatim>\<open>bank_width(8)\<close> on a
  variable at namespace scope that is neither constant nor static is diagnosed and not
  attached.
\<close>

theorem bank_width_not_attached_counterexample:
  "(16::int) = 2 ^ 4 \<and> (0::int) < 16 \<and>
   AddSYCLIntelBankWidthAttr syclDevice
     (localVariable\<lparr>attrs :=
        [\<lparr>data = SYCLIntelMemoryAttr Default, isImplicit = True, getLoc = NoLoc\<rparr>,
         \<lparr>data = SYCLIntelBankWidthAttr (ConstantExpr 8), isImplicit = False, getLoc = AttrLoc 2\<rparr>]\<rparr>)
     (written AT_SYCLIntelBankWidth 3) (IntegerLiteral 16) =
     (localVariable\<lparr>attrs :=
        [\<lparr>data = SYCLIntelMemoryAttr Default, isImplicit = True, getLoc = NoLoc\<rparr>,
         \<lparr>data = SYCLIntelBankWidthAttr (ConstantExpr 8), isImplicit = False, getLoc = AttrLoc 2\<rparr>]\<rparr>,
      [Diag warn_duplicate_attribute (AttrLoc 3) [Name AT_SYCLIntelBankWidth],
       Diag note_previous_attribute (AttrLoc 2) []]) \<and>
   (8::int) = 2 ^ 3 \<and>
   AddSYCLIntelBankWidthAttr syclDevice globalVariable (written AT_SYCLIntelBankWidth 2)
     (IntegerLiteral 8) =
     (globalVariable,
      [Diag err_fpga_attribute_incorrect_variable (AttrLoc 2)
         [Name AT_SYCLIntelBankWidth, Select 1]])"
proof -
  have p16: "isPowerOf2 16" and p8: "isPowerOf2 8"
    by (simp_all add: isPowerOf2_def compute_floorlog)
  have ok: "\<not> CheckValidFPGAMemoryAttributesVar localVariable"
    by (simp add: CheckValidFPGAMemoryAttributesVar_def localVariable_def)
  have bad: "CheckValidFPGAMemoryAttributesVar globalVariable"
    by (simp add: CheckValidFPGAMemoryAttributesVar_def globalVariable_def localVariable_def)
  show ?thesis
    using p16 p8 ok bad
    by (simp add: AddSYCLIntelBankWidthAttr_def getAttr_def written_def syclDevice_def)
qed

section \<open>The bank\_bits attribute\<close>

lemma getExtValue_small: "- (2 ^ 63) \<le> v \<Longrightarrow> v < 2 ^ 63 \<Longrightarrow> getExtValue v = v"
  by (simp add: getExtValue_def)

lemma getExtValue_map_small:
  assumes "\<forall>v \<in> set vs. 0 \<le> v \<and> v < 2 ^ 63"
  shows "map getExtValue vs = vs"
proof (rule map_idI)
  fix v assume "v \<in> set vs"
  with assms have "0 \<le> v" "v < 2 ^ 63" by auto
  then show "getExtValue v = v" by (intro getExtValue_small) auto
qed

text \<open>Between values that fit, a step of the loop is a step of the integers.\<close>

lemma step_small:
  assumes "0 \<le> a" "a < 2 ^ 63" "0 \<le> b" "b < 2 ^ 63" "s = 1 \<or> s = - 1"
  shows "(b = getExtValue (a + s)) = (b = a + s)"
proof (cases "a + s < 2 ^ 63")
  case True
  have "- (2 ^ 63) \<le> a + s" using assms(1,5) by auto
  then have "getExtValue (a + s) = a + s" using True by (rule getExtValue_small)
  then show ?thesis by simp
next
  case False
  then have e: "a + s = 2 ^ 63" using assms(2,5) by auto
  have "getExtValue (2 ^ 63) = - (2 ^ 63)" by (simp add: getExtValue_def)
  then show ?thesis unfolding e using assms(3,4) by auto
qed

lemma stepsBy_nth:
  assumes "\<forall>v \<in> set vs. 0 \<le> v \<and> v < 2 ^ 63" "s = 1 \<or> s = - 1"
  shows "stepsBy s vs \<longleftrightarrow> (\<forall>i. Suc i < length vs \<longrightarrow> vs ! Suc i = vs ! i + s)"
  using assms
proof (induction s vs rule: stepsBy.induct)
  case (1 s a b vs)
  have st: "(b = getExtValue (a + s)) = (b = a + s)"
    using "1.prems" by (intro step_small) auto
  have ih: "stepsBy s (b # vs) \<longleftrightarrow>
            (\<forall>i. Suc i < length (b # vs) \<longrightarrow> (b # vs) ! Suc i = (b # vs) ! i + s)"
    using 1 by simp
  show ?case
  proof
    assume h: "stepsBy s (a # b # vs)"
    then have ab: "b = a + s"
      and rest: "\<forall>i. Suc i < length (b # vs) \<longrightarrow> (b # vs) ! Suc i = (b # vs) ! i + s"
      using st ih by auto
    show "\<forall>i. Suc i < length (a # b # vs) \<longrightarrow> (a # b # vs) ! Suc i = (a # b # vs) ! i + s"
    proof (intro allI impI)
      fix i assume "Suc i < length (a # b # vs)"
      then show "(a # b # vs) ! Suc i = (a # b # vs) ! i + s"
        using ab rest by (cases i) auto
    qed
  next
    assume h: "\<forall>i. Suc i < length (a # b # vs) \<longrightarrow> (a # b # vs) ! Suc i = (a # b # vs) ! i + s"
    from h [rule_format, of 0] have ab: "b = a + s" by simp
    have "\<forall>i. Suc i < length (b # vs) \<longrightarrow> (b # vs) ! Suc i = (b # vs) ! i + s"
    proof (intro allI impI)
      fix i assume "Suc i < length (b # vs)"
      then show "(b # vs) ! Suc i = (b # vs) ! i + s"
        using h [rule_format, of "Suc i"] by simp
    qed
    then show "stepsBy s (a # b # vs)" using ab st ih by simp
  qed
qed simp_all

lemma ListIsConsecutive_small:
  assumes len: "2 \<le> length vs" and small: "\<forall>v \<in> set vs. 0 \<le> v \<and> v < 2 ^ 63"
  shows "ListIsConsecutive vs \<longleftrightarrow>
           (\<forall>i. Suc i < length vs \<longrightarrow> vs ! Suc i = vs ! i + 1) \<or>
           (\<forall>i. Suc i < length vs \<longrightarrow> vs ! Suc i = vs ! i - 1)"
proof -
  from len obtain a b ws where vs: "vs = a # b # ws"
    by (cases vs; cases "tl vs") auto
  have up: "stepsBy 1 vs \<longleftrightarrow> (\<forall>i. Suc i < length vs \<longrightarrow> vs ! Suc i = vs ! i + 1)"
    using stepsBy_nth [OF small, of 1] by simp
  have down: "stepsBy (- 1) vs \<longleftrightarrow> (\<forall>i. Suc i < length vs \<longrightarrow> vs ! Suc i = vs ! i - 1)"
    using stepsBy_nth [OF small, of "- 1"] by simp
  have first_up: "(\<forall>i. Suc i < length vs \<longrightarrow> vs ! Suc i = vs ! i + 1) \<Longrightarrow> a < b"
  proof -
    assume h: "\<forall>i. Suc i < length vs \<longrightarrow> vs ! Suc i = vs ! i + 1"
    from h [rule_format, of 0] show "a < b" by (simp add: vs)
  qed
  have first_down: "(\<forall>i. Suc i < length vs \<longrightarrow> vs ! Suc i = vs ! i - 1) \<Longrightarrow> \<not> a < b"
  proof -
    assume h: "\<forall>i. Suc i < length vs \<longrightarrow> vs ! Suc i = vs ! i - 1"
    from h [rule_format, of 0] show "\<not> a < b" by (simp add: vs)
  qed
  have "ListIsConsecutive vs = stepsBy (if a < b then 1 else - 1) vs"
    by (simp add: ListIsConsecutive_def vs)
  then show ?thesis
    using up down first_up first_down by (cases "a < b") auto
qed

lemma convertBankBitsArgs_literals:
  "convertBankBitsArgs CI i (map IntegerLiteral vs) =
     (if \<forall>v \<in> set vs. 0 \<le> v then Inr (map ConstantExpr vs, map getExtValue vs)
      else Inl [Diag err_attribute_requires_positive_integer
                  (ExprLoc (ciLoc CI) (i + length (takeWhile (\<lambda>v. 0 \<le> v) vs)))
                  [Name (getParsedKind CI), Select 1]])"
  by (induction vs arbitrary: i) auto

lemma no_dependent_literal [simp]: "\<not> list_ex isValueDependent (map IntegerLiteral vs)"
  by (induction vs) auto

text \<open>
  Within the range of \<^verbatim>\<open>int64_t\<close> the two loops do what the comment of the handler
  asks for ("the values must be consecutive values (i.e. 3,4,5 or 2,1)"): a
  \<^verbatim>\<open>bank_bits\<close> attribute with two or more integer literals below \<open>2 ^ 63\<close>, one of
  which is negative or which do not step by exactly \<open>+1\<close> or exactly \<open>-1\<close> throughout,
  leaves the declaration as it is, and the handler ends with a diagnostic for the
  negative argument or for the non-consecutive list.
\<close>

lemma bank_bits_rejected_within_int64:
  assumes "2 \<le> length vs"
      and "\<forall>v \<in> set vs. v < 2 ^ 63"
      and "\<not> ((\<forall>v \<in> set vs. 0 \<le> v) \<and>
              ((\<forall>i. Suc i < length vs \<longrightarrow> vs ! Suc i = vs ! i + 1) \<or>
               (\<forall>i. Suc i < length vs \<longrightarrow> vs ! Suc i = vs ! i - 1)))"
  shows "fst (handleSYCLIntelBankBitsAttr L D A (map IntegerLiteral vs)) = D \<and>
         (\<exists>d. snd (handleSYCLIntelBankBitsAttr L D A (map IntegerLiteral vs)) =
                 snd (checkForDuplicateAttribute_BankBits D A) @ [d] \<and>
               diagID d \<in> {err_attribute_requires_positive_integer, err_bankbits_non_consecutive})"
proof (cases "\<forall>v \<in> set vs. 0 \<le> v")
  case False
  have ne: "\<not> length (map IntegerLiteral vs) < 1" using assms(1) by auto
  define d where "d = Diag err_attribute_requires_positive_integer
      (ExprLoc (ciLoc A) (0 + length (takeWhile (\<lambda>v. 0 \<le> v) vs))) [Name (getParsedKind A), Select 1]"
  have conv: "convertBankBitsArgs A 0 (map IntegerLiteral vs) = Inl [d]"
    unfolding convertBankBitsArgs_literals d_def using False by simp
  have add: "AddSYCLIntelBankBitsAttr L D A (map IntegerLiteral vs) = (D, [d])"
    unfolding AddSYCLIntelBankBitsAttr_def conv by simp
  have "diagID d = err_attribute_requires_positive_integer" by (simp add: d_def)
  then show ?thesis
    unfolding handleSYCLIntelBankBitsAttr_def add Let_def using ne by simp
next
  case True
  have ne: "\<not> length (map IntegerLiteral vs) < 1" using assms(1) by auto
  have small: "\<forall>v \<in> set vs. 0 \<le> v \<and> v < 2 ^ 63" using True assms(2) by blast
  have bad: "\<not> ListIsConsecutive vs"
    using ListIsConsecutive_small [OF assms(1) small] True assms(3) by blast
  define d where "d = Diag err_bankbits_non_consecutive (AttrLoc (ciLoc A)) [Name AT_SYCLIntelBankBits]"
  have conv: "convertBankBitsArgs A 0 (map IntegerLiteral vs) = Inr (map ConstantExpr vs, vs)"
    unfolding convertBankBitsArgs_literals getExtValue_map_small [OF small] using True by simp
  have add: "AddSYCLIntelBankBitsAttr L D A (map IntegerLiteral vs) = (D, [d])"
    unfolding AddSYCLIntelBankBitsAttr_def conv d_def using bad assms(1) by simp
  have "diagID d = err_bankbits_non_consecutive" by (simp add: d_def)
  then show ?thesis
    unfolding handleSYCLIntelBankBitsAttr_def add Let_def using ne by simp
qed

text \<open>
  Claim C10.  The arguments \<open>18446744073709551615\<close> and \<open>0\<close> are not negative and
  neither is the other plus or minus one.  The first loop reads the first one into an
  \<^verbatim>\<open>int64_t\<close>, where it is \<open>-1\<close>; the second loop finds \<open>-1, 0\<close> consecutive; and
  \<^verbatim>\<open>bank_bits\<close> is attached, with an implicit \<^verbatim>\<open>numbanks\<close> and an implicit memory
  attribute, without a diagnostic.
\<close>

theorem bank_bits_wrapped_value_accepted:
  "(0::int) \<le> 18446744073709551615 \<and> (0::int) \<noteq> 18446744073709551615 + 1 \<and>
   (0::int) \<noteq> 18446744073709551615 - 1 \<and>
   handleSYCLIntelBankBitsAttr syclDevice localVariable (written AT_SYCLIntelBankBits 2)
     [IntegerLiteral 18446744073709551615, IntegerLiteral 0] =
     (localVariable\<lparr>attrs :=
        [\<lparr>data = SYCLIntelNumBanksAttr (IntegerLiteral 4), isImplicit = True, getLoc = NoLoc\<rparr>,
         \<lparr>data = SYCLIntelMemoryAttr Default, isImplicit = True, getLoc = NoLoc\<rparr>,
         \<lparr>data = SYCLIntelBankBitsAttr [ConstantExpr 18446744073709551615, ConstantExpr 0],
            isImplicit = False, getLoc = AttrLoc 2\<rparr>]\<rparr>,
      [])"
proof -
  have ext: "getExtValue 18446744073709551615 = - 1" "getExtValue 0 = 0"
    by (simp_all add: getExtValue_def)
  have conv: "convertBankBitsArgs (written AT_SYCLIntelBankBits 2) 0
                [IntegerLiteral 18446744073709551615, IntegerLiteral 0] =
              Inr ([ConstantExpr 18446744073709551615, ConstantExpr 0], [- 1, 0])"
    by (simp add: ext)
  have cons: "ListIsConsecutive [- 1, 0]"
    by (simp add: ListIsConsecutive_def ext)
  have none: "getAttr T localVariable = None" for T :: "AttrData \<Rightarrow> 'a option"
    by (simp add: getAttr_def localVariable_def)
  have empty: "attrs localVariable = []" by (simp add: localVariable_def)
  have ok: "\<not> CheckValidFPGAMemoryAttributesVar localVariable"
    by (simp add: CheckValidFPGAMemoryAttributesVar_def localVariable_def)
  have nb: "implicitNumBanks (Suc (Suc 0)) = 4" by (simp add: implicitNumBanks_def)
  have add: "AddSYCLIntelBankBitsAttr syclDevice localVariable (written AT_SYCLIntelBankBits 2)
               [IntegerLiteral 18446744073709551615, IntegerLiteral 0] =
             (localVariable\<lparr>attrs :=
                [\<lparr>data = SYCLIntelNumBanksAttr (IntegerLiteral 4), isImplicit = True, getLoc = NoLoc\<rparr>,
                 \<lparr>data = SYCLIntelMemoryAttr Default, isImplicit = True, getLoc = NoLoc\<rparr>,
                 \<lparr>data = SYCLIntelBankBitsAttr [ConstantExpr 18446744073709551615, ConstantExpr 0],
                    isImplicit = False, getLoc = AttrLoc 2\<rparr>]\<rparr>, [])"
    unfolding AddSYCLIntelBankBitsAttr_def conv
    using cons none ok nb empty
    by (simp add: Let_def addAttr_def addImplicitMemory_def hasAttr_def getAttr_def
        Create_def CreateImplicit_def written_def)
  show ?thesis
    unfolding handleSYCLIntelBankBitsAttr_def add
    by (simp add: checkForDuplicateAttribute_BankBits_def none Let_def)
qed


lemma ceilLogBase2_two_power: "ceilLogBase2 (2 ^ k) = k"
proof -
  have h: "nat ((2::int) ^ k) = 2 ^ k" by (simp add: nat_power_eq)
  have "ceilLogBase2 (2 ^ k) = ceillog2 (nat (2 ^ k))" by (simp add: ceilLogBase2_def)
  also have "\<dots> = ceillog2 (2 ^ k)" by (simp only: h)
  also have "\<dots> = k" by simp
  finally show ?thesis .
qed

lemma implicitNumBanks_small: "n < 32 \<Longrightarrow> implicitNumBanks n = 2 ^ n"
  by (simp add: implicitNumBanks_def)

text \<open>What the handler does with a list of literals that passes both loops.\<close>

lemma handle_bank_bits_fresh:
  assumes nonneg: "\<forall>v \<in> set vs. 0 \<le> v"
      and range: "\<forall>v \<in> set vs. v < 2 ^ 63"
      and steps: "(\<forall>i. Suc i < length vs \<longrightarrow> vs ! Suc i = vs ! i + 1) \<or>
                  (\<forall>i. Suc i < length vs \<longrightarrow> vs ! Suc i = vs ! i - 1)"
      and ne: "vs \<noteq> []"
      and noNB: "getAttr castNumBanks D = None"
      and noBB: "getAttr castBankBits D = None"
      and subj: "\<not> (SYCLIsDevice L \<and> CheckValidFPGAMemoryAttributesVar D)"
  shows "handleSYCLIntelBankBitsAttr L D A (map IntegerLiteral vs) =
           (addAttr (Create (ciLoc A) (SYCLIntelBankBitsAttr (map ConstantExpr vs)))
              (addImplicitMemory
                 (addAttr (CreateImplicit (SYCLIntelNumBanksAttr
                            (IntegerLiteral (implicitNumBanks (length vs))))) D)), [])"
proof -
  have small: "\<forall>v \<in> set vs. 0 \<le> v \<and> v < 2 ^ 63" using nonneg range by blast
  have conv: "convertBankBitsArgs A 0 (map IntegerLiteral vs) = Inr (map ConstantExpr vs, vs)"
    unfolding convertBankBitsArgs_literals getExtValue_map_small [OF small] using nonneg by simp
  have cons: "1 < length vs \<Longrightarrow> ListIsConsecutive vs"
    using steps ListIsConsecutive_small [of vs, OF _ small] by auto
  have add: "AddSYCLIntelBankBitsAttr L D A (map IntegerLiteral vs) =
           (addAttr (Create (ciLoc A) (SYCLIntelBankBitsAttr (map ConstantExpr vs)))
              (addImplicitMemory
                 (addAttr (CreateImplicit (SYCLIntelNumBanksAttr
                            (IntegerLiteral (implicitNumBanks (length vs))))) D)), [])"
    unfolding AddSYCLIntelBankBitsAttr_def conv using cons noNB subj by (auto simp: Let_def)
  have len: "\<not> length (map IntegerLiteral vs) < 1" using ne by (cases vs) auto
  show ?thesis
    unfolding handleSYCLIntelBankBitsAttr_def add Let_def
    using len noBB by (simp add: checkForDuplicateAttribute_BankBits_def)
qed


text \<open>The local variable with \<^verbatim>\<open>bank_bits(0,1)\<close> is what the handler makes of the local variable.\<close>

lemma handle_bank_bits_zero_one:
  "handleSYCLIntelBankBitsAttr syclDevice localVariable (written AT_SYCLIntelBankBits 1)
     [IntegerLiteral 0, IntegerLiteral 1] = (localVariableWithBankBits, [])"
proof -
  have nonneg: "\<forall>v \<in> set [0, 1 :: int]. 0 \<le> v" by simp
  have range: "\<forall>v \<in> set [0, 1 :: int]. v < 2 ^ 63" by simp
  have steps: "(\<forall>i. Suc i < length [0, 1 :: int] \<longrightarrow> [0, 1 :: int] ! Suc i = [0, 1] ! i + 1) \<or>
               (\<forall>i. Suc i < length [0, 1 :: int] \<longrightarrow> [0, 1 :: int] ! Suc i = [0, 1] ! i - 1)"
    by simp
  have none: "getAttr T localVariable = None" for T :: "AttrData \<Rightarrow> 'a option"
    by (simp add: getAttr_def localVariable_def)
  have empty: "attrs localVariable = []" by (simp add: localVariable_def)
  have subj: "\<not> (SYCLIsDevice syclDevice \<and> CheckValidFPGAMemoryAttributesVar localVariable)"
    by (simp add: CheckValidFPGAMemoryAttributesVar_def localVariable_def)
  have nb: "implicitNumBanks (Suc (Suc 0)) = 4" by (simp add: implicitNumBanks_def)
  show ?thesis
    using handle_bank_bits_fresh [OF nonneg range steps _ none none subj,
        of "written AT_SYCLIntelBankBits 1"] nb empty
    by (simp add: localVariableWithBankBits_def addAttr_def addImplicitMemory_def hasAttr_def
        getAttr_def Create_def CreateImplicit_def written_def)
qed

text \<open>
  Claim C1, amended.  Let \<^verbatim>\<open>bank_bits\<close> be written with \<open>n < 32\<close> non-negative
  consecutive integer literals below \<open>2 ^ 63\<close> on a declaration that it applies to and that
  carries neither \<^verbatim>\<open>numbanks\<close> nor \<^verbatim>\<open>bank_bits\<close>.  Then the declaration gets an implicit
  \<^verbatim>\<open>numbanks\<close> whose value is the literal \<open>2 ^ n\<close>.  An explicit \<^verbatim>\<open>numbanks\<close> that
  arrives afterwards with a power of two \<open>v\<close> is attached without a diagnostic, as the
  only \<^verbatim>\<open>numbanks\<close> of the declaration, if \<open>\<lceil>log\<^sub>2 v\<rceil> = n\<close>; if \<open>\<lceil>log\<^sub>2 v\<rceil> \<noteq> n\<close>
  it is diagnosed as conflicting and the declaration stays as it was.
\<close>

theorem bank_bits_synthesizes_numbanks:
  assumes nonneg: "\<forall>v \<in> set vs. 0 \<le> v"
      and range: "\<forall>v \<in> set vs. v < 2 ^ 63"
      and steps: "(\<forall>i. Suc i < length vs \<longrightarrow> vs ! Suc i = vs ! i + 1) \<or>
                  (\<forall>i. Suc i < length vs \<longrightarrow> vs ! Suc i = vs ! i - 1)"
      and ne: "vs \<noteq> []"
      and small: "length vs < 32"
      and noNB: "getAttr castNumBanks D = None"
      and noBB: "getAttr castBankBits D = None"
      and subj: "\<not> (SYCLIsDevice L \<and> CheckValidFPGAMemoryAttributesVar D)"
      and D1: "D1 = fst (handleSYCLIntelBankBitsAttr L D A (map IntegerLiteral vs))"
  shows "getAttr castNumBanks D1 =
           Some (CreateImplicit (SYCLIntelNumBanksAttr (IntegerLiteral (2 ^ length vs))),
                 IntegerLiteral (2 ^ length vs)) \<and>
         (\<forall>v. (\<exists>k. v = 2 ^ k) \<longrightarrow>
            (ceillog2 (nat v) = length vs \<longrightarrow>
               snd (AddSYCLIntelNumBanksAttr L D1 CI (IntegerLiteral v)) = [] \<and>
               attrsOfKind AT_SYCLIntelNumBanks
                 (fst (AddSYCLIntelNumBanksAttr L D1 CI (IntegerLiteral v))) =
                 [Create (ciLoc CI) (SYCLIntelNumBanksAttr (ConstantExpr v))]) \<and>
            (ceillog2 (nat v) \<noteq> length vs \<longrightarrow>
               AddSYCLIntelNumBanksAttr L D1 CI (IntegerLiteral v) =
                 (D1, [Diag err_bankbits_numbanks_conflicting (ExprLoc (ciLoc CI) 0)
                         [Name (getParsedKind CI)]])))"
proof -
  define NB where "NB = CreateImplicit (SYCLIntelNumBanksAttr (IntegerLiteral (2 ^ length vs)))"
  define BB where "BB = Create (ciLoc A) (SYCLIntelBankBitsAttr (map ConstantExpr vs))"
  have D1': "D1 = addAttr BB (addImplicitMemory (addAttr NB D))"
    unfolding D1 NB_def BB_def
    using handle_bank_bits_fresh [OF nonneg range steps ne noNB noBB subj, of A]
      implicitNumBanks_small [OF small] by simp
  have dNB: "data NB = SYCLIntelNumBanksAttr (IntegerLiteral (2 ^ length vs))"
    and iNB: "isImplicit NB"
    by (simp_all add: NB_def CreateImplicit_def)
  have dBB: "data BB = SYCLIntelBankBitsAttr (map ConstantExpr vs)"
    by (simp add: BB_def Create_def)
  have gNB: "getAttr castNumBanks D1 = Some (NB, IntegerLiteral (2 ^ length vs))"
    unfolding D1' by (simp add: getAttr_addAttr getAttr_addImplicitMemory noNB dNB dBB)
  have gBB: "getAttr castBankBits D1 = Some (BB, map ConstantExpr vs)"
    unfolding D1' by (simp add: getAttr_addAttr getAttr_addImplicitMemory noBB dNB dBB)
  have mem: "hasAttr castMemory D1"
    unfolding D1' by (simp add: hasAttr_addAttr)
  have subj1: "\<not> (SYCLIsDevice L \<and> CheckValidFPGAMemoryAttributesVar D1)"
    unfolding D1' using subj by simp
  have part2: "(ceillog2 (nat v) = length vs \<longrightarrow>
               snd (AddSYCLIntelNumBanksAttr L D1 CI (IntegerLiteral v)) = [] \<and>
               attrsOfKind AT_SYCLIntelNumBanks
                 (fst (AddSYCLIntelNumBanksAttr L D1 CI (IntegerLiteral v))) =
                 [Create (ciLoc CI) (SYCLIntelNumBanksAttr (ConstantExpr v))]) \<and>
            (ceillog2 (nat v) \<noteq> length vs \<longrightarrow>
               AddSYCLIntelNumBanksAttr L D1 CI (IntegerLiteral v) =
                 (D1, [Diag err_bankbits_numbanks_conflicting (ExprLoc (ciLoc CI) 0)
                         [Name (getParsedKind CI)]]))"
    if pow: "\<exists>k. v = 2 ^ k" for v
  proof -
    from pow have p2: "isPowerOf2 v" by (simp add: isPowerOf2_iff)
    from pow have pos: "0 < v" by auto
    have clb: "ceilLogBase2 v = ceillog2 (nat v)" using pos by (simp add: ceilLogBase2_def)
    have att: "attachNumBanks D1 CI (ConstantExpr v) =
                 addAttr (Create (ciLoc CI) (SYCLIntelNumBanksAttr (ConstantExpr v)))
                   (dropAttr castNumBanks D1)"
      unfolding attachNumBanks_def using gNB iNB by (simp add: addImplicitMemory_idem [OF mem])
    have cnt: "attrsOfKind AT_SYCLIntelNumBanks (attachNumBanks D1 CI (ConstantExpr v)) =
                 [Create (ciLoc CI) (SYCLIntelNumBanksAttr (ConstantExpr v))]"
      unfolding att by (simp add: attrsOfKind_addAttr attrsOfKind_dropNumBanks Create_def)
    show ?thesis
      unfolding AddSYCLIntelNumBanksAttr_def
      using p2 pos clb gBB gNB subj1 cnt by auto
  qed
  show ?thesis using gNB part2 unfolding NB_def by blast
qed

theorem bank_bits_synthesizes_numbanks_witness:
  "getAttr castNumBanks
     (fst (handleSYCLIntelBankBitsAttr syclDevice localVariable (written AT_SYCLIntelBankBits 1)
             (map IntegerLiteral [0, 1]))) =
     Some (CreateImplicit (SYCLIntelNumBanksAttr (IntegerLiteral 4)), IntegerLiteral 4) \<and>
   snd (AddSYCLIntelNumBanksAttr syclDevice
          (fst (handleSYCLIntelBankBitsAttr syclDevice localVariable (written AT_SYCLIntelBankBits 1)
                  (map IntegerLiteral [0, 1])))
          (written AT_SYCLIntelNumBanks 2) (IntegerLiteral 4)) = [] \<and>
   attrsOfKind AT_SYCLIntelNumBanks
     (fst (AddSYCLIntelNumBanksAttr syclDevice
             (fst (handleSYCLIntelBankBitsAttr syclDevice localVariable (written AT_SYCLIntelBankBits 1)
                     (map IntegerLiteral [0, 1])))
             (written AT_SYCLIntelNumBanks 2) (IntegerLiteral 4))) =
     [Create 2 (SYCLIntelNumBanksAttr (ConstantExpr 4))] \<and>
   AddSYCLIntelNumBanksAttr syclDevice
     (fst (handleSYCLIntelBankBitsAttr syclDevice localVariable (written AT_SYCLIntelBankBits 1)
             (map IntegerLiteral [0, 1])))
     (written AT_SYCLIntelNumBanks 2) (IntegerLiteral 8) =
     (fst (handleSYCLIntelBankBitsAttr syclDevice localVariable (written AT_SYCLIntelBankBits 1)
             (map IntegerLiteral [0, 1])),
      [Diag err_bankbits_numbanks_conflicting (ExprLoc 2 0) [Name AT_SYCLIntelNumBanks]])"
proof -
  have nonneg: "\<forall>v \<in> set [0, 1 :: int]. 0 \<le> v" by simp
  have range: "\<forall>v \<in> set [0, 1 :: int]. v < 2 ^ 63" by simp
  have steps: "(\<forall>i. Suc i < length [0, 1 :: int] \<longrightarrow> [0, 1 :: int] ! Suc i = [0, 1] ! i + 1) \<or>
               (\<forall>i. Suc i < length [0, 1 :: int] \<longrightarrow> [0, 1 :: int] ! Suc i = [0, 1] ! i - 1)"
    by simp
  have ne: "[0, 1 :: int] \<noteq> []" by simp
  have small: "length [0, 1 :: int] < 32" by simp
  have noNB: "getAttr castNumBanks localVariable = None"
    by (simp add: getAttr_def localVariable_def)
  have noBB: "getAttr castBankBits localVariable = None"
    by (simp add: getAttr_def localVariable_def)
  have subj: "\<not> (SYCLIsDevice syclDevice \<and> CheckValidFPGAMemoryAttributesVar localVariable)"
    by (simp add: CheckValidFPGAMemoryAttributesVar_def localVariable_def)
  have four: "\<exists>k. (4::int) = 2 ^ k" by (rule exI [of _ 2]) simp
  have eight: "\<exists>k. (8::int) = 2 ^ k" by (rule exI [of _ 3]) simp
  have c4: "ceillog2 (nat 4) = length [0, 1 :: int]"
    using ceillog2_2_power [of 2] by simp
  have c8: "ceillog2 (nat 8) \<noteq> length [0, 1 :: int]"
    using ceillog2_2_power [of 3] by simp
  note main = bank_bits_synthesizes_numbanks [OF nonneg range steps ne small noNB noBB subj refl,
      of "written AT_SYCLIntelBankBits 1" "written AT_SYCLIntelNumBanks 2"]
  from main have a: "getAttr castNumBanks
     (fst (handleSYCLIntelBankBitsAttr syclDevice localVariable (written AT_SYCLIntelBankBits 1)
             (map IntegerLiteral [0, 1]))) =
     Some (CreateImplicit (SYCLIntelNumBanksAttr (IntegerLiteral 4)), IntegerLiteral 4)"
    by simp
  from main four c4 have b: "snd (AddSYCLIntelNumBanksAttr syclDevice
          (fst (handleSYCLIntelBankBitsAttr syclDevice localVariable (written AT_SYCLIntelBankBits 1)
                  (map IntegerLiteral [0, 1])))
          (written AT_SYCLIntelNumBanks 2) (IntegerLiteral 4)) = [] \<and>
   attrsOfKind AT_SYCLIntelNumBanks
     (fst (AddSYCLIntelNumBanksAttr syclDevice
             (fst (handleSYCLIntelBankBitsAttr syclDevice localVariable (written AT_SYCLIntelBankBits 1)
                     (map IntegerLiteral [0, 1])))
             (written AT_SYCLIntelNumBanks 2) (IntegerLiteral 4))) =
     [Create (ciLoc (written AT_SYCLIntelNumBanks 2)) (SYCLIntelNumBanksAttr (ConstantExpr 4))]"
    by blast
  from main eight c8 have c: "AddSYCLIntelNumBanksAttr syclDevice
     (fst (handleSYCLIntelBankBitsAttr syclDevice localVariable (written AT_SYCLIntelBankBits 1)
             (map IntegerLiteral [0, 1])))
     (written AT_SYCLIntelNumBanks 2) (IntegerLiteral 8) =
     (fst (handleSYCLIntelBankBitsAttr syclDevice localVariable (written AT_SYCLIntelBankBits 1)
             (map IntegerLiteral [0, 1])),
      [Diag err_bankbits_numbanks_conflicting (ExprLoc (ciLoc (written AT_SYCLIntelNumBanks 2)) 0)
         [Name (getParsedKind (written AT_SYCLIntelNumBanks 2))]])"
    by blast
  show ?thesis using a b c by (simp add: written_def)
qed

text \<open>
  Claim C1 as stated fails.  After \<^verbatim>\<open>bank_bits(0,1)\<close> the value \<open>3\<close> has
  \<open>\<lceil>log\<^sub>2 3\<rceil> = 2\<close>, the number of bank bits, yet \<^verbatim>\<open>numbanks(3)\<close> is not attached: it is
  rejected because it is not a power of two.
\<close>

theorem numbanks_ceil_log_counterexample:
  "ceillog2 3 = length [IntegerLiteral 0, IntegerLiteral 1] \<and>
   handleSYCLIntelBankBitsAttr syclDevice localVariable (written AT_SYCLIntelBankBits 1)
     [IntegerLiteral 0, IntegerLiteral 1] = (localVariableWithBankBits, []) \<and>
   AddSYCLIntelNumBanksAttr syclDevice localVariableWithBankBits
     (written AT_SYCLIntelNumBanks 2) (IntegerLiteral 3) =
     (localVariableWithBankBits,
      [Diag err_attribute_argument_not_power_of_two (ExprLoc 2 0) [Name AT_SYCLIntelNumBanks]])"
proof -
  have c3: "ceillog2 3 = 2" by (rule ceillog2_eqI) simp_all
  have p3: "\<not> isPowerOf2 3" by (simp add: isPowerOf2_def compute_floorlog)
  have second: "AddSYCLIntelNumBanksAttr syclDevice localVariableWithBankBits
     (written AT_SYCLIntelNumBanks 2) (IntegerLiteral 3) =
     (localVariableWithBankBits,
      [Diag err_attribute_argument_not_power_of_two (ExprLoc 2 0) [Name AT_SYCLIntelNumBanks]])"
    by (simp add: AddSYCLIntelNumBanksAttr_def p3 written_def)
  show ?thesis using c3 second handle_bank_bits_zero_one by simp
qed

section \<open>Implicit attributes give way to explicit ones\<close>

text \<open>
  Claim C3, amended.  The two kinds of FPGA memory attributes that are created implicitly
  are \<^verbatim>\<open>numbanks\<close> (by \<^verbatim>\<open>bank_bits\<close>, as an integer literal) and \<^verbatim>\<open>fpga_memory\<close>.
  If the declaration's \<^verbatim>\<open>numbanks\<close> is such an implicit one and the function that adds
  an explicit \<^verbatim>\<open>numbanks\<close> is given one that is value-dependent, or that is a power
  of two consistent with the bank bits on a declaration the attribute applies to, then
  nothing is diagnosed and afterwards the only \<^verbatim>\<open>numbanks\<close> of the declaration is the
  explicit one, whatever the two values are.  The same holds when the handler of
  \<^verbatim>\<open>fpga_memory\<close> is given an explicit attribute with a valid argument and the
  declaration's memory attribute is implicit.
\<close>

theorem explicit_replaces_implicit:
  "(getAttr castNumBanks D = Some (NBA, IntegerLiteral c) \<and> isImplicit NBA \<and>
      VerifyIntegerConstantExpression E = Some (E', v) \<and> (\<exists>k. v = 2 ^ k) \<and>
      (\<forall>BBA BBArgs. getAttr castBankBits D = Some (BBA, BBArgs) \<longrightarrow>
                     length BBArgs = ceillog2 (nat v)) \<and>
      \<not> (SYCLIsDevice L \<and> CheckValidFPGAMemoryAttributesVar D) \<longrightarrow>
    snd (AddSYCLIntelNumBanksAttr L D CI E) = [] \<and>
    attrsOfKind AT_SYCLIntelNumBanks (fst (AddSYCLIntelNumBanksAttr L D CI E)) =
      [\<lparr>data = SYCLIntelNumBanksAttr (ConstantExpr v), isImplicit = False,
         getLoc = AttrLoc (ciLoc CI)\<rparr>]) \<and>
   (getAttr castNumBanks D = Some (NBA, IntegerLiteral c) \<and> isImplicit NBA \<and>
      isValueDependent E \<longrightarrow>
    snd (AddSYCLIntelNumBanksAttr L D CI E) = [] \<and>
    attrsOfKind AT_SYCLIntelNumBanks (fst (AddSYCLIntelNumBanksAttr L D CI E)) =
      [\<lparr>data = SYCLIntelNumBanksAttr E, isImplicit = False, getLoc = AttrLoc (ciLoc CI)\<rparr>]) \<and>
   (getAttr castMemory D = Some (MA, k0) \<and> isImplicit MA \<and>
      (case StrArg of None \<Rightarrow> Some Default | Some r \<Rightarrow> r) = Some k \<and>
      \<not> (SYCLIsDevice L \<and> CheckValidFPGAMemoryAttributesVar D) \<longrightarrow>
    snd (handleSYCLIntelMemoryAttr L D CI StrArg) = [] \<and>
    attrsOfKind AT_SYCLIntelMemory (fst (handleSYCLIntelMemoryAttr L D CI StrArg)) =
      [\<lparr>data = SYCLIntelMemoryAttr k, isImplicit = False, getLoc = AttrLoc (ciLoc CI)\<rparr>])"
proof (intro conjI impI)
  assume h: "getAttr castNumBanks D = Some (NBA, IntegerLiteral c) \<and> isImplicit NBA \<and>
      VerifyIntegerConstantExpression E = Some (E', v) \<and> (\<exists>k. v = 2 ^ k) \<and>
      (\<forall>BBA BBArgs. getAttr castBankBits D = Some (BBA, BBArgs) \<longrightarrow>
                     length BBArgs = ceillog2 (nat v)) \<and>
      \<not> (SYCLIsDevice L \<and> CheckValidFPGAMemoryAttributesVar D)"
  then have E': "E' = ConstantExpr v" and nd: "\<not> isValueDependent E"
    using Verify_Some by blast+
  from h have p2: "isPowerOf2 v" by (simp add: isPowerOf2_iff)
  from h have pos: "0 < v" by auto
  have clb: "ceilLogBase2 v = ceillog2 (nat v)" using pos by (simp add: ceilLogBase2_def)
  have g1: "getAttr castNumBanks (addImplicitMemory D) = Some (NBA, IntegerLiteral c)"
    using h by (simp add: getAttr_addImplicitMemory)
  have att: "attachNumBanks D CI (ConstantExpr v) =
               addAttr (Create (ciLoc CI) (SYCLIntelNumBanksAttr (ConstantExpr v)))
                 (dropAttr castNumBanks (addImplicitMemory D))"
    unfolding attachNumBanks_def using g1 h by (simp add: Let_def)
  have cnt: "attrsOfKind AT_SYCLIntelNumBanks (attachNumBanks D CI (ConstantExpr v)) =
               [\<lparr>data = SYCLIntelNumBanksAttr (ConstantExpr v), isImplicit = False,
                  getLoc = AttrLoc (ciLoc CI)\<rparr>]"
    unfolding att by (simp add: attrsOfKind_addAttr attrsOfKind_dropNumBanks Create_def)
  have res: "AddSYCLIntelNumBanksAttr L D CI E = (attachNumBanks D CI (ConstantExpr v), [])"
    unfolding AddSYCLIntelNumBanksAttr_def
    using h nd E' p2 pos clb by (auto split: option.splits)
  show "snd (AddSYCLIntelNumBanksAttr L D CI E) = []" by (simp add: res)
  show "attrsOfKind AT_SYCLIntelNumBanks (fst (AddSYCLIntelNumBanksAttr L D CI E)) =
      [\<lparr>data = SYCLIntelNumBanksAttr (ConstantExpr v), isImplicit = False,
         getLoc = AttrLoc (ciLoc CI)\<rparr>]"
    by (simp add: res cnt)
next
  assume h: "getAttr castNumBanks D = Some (NBA, IntegerLiteral c) \<and> isImplicit NBA \<and>
      isValueDependent E"
  have g1: "getAttr castNumBanks (addImplicitMemory D) = Some (NBA, IntegerLiteral c)"
    using h by (simp add: getAttr_addImplicitMemory)
  have att: "attachNumBanks D CI E =
               addAttr (Create (ciLoc CI) (SYCLIntelNumBanksAttr E))
                 (dropAttr castNumBanks (addImplicitMemory D))"
    unfolding attachNumBanks_def using g1 h by (simp add: Let_def)
  have cnt: "attrsOfKind AT_SYCLIntelNumBanks (attachNumBanks D CI E) =
               [\<lparr>data = SYCLIntelNumBanksAttr E, isImplicit = False, getLoc = AttrLoc (ciLoc CI)\<rparr>]"
    unfolding att by (simp add: attrsOfKind_addAttr attrsOfKind_dropNumBanks Create_def)
  have res: "AddSYCLIntelNumBanksAttr L D CI E = (attachNumBanks D CI E, [])"
    unfolding AddSYCLIntelNumBanksAttr_def using h by simp
  show "snd (AddSYCLIntelNumBanksAttr L D CI E) = []" by (simp add: res)
  show "attrsOfKind AT_SYCLIntelNumBanks (fst (AddSYCLIntelNumBanksAttr L D CI E)) =
      [\<lparr>data = SYCLIntelNumBanksAttr E, isImplicit = False, getLoc = AttrLoc (ciLoc CI)\<rparr>]"
    by (simp add: res cnt)
next
  assume h: "getAttr castMemory D = Some (MA, k0) \<and> isImplicit MA \<and>
      (case StrArg of None \<Rightarrow> Some Default | Some r \<Rightarrow> r) = Some k \<and>
      \<not> (SYCLIsDevice L \<and> CheckValidFPGAMemoryAttributesVar D)"
  have sub: "\<not> (SYCLIsDevice L \<and> CheckValidFPGAMemoryAttributesVar (dropAttr castMemory D))"
    using h by (simp add: dropAttr_def)
  have res: "handleSYCLIntelMemoryAttr L D CI StrArg =
               (addAttr (Create (ciLoc CI) (SYCLIntelMemoryAttr k)) (dropAttr castMemory D), [])"
    unfolding handleSYCLIntelMemoryAttr_def using h sub by (simp add: Let_def)
  show "snd (handleSYCLIntelMemoryAttr L D CI StrArg) = []" by (simp add: res)
  show "attrsOfKind AT_SYCLIntelMemory (fst (handleSYCLIntelMemoryAttr L D CI StrArg)) =
      [\<lparr>data = SYCLIntelMemoryAttr k, isImplicit = False, getLoc = AttrLoc (ciLoc CI)\<rparr>]"
    by (simp add: res attrsOfKind_addAttr attrsOfKind_dropMemory Create_def)
qed

theorem explicit_replaces_implicit_witness:
  "snd (AddSYCLIntelNumBanksAttr syclDevice localVariableWithBankBits
          (written AT_SYCLIntelNumBanks 2) (IntegerLiteral 4)) = [] \<and>
   attrsOfKind AT_SYCLIntelNumBanks
     (fst (AddSYCLIntelNumBanksAttr syclDevice localVariableWithBankBits
             (written AT_SYCLIntelNumBanks 2) (IntegerLiteral 4))) =
     [\<lparr>data = SYCLIntelNumBanksAttr (ConstantExpr 4), isImplicit = False, getLoc = AttrLoc 2\<rparr>] \<and>
   snd (AddSYCLIntelNumBanksAttr syclDevice localVariableWithBankBits
          (written AT_SYCLIntelNumBanks 2) (ValueDependent 0)) = [] \<and>
   attrsOfKind AT_SYCLIntelNumBanks
     (fst (AddSYCLIntelNumBanksAttr syclDevice localVariableWithBankBits
             (written AT_SYCLIntelNumBanks 2) (ValueDependent 0))) =
     [\<lparr>data = SYCLIntelNumBanksAttr (ValueDependent 0), isImplicit = False, getLoc = AttrLoc 2\<rparr>] \<and>
   snd (handleSYCLIntelMemoryAttr syclDevice localVariableWithBankBits
          (written AT_SYCLIntelMemory 3) (Some (Some MLAB))) = [] \<and>
   attrsOfKind AT_SYCLIntelMemory
     (fst (handleSYCLIntelMemoryAttr syclDevice localVariableWithBankBits
             (written AT_SYCLIntelMemory 3) (Some (Some MLAB)))) =
     [\<lparr>data = SYCLIntelMemoryAttr MLAB, isImplicit = False, getLoc = AttrLoc 3\<rparr>]"
proof -
  let ?NBA = "\<lparr>data = SYCLIntelNumBanksAttr (IntegerLiteral 4), isImplicit = True, getLoc = NoLoc\<rparr>"
  let ?MA = "\<lparr>data = SYCLIntelMemoryAttr Default, isImplicit = True, getLoc = NoLoc\<rparr>"
  have gNB: "getAttr castNumBanks localVariableWithBankBits = Some (?NBA, IntegerLiteral 4)"
    by (simp add: getAttr_def localVariableWithBankBits_def)
  have gM: "getAttr castMemory localVariableWithBankBits = Some (?MA, Default)"
    by (simp add: getAttr_def localVariableWithBankBits_def)
  have gBB: "\<forall>BBA BBArgs. getAttr castBankBits localVariableWithBankBits = Some (BBA, BBArgs) \<longrightarrow>
                     length BBArgs = ceillog2 (nat 4)"
    using ceillog2_2_power [of 2] by (simp add: getAttr_def localVariableWithBankBits_def)
  have four: "\<exists>k. (4::int) = 2 ^ k" by (rule exI [of _ 2]) simp
  have subj: "\<not> (SYCLIsDevice syclDevice \<and> CheckValidFPGAMemoryAttributesVar localVariableWithBankBits)"
    by (simp add: CheckValidFPGAMemoryAttributesVar_def localVariableWithBankBits_def
        localVariable_def)
  have v4: "VerifyIntegerConstantExpression (IntegerLiteral 4) = Some (ConstantExpr 4, 4)"
    by simp
  have dep: "isValueDependent (ValueDependent 0)" by simp
  have imp: "isImplicit ?NBA" "isImplicit ?MA" by simp_all
  have arg: "(case Some (Some MLAB) of None \<Rightarrow> Some Default | Some r \<Rightarrow> r) = Some MLAB" by simp
  note a = explicit_replaces_implicit [of localVariableWithBankBits ?NBA 4 "IntegerLiteral 4"
      "ConstantExpr 4" 4 syclDevice "written AT_SYCLIntelNumBanks 2" ?MA Default "Some (Some MLAB)" MLAB,
      THEN conjunct1, rule_format]
  note b = explicit_replaces_implicit [of localVariableWithBankBits ?NBA 4 "ValueDependent 0"
      "ConstantExpr 4" 4 syclDevice "written AT_SYCLIntelNumBanks 2" ?MA Default "Some (Some MLAB)" MLAB,
      THEN conjunct2, THEN conjunct1, rule_format]
  note c = explicit_replaces_implicit [of localVariableWithBankBits ?NBA 4 "IntegerLiteral 4"
      "ConstantExpr 4" 4 syclDevice "written AT_SYCLIntelMemory 3" ?MA Default "Some (Some MLAB)" MLAB,
      THEN conjunct2, THEN conjunct2, rule_format]
  have a': "snd (AddSYCLIntelNumBanksAttr syclDevice localVariableWithBankBits
          (written AT_SYCLIntelNumBanks 2) (IntegerLiteral 4)) = [] \<and>
     attrsOfKind AT_SYCLIntelNumBanks
     (fst (AddSYCLIntelNumBanksAttr syclDevice localVariableWithBankBits
             (written AT_SYCLIntelNumBanks 2) (IntegerLiteral 4))) =
     [\<lparr>data = SYCLIntelNumBanksAttr (ConstantExpr 4), isImplicit = False,
        getLoc = AttrLoc (ciLoc (written AT_SYCLIntelNumBanks 2))\<rparr>]"
    using a gNB imp(1) v4 four gBB subj by blast
  have b': "snd (AddSYCLIntelNumBanksAttr syclDevice localVariableWithBankBits
          (written AT_SYCLIntelNumBanks 2) (ValueDependent 0)) = [] \<and>
     attrsOfKind AT_SYCLIntelNumBanks
     (fst (AddSYCLIntelNumBanksAttr syclDevice localVariableWithBankBits
             (written AT_SYCLIntelNumBanks 2) (ValueDependent 0))) =
     [\<lparr>data = SYCLIntelNumBanksAttr (ValueDependent 0), isImplicit = False,
        getLoc = AttrLoc (ciLoc (written AT_SYCLIntelNumBanks 2))\<rparr>]"
    using b gNB imp(1) dep by blast
  have c': "snd (handleSYCLIntelMemoryAttr syclDevice localVariableWithBankBits
          (written AT_SYCLIntelMemory 3) (Some (Some MLAB))) = [] \<and>
     attrsOfKind AT_SYCLIntelMemory
     (fst (handleSYCLIntelMemoryAttr syclDevice localVariableWithBankBits
             (written AT_SYCLIntelMemory 3) (Some (Some MLAB)))) =
     [\<lparr>data = SYCLIntelMemoryAttr MLAB, isImplicit = False,
        getLoc = AttrLoc (ciLoc (written AT_SYCLIntelMemory 3))\<rparr>]"
    using c gM imp(2) arg subj by blast
  show ?thesis using a' b' c' by (simp add: written_def)
qed

text \<open>
  Claim C3 as stated fails for \<^verbatim>\<open>nodebug\<close>.  In a HIP host compilation the handler of
  the kernel attribute gives the function an implicit \<^verbatim>\<open>nodebug\<close>; the handler of a
  \<^verbatim>\<open>nodebug\<close> that the user writes adds the explicit attribute and leaves the implicit
  one, so that the declaration carries two of the kind, the first of them implicit.
\<close>

theorem explicit_nodebug_beside_implicit_counterexample:
  "handleGlobalAttr hipHost kernelFunction (written AT_CUDAGlobal 2) =
     (kernelFunction\<lparr>attrs :=
        [\<lparr>data = CUDAGlobalAttr, isImplicit = False, getLoc = AttrLoc 2\<rparr>,
         \<lparr>data = NoDebugAttr, isImplicit = True, getLoc = NoLoc\<rparr>]\<rparr>, []) \<and>
   handleNoDebugAttr hipHost
     (kernelFunction\<lparr>attrs :=
        [\<lparr>data = CUDAGlobalAttr, isImplicit = False, getLoc = AttrLoc 2\<rparr>,
         \<lparr>data = NoDebugAttr, isImplicit = True, getLoc = NoLoc\<rparr>]\<rparr>)
     (written AT_NoDebug 3) =
     (kernelFunction\<lparr>attrs :=
        [\<lparr>data = CUDAGlobalAttr, isImplicit = False, getLoc = AttrLoc 2\<rparr>,
         \<lparr>data = NoDebugAttr, isImplicit = True, getLoc = NoLoc\<rparr>,
         \<lparr>data = NoDebugAttr, isImplicit = False, getLoc = AttrLoc 3\<rparr>]\<rparr>, []) \<and>
   attrsOfKind AT_NoDebug
     (kernelFunction\<lparr>attrs :=
        [\<lparr>data = CUDAGlobalAttr, isImplicit = False, getLoc = AttrLoc 2\<rparr>,
         \<lparr>data = NoDebugAttr, isImplicit = True, getLoc = NoLoc\<rparr>,
         \<lparr>data = NoDebugAttr, isImplicit = False, getLoc = AttrLoc 3\<rparr>]\<rparr>) =
     [\<lparr>data = NoDebugAttr, isImplicit = True, getLoc = NoLoc\<rparr>,
      \<lparr>data = NoDebugAttr, isImplicit = False, getLoc = AttrLoc 3\<rparr>]"
proof -
  have empty: "attrs kernelFunction = []" by (simp add: kernelFunction_def)
  have fn: "returnTypeIsVoid kernelFunction" "\<not> isaCXXMethodDecl kernelFunction"
    "\<not> isInlineSpecified kernelFunction"
    by (simp_all add: kernelFunction_def)
  have hip: "HIP hipHost" "\<not> CUDAIsDevice hipHost" by (simp_all add: hipHost_def)
  have first: "handleGlobalAttr hipHost kernelFunction (written AT_CUDAGlobal 2) =
     (kernelFunction\<lparr>attrs :=
        [\<lparr>data = CUDAGlobalAttr, isImplicit = False, getLoc = AttrLoc 2\<rparr>,
         \<lparr>data = NoDebugAttr, isImplicit = True, getLoc = NoLoc\<rparr>]\<rparr>, [])"
    using fn hip empty
    by (simp add: handleGlobalAttr_def Let_def addAttr_def Create_def CreateImplicit_def written_def)
  have second: "handleNoDebugAttr hipHost
     (kernelFunction\<lparr>attrs :=
        [\<lparr>data = CUDAGlobalAttr, isImplicit = False, getLoc = AttrLoc 2\<rparr>,
         \<lparr>data = NoDebugAttr, isImplicit = True, getLoc = NoLoc\<rparr>]\<rparr>)
     (written AT_NoDebug 3) =
     (kernelFunction\<lparr>attrs :=
        [\<lparr>data = CUDAGlobalAttr, isImplicit = False, getLoc = AttrLoc 2\<rparr>,
         \<lparr>data = NoDebugAttr, isImplicit = True, getLoc = NoLoc\<rparr>,
         \<lparr>data = NoDebugAttr, isImplicit = False, getLoc = AttrLoc 3\<rparr>]\<rparr>, [])"
    by (simp add: handleNoDebugAttr_def addAttr_def Create_def written_def)
  show ?thesis
    unfolding first second by (simp add: attrsOfKind_def)
qed

section \<open>The work-group size attributes\<close>

lemma dims_cases:
  assumes "rs \<noteq> []" "length rs \<le> 3"
  obtains a where "rs = [a]" | a b where "rs = [a, b]" | a b c where "rs = [a, b, c]"
proof (cases rs)
  case Nil
  with assms show ?thesis by simp
next
  case (Cons a r1)
  show ?thesis
  proof (cases r1)
    case Nil
    with Cons that(1) show ?thesis by simp
  next
    case (Cons b r2)
    note c2 = this
    show ?thesis
    proof (cases r2)
      case Nil
      with c2 \<open>rs = a # r1\<close> that(2) show ?thesis by simp
    next
      case (Cons c r3)
      with c2 \<open>rs = a # r1\<close> assms(2) have "r3 = []" by simp
      with Cons c2 \<open>rs = a # r1\<close> that(3) show ?thesis by simp
    qed
  qed
qed

lemma unsigned_mod_dvd:
  assumes "0 \<le> c" "c < 2 ^ 32" "0 < n"
  shows "(getZExtValue c mod 2 ^ 32 mod getZExtValue n = 0) = (n dvd c)"
proof -
  have "nat c < 2 ^ 32" using assms(1,2) by (simp add: nat_less_iff)
  then have "nat c mod 2 ^ 32 = nat c" by simp
  moreover have "(nat c mod nat n = 0) = (nat n dvd nat c)" by (simp add: dvd_eq_mod_eq_0)
  moreover have "(nat n dvd nat c) = (n dvd c)"
    using assms(1,3) by (simp add: nat_dvd_iff)
  ultimately show ?thesis by (simp add: getZExtValue_def)
qed

lemma unsigned_mod_not_dvd:
  assumes "0 < c" "c < 4294967296" "0 < n"
  shows "(0 < getZExtValue c mod 4294967296 mod getZExtValue n) = (\<not> n dvd c)"
proof -
  define m where "m = getZExtValue c mod 4294967296 mod getZExtValue n"
  have "(m = 0) = (n dvd c)"
    unfolding m_def using unsigned_mod_dvd [of c n] assms by simp
  then have "(0 < m) = (\<not> n dvd c)" by auto
  then show ?thesis unfolding m_def .
qed

text \<open>
  In SYCL device mode the check compares the dimensions from the last one backwards
  with the Z, Y and X maximum.
\<close>

lemma CheckMaxAllowedWorkGroupSize_device:
  assumes "SYCLIsDevice L" "rs \<noteq> []" "length rs \<le> 3" "\<forall>r \<in> set rs. 0 < r"
      and "0 < mx" "0 < my" "0 < mz"
  shows "CheckMaxAllowedWorkGroupSize L (ConstantExpr (hd rs))
           (if 1 < length rs then Some (ConstantExpr (rs ! 1)) else None)
           (if 2 < length rs then Some (ConstantExpr (rs ! 2)) else None)
           (ConstantExpr mx) (ConstantExpr my) (ConstantExpr mz) =
         list_ex (\<lambda>(r, m). m < r) (zip (rev rs) [mz, my, mx])"
  using assms(2,3)
proof (cases rs rule: dims_cases)
  case (1 a)
  with assms show ?thesis
    by (auto simp: CheckMaxAllowedWorkGroupSize_def getZExtValue_def)
next
  case (2 a b)
  with assms show ?thesis
    by (auto simp: CheckMaxAllowedWorkGroupSize_def getZExtValue_def)
next
  case (3 a b c)
  with assms show ?thesis
    by (auto simp: CheckMaxAllowedWorkGroupSize_def getZExtValue_def)
qed

lemma CheckWorkGroupSize_last:
  assumes "rs \<noteq> []" "length rs \<le> 3" "\<forall>r \<in> set rs. 0 < r" "last rs < 2 ^ 32" "0 < n"
  shows "CheckWorkGroupSize (ConstantExpr n) (ConstantExpr (hd rs))
           (if 1 < length rs then Some (ConstantExpr (rs ! 1)) else None)
           (if 2 < length rs then Some (ConstantExpr (rs ! 2)) else None) =
         (\<not> n dvd last rs)"
  using assms(1,2)
proof (cases rs rule: dims_cases)
  case (1 a)
  with assms show ?thesis
    by (simp add: CheckWorkGroupSize_def unsigned_mod_not_dvd)
next
  case (2 a b)
  with assms show ?thesis
    by (simp add: CheckWorkGroupSize_def unsigned_mod_not_dvd)
next
  case (3 a b c)
  with assms show ?thesis
    by (simp add: CheckWorkGroupSize_def unsigned_mod_not_dvd)
qed

text \<open>The conversion of a list of positive literals, as the work-group attributes do it.\<close>

lemma CheckAndConvertArg_literal:
  "0 < v \<Longrightarrow> CheckAndConvertArg CI i (IntegerLiteral v) = (Some (ConstantExpr v), [])"
  by (simp add: CheckAndConvertArg_def)

lemma CheckAndConvertOptArg_literal:
  "0 < v \<Longrightarrow> CheckAndConvertOptArg CI i (Some (IntegerLiteral v)) = (Some (Some (ConstantExpr v)), [])"
  by (simp add: CheckAndConvertOptArg_def CheckAndConvertArg_literal)

lemma CheckAndConvertOptArg_None: "CheckAndConvertOptArg CI i None = (Some None, [])"
  by (simp add: CheckAndConvertOptArg_def)

lemma convert_reqd_literals:
  assumes "rs \<noteq> []" "length rs \<le> 3" "\<forall>r \<in> set rs. 0 < r"
  shows "CheckAndConvertArg CI 0 (IntegerLiteral (hd rs)) = (Some (ConstantExpr (hd rs)), [])"
    and "CheckAndConvertOptArg CI 1 (if 1 < length rs then Some (IntegerLiteral (rs ! 1)) else None) =
           (Some (if 1 < length rs then Some (ConstantExpr (rs ! 1)) else None), [])"
    and "CheckAndConvertOptArg CI 2 (if 2 < length rs then Some (IntegerLiteral (rs ! 2)) else None) =
           (Some (if 2 < length rs then Some (ConstantExpr (rs ! 2)) else None), [])"
  using assms
  by (cases rs rule: dims_cases;
      simp add: CheckAndConvertArg_literal CheckAndConvertOptArg_literal CheckAndConvertOptArg_None)+


text \<open>
  In SYCL device mode the check does what its comment asks for.  Take a required
  work-group size of one to three positive constants \<open>rs\<close> and a maximum work-group size
  of three positive constants.  The required dimensions are matched with the maximum
  from the last one backwards (the last required dimension with the Z maximum).  If some
  required dimension exceeds its maximum, then whichever of the two attributes arrives
  second is not attached and a diagnostic that names both attributes is emitted at it,
  with a note at the attribute that is already there.
\<close>

lemma device_pass_rejects_exceeding_required_size:
  assumes dev: "SYCLIsDevice L"
      and rs: "rs \<noteq> []" "length rs \<le> 3" "\<forall>r \<in> set rs. 0 < r"
      and ms: "0 < mx" "0 < my" "0 < mz"
      and exceeds: "list_ex (\<lambda>(r, m). m < r) (zip (rev rs) [mz, my, mx])"
  shows "(getAttr castReqdWorkGroupSize D =
            Some (R, (ConstantExpr (hd rs),
                      (if 1 < length rs then Some (ConstantExpr (rs ! 1)) else None),
                      (if 2 < length rs then Some (ConstantExpr (rs ! 2)) else None))) \<longrightarrow>
          AddSYCLIntelMaxWorkGroupSizeAttr L D CI
            (IntegerLiteral mx) (IntegerLiteral my) (IntegerLiteral mz) =
            (D, [Diag err_conflicting_sycl_function_attributes (AttrLoc (ciLoc CI))
                   [Name (getParsedKind CI), Name AT_SYCLReqdWorkGroupSize],
                 Diag note_conflicting_attribute (getLoc R) []])) \<and>
         (getAttr castMaxWorkGroupSize D =
            Some (M, (ConstantExpr mx, ConstantExpr my, ConstantExpr mz)) \<longrightarrow>
          fst (AddSYCLReqdWorkGroupSizeAttr L D CI (IntegerLiteral (hd rs))
                 (if 1 < length rs then Some (IntegerLiteral (rs ! 1)) else None)
                 (if 2 < length rs then Some (IntegerLiteral (rs ! 2)) else None)) = D \<and>
          (\<exists>ds. snd (AddSYCLReqdWorkGroupSizeAttr L D CI (IntegerLiteral (hd rs))
                        (if 1 < length rs then Some (IntegerLiteral (rs ! 1)) else None)
                        (if 2 < length rs then Some (IntegerLiteral (rs ! 2)) else None)) =
                 ds @ [Diag err_conflicting_sycl_function_attributes (AttrLoc (ciLoc CI))
                         [Name (getParsedKind CI), Name AT_SYCLIntelMaxWorkGroupSize],
                       Diag note_conflicting_attribute (getLoc M) []]))"
proof (intro conjI impI)
  assume g: "getAttr castReqdWorkGroupSize D =
            Some (R, (ConstantExpr (hd rs),
                      (if 1 < length rs then Some (ConstantExpr (rs ! 1)) else None),
                      (if 2 < length rs then Some (ConstantExpr (rs ! 2)) else None)))"
  have chk: "CheckMaxAllowedWorkGroupSize L (ConstantExpr (hd rs))
           (if 1 < length rs then Some (ConstantExpr (rs ! 1)) else None)
           (if 2 < length rs then Some (ConstantExpr (rs ! 2)) else None)
           (ConstantExpr mx) (ConstantExpr my) (ConstantExpr mz)"
    using CheckMaxAllowedWorkGroupSize_device [OF dev rs ms] exceeds by simp
  show "AddSYCLIntelMaxWorkGroupSizeAttr L D CI
            (IntegerLiteral mx) (IntegerLiteral my) (IntegerLiteral mz) =
            (D, [Diag err_conflicting_sycl_function_attributes (AttrLoc (ciLoc CI))
                   [Name (getParsedKind CI), Name AT_SYCLReqdWorkGroupSize],
                 Diag note_conflicting_attribute (getLoc R) []])"
    unfolding AddSYCLIntelMaxWorkGroupSizeAttr_def
    using ms g chk by (simp add: CheckAndConvertArg_literal)
next
  assume g: "getAttr castMaxWorkGroupSize D =
            Some (M, (ConstantExpr mx, ConstantExpr my, ConstantExpr mz))"
  have chk: "CheckMaxAllowedWorkGroupSize L (ConstantExpr (hd rs))
           (if 1 < length rs then Some (ConstantExpr (rs ! 1)) else None)
           (if 2 < length rs then Some (ConstantExpr (rs ! 2)) else None)
           (ConstantExpr mx) (ConstantExpr my) (ConstantExpr mz)"
    using CheckMaxAllowedWorkGroupSize_device [OF dev rs ms] exceeds by simp
  define dsMG where "dsMG =
     (case getAttr castMaxGlobalWorkDim D of
        Some (DeclAttr, MGValue) \<Rightarrow>
          if InvalidWorkGroupSizeAttrs MGValue (ConstantExpr (hd rs))
               (if 1 < length rs then Some (ConstantExpr (rs ! 1)) else None)
               (if 2 < length rs then Some (ConstantExpr (rs ! 2)) else None) then
            [Diag err_sycl_x_y_z_arguments_must_be_one (AttrLoc (ciLoc CI))
               [Name (getParsedKind CI), Name AT_SYCLIntelMaxGlobalWorkDim]]
          else []
      | None \<Rightarrow> [])"
  have res: "AddSYCLReqdWorkGroupSizeAttr L D CI (IntegerLiteral (hd rs))
                 (if 1 < length rs then Some (IntegerLiteral (rs ! 1)) else None)
                 (if 2 < length rs then Some (IntegerLiteral (rs ! 2)) else None) =
               (D, dsMG @ [Diag err_conflicting_sycl_function_attributes (AttrLoc (ciLoc CI))
                             [Name (getParsedKind CI), Name AT_SYCLIntelMaxWorkGroupSize],
                           Diag note_conflicting_attribute (getLoc M) []])"
    unfolding AddSYCLReqdWorkGroupSizeAttr_def convert_reqd_literals [OF rs] dsMG_def
    using g chk by (simp add: Let_def)
  show "fst (AddSYCLReqdWorkGroupSizeAttr L D CI (IntegerLiteral (hd rs))
                 (if 1 < length rs then Some (IntegerLiteral (rs ! 1)) else None)
                 (if 2 < length rs then Some (IntegerLiteral (rs ! 2)) else None)) = D"
    by (simp only: res fst_conv)
  show "\<exists>ds. snd (AddSYCLReqdWorkGroupSizeAttr L D CI (IntegerLiteral (hd rs))
                        (if 1 < length rs then Some (IntegerLiteral (rs ! 1)) else None)
                        (if 2 < length rs then Some (IntegerLiteral (rs ! 2)) else None)) =
                 ds @ [Diag err_conflicting_sycl_function_attributes (AttrLoc (ciLoc CI))
                         [Name (getParsedKind CI), Name AT_SYCLIntelMaxWorkGroupSize],
                       Diag note_conflicting_attribute (getLoc M) []]"
    by (rule exI [of _ dsMG]) (simp only: res snd_conv)
qed


text \<open>
  Below \<open>2 ^ 32\<close> the check of \<^verbatim>\<open>num_simd_work_items\<close> does what its comment asks for.
  Take a required work-group size of one to three positive constants whose last, fastest
  dimension is below \<open>2 ^ 32\<close>, and \<^verbatim>\<open>num_simd_work_items\<close> with a positive constant
  \<open>n\<close>.  If the declaration carries the required size and no \<^verbatim>\<open>num_simd_work_items\<close>,
  then \<^verbatim>\<open>num_simd_work_items(n)\<close> is attached when \<open>n\<close> divides the fastest dimension
  and is diagnosed and not attached when it does not.  If the declaration carries
  \<^verbatim>\<open>num_simd_work_items(n)\<close> and none of the other work-group attributes, the same
  holds for the required size that arrives.
\<close>

lemma simd_width_check_below_32_bits:
  assumes rs: "rs \<noteq> []" "length rs \<le> 3" "\<forall>r \<in> set rs. 0 < r"
      and small: "last rs < 2 ^ 32"
      and n: "0 < n"
  shows "(getAttr castReqdWorkGroupSize D =
            Some (R, (ConstantExpr (hd rs),
                      (if 1 < length rs then Some (ConstantExpr (rs ! 1)) else None),
                      (if 2 < length rs then Some (ConstantExpr (rs ! 2)) else None))) \<and>
          getAttr castNumSimdWorkItems D = None \<longrightarrow>
          AddSYCLIntelNumSimdWorkItemsAttr L D CI (IntegerLiteral n) =
            (if n dvd last rs then
               (addAttr (Create (ciLoc CI) (SYCLIntelNumSimdWorkItemsAttr (ConstantExpr n))) D, [])
             else
               (D, [Diag err_sycl_num_kernel_wrong_reqd_wg_size (AttrLoc (ciLoc CI))
                      [Name (getParsedKind CI), Name AT_SYCLReqdWorkGroupSize],
                    Diag note_conflicting_attribute (getLoc R) []]))) \<and>
         (getAttr castNumSimdWorkItems D = Some (S, ConstantExpr n) \<and>
          getAttr castReqdWorkGroupSize D = None \<and> getAttr castMaxWorkGroupSize D = None \<and>
          getAttr castMaxGlobalWorkDim D = None \<longrightarrow>
          AddSYCLReqdWorkGroupSizeAttr L D CI (IntegerLiteral (hd rs))
            (if 1 < length rs then Some (IntegerLiteral (rs ! 1)) else None)
            (if 2 < length rs then Some (IntegerLiteral (rs ! 2)) else None) =
            (if n dvd last rs then
               (addAttr (Create (ciLoc CI)
                           (SYCLReqdWorkGroupSizeAttr (ConstantExpr (hd rs))
                              (if 1 < length rs then Some (ConstantExpr (rs ! 1)) else None)
                              (if 2 < length rs then Some (ConstantExpr (rs ! 2)) else None))) D, [])
             else
               (D, [Diag err_sycl_num_kernel_wrong_reqd_wg_size (getLoc S)
                      [Name AT_SYCLIntelNumSimdWorkItems, Name (getParsedKind CI)],
                    Diag note_conflicting_attribute (AttrLoc (ciLoc CI)) []])))"
proof (intro conjI impI)
  assume g: "getAttr castReqdWorkGroupSize D =
            Some (R, (ConstantExpr (hd rs),
                      (if 1 < length rs then Some (ConstantExpr (rs ! 1)) else None),
                      (if 2 < length rs then Some (ConstantExpr (rs ! 2)) else None))) \<and>
          getAttr castNumSimdWorkItems D = None"
  show "AddSYCLIntelNumSimdWorkItemsAttr L D CI (IntegerLiteral n) =
            (if n dvd last rs then
               (addAttr (Create (ciLoc CI) (SYCLIntelNumSimdWorkItemsAttr (ConstantExpr n))) D, [])
             else
               (D, [Diag err_sycl_num_kernel_wrong_reqd_wg_size (AttrLoc (ciLoc CI))
                      [Name (getParsedKind CI), Name AT_SYCLReqdWorkGroupSize],
                    Diag note_conflicting_attribute (getLoc R) []]))"
    unfolding AddSYCLIntelNumSimdWorkItemsAttr_def
    using g n CheckWorkGroupSize_last [OF rs small n] by simp
next
  assume g: "getAttr castNumSimdWorkItems D = Some (S, ConstantExpr n) \<and>
          getAttr castReqdWorkGroupSize D = None \<and> getAttr castMaxWorkGroupSize D = None \<and>
          getAttr castMaxGlobalWorkDim D = None"
  show "AddSYCLReqdWorkGroupSizeAttr L D CI (IntegerLiteral (hd rs))
            (if 1 < length rs then Some (IntegerLiteral (rs ! 1)) else None)
            (if 2 < length rs then Some (IntegerLiteral (rs ! 2)) else None) =
            (if n dvd last rs then
               (addAttr (Create (ciLoc CI)
                           (SYCLReqdWorkGroupSizeAttr (ConstantExpr (hd rs))
                              (if 1 < length rs then Some (ConstantExpr (rs ! 1)) else None)
                              (if 2 < length rs then Some (ConstantExpr (rs ! 2)) else None))) D, [])
             else
               (D, [Diag err_sycl_num_kernel_wrong_reqd_wg_size (getLoc S)
                      [Name AT_SYCLIntelNumSimdWorkItems, Name (getParsedKind CI)],
                    Diag note_conflicting_attribute (AttrLoc (ciLoc CI)) []]))"
    unfolding AddSYCLReqdWorkGroupSizeAttr_def convert_reqd_literals [OF rs]
    using g CheckWorkGroupSize_last [OF rs small n] by (simp add: Let_def)
qed


text \<open>
  Claim C6.  The function that adds \<^verbatim>\<open>reqd_work_group_size\<close> accepts the dimension
  \<open>4294967300\<close>, which \<open>5\<close> divides.  The check reads the fastest dimension into a
  variable of type \<^verbatim>\<open>unsigned\<close>, where it is \<open>4\<close>, and \<^verbatim>\<open>num_simd_work_items(5)\<close>
  is diagnosed and not attached.
\<close>

theorem simd_width_check_truncates_fastest_dimension:
  "(5::int) dvd 4294967300 \<and>
   AddSYCLIntelNumSimdWorkItemsAttr syclDevice
     (fst (AddSYCLReqdWorkGroupSizeAttr syclDevice kernelFunction (written AT_SYCLReqdWorkGroupSize 2)
             (IntegerLiteral 4294967300) None None))
     (written AT_SYCLIntelNumSimdWorkItems 3) (IntegerLiteral 5) =
     (fst (AddSYCLReqdWorkGroupSizeAttr syclDevice kernelFunction (written AT_SYCLReqdWorkGroupSize 2)
             (IntegerLiteral 4294967300) None None),
      [Diag err_sycl_num_kernel_wrong_reqd_wg_size (AttrLoc 3)
         [Name AT_SYCLIntelNumSimdWorkItems, Name AT_SYCLReqdWorkGroupSize],
       Diag note_conflicting_attribute (AttrLoc 2) []]) \<and>
   getAttr castReqdWorkGroupSize
     (fst (AddSYCLReqdWorkGroupSizeAttr syclDevice kernelFunction (written AT_SYCLReqdWorkGroupSize 2)
             (IntegerLiteral 4294967300) None None)) =
     Some (Create 2 (SYCLReqdWorkGroupSizeAttr (ConstantExpr 4294967300) None None),
           (ConstantExpr 4294967300, None, None))"
proof -
  let ?R = "Create 2 (SYCLReqdWorkGroupSizeAttr (ConstantExpr 4294967300) None None)"
  have none: "getAttr T kernelFunction = None" for T :: "AttrData \<Rightarrow> 'a option"
    by (simp add: getAttr_def kernelFunction_def)
  have first: "AddSYCLReqdWorkGroupSizeAttr syclDevice kernelFunction
                 (written AT_SYCLReqdWorkGroupSize 2) (IntegerLiteral 4294967300) None None =
               (addAttr ?R kernelFunction, [])"
    by (simp add: AddSYCLReqdWorkGroupSizeAttr_def CheckAndConvertArg_literal
        CheckAndConvertOptArg_None none written_def)
  have gR: "getAttr castReqdWorkGroupSize (addAttr ?R kernelFunction) =
              Some (?R, (ConstantExpr 4294967300, None, None))"
    by (simp add: getAttr_addAttr none Create_def)
  have gS: "getAttr castNumSimdWorkItems (addAttr ?R kernelFunction) = None"
    by (simp add: getAttr_addAttr none Create_def)
  have lR: "getLoc ?R = AttrLoc 2" by (simp add: Create_def)
  have chk: "CheckWorkGroupSize (ConstantExpr 5) (ConstantExpr 4294967300) None None"
    by (simp add: CheckWorkGroupSize_def getZExtValue_def)
  have second: "AddSYCLIntelNumSimdWorkItemsAttr syclDevice (addAttr ?R kernelFunction)
                  (written AT_SYCLIntelNumSimdWorkItems 3) (IntegerLiteral 5) =
                (addAttr ?R kernelFunction,
                 [Diag err_sycl_num_kernel_wrong_reqd_wg_size (AttrLoc 3)
                    [Name AT_SYCLIntelNumSimdWorkItems, Name AT_SYCLReqdWorkGroupSize],
                  Diag note_conflicting_attribute (AttrLoc 2) []])"
    unfolding AddSYCLIntelNumSimdWorkItemsAttr_def
    by (simp add: gR gS chk lR written_def)
  have dv: "(5::int) dvd 4294967300" by simp
  show ?thesis unfolding first fst_conv using dv second gR by simp
qed

text \<open>
  Claim C7.  In the SYCL host pass the same functions add the two attributes, but the
  check does not reorder the required dimensions: it compares the first one with the Z
  maximum and the last one with the X maximum.  After \<^verbatim>\<open>max_work_group_size(8,4,4)\<close>
  the attribute \<^verbatim>\<open>reqd_work_group_size(2,2,8)\<close>, whose last dimension \<open>8\<close> exceeds the
  maximum \<open>4\<close> of that dimension, is attached without a diagnostic; in the device pass
  it is diagnosed and not attached.
\<close>

theorem host_pass_accepts_exceeding_required_size:
  "AddSYCLIntelMaxWorkGroupSizeAttr syclHost kernelFunction (written AT_SYCLIntelMaxWorkGroupSize 2)
     (IntegerLiteral 8) (IntegerLiteral 4) (IntegerLiteral 4) =
     (kernelFunction\<lparr>attrs :=
        [\<lparr>data = SYCLIntelMaxWorkGroupSizeAttr (ConstantExpr 8) (ConstantExpr 4) (ConstantExpr 4),
           isImplicit = False, getLoc = AttrLoc 2\<rparr>]\<rparr>, []) \<and>
   (4::int) < 8 \<and>
   AddSYCLReqdWorkGroupSizeAttr syclHost
     (kernelFunction\<lparr>attrs :=
        [\<lparr>data = SYCLIntelMaxWorkGroupSizeAttr (ConstantExpr 8) (ConstantExpr 4) (ConstantExpr 4),
           isImplicit = False, getLoc = AttrLoc 2\<rparr>]\<rparr>)
     (written AT_SYCLReqdWorkGroupSize 3)
     (IntegerLiteral 2) (Some (IntegerLiteral 2)) (Some (IntegerLiteral 8)) =
     (kernelFunction\<lparr>attrs :=
        [\<lparr>data = SYCLIntelMaxWorkGroupSizeAttr (ConstantExpr 8) (ConstantExpr 4) (ConstantExpr 4),
           isImplicit = False, getLoc = AttrLoc 2\<rparr>,
         \<lparr>data = SYCLReqdWorkGroupSizeAttr (ConstantExpr 2) (Some (ConstantExpr 2))
                   (Some (ConstantExpr 8)),
           isImplicit = False, getLoc = AttrLoc 3\<rparr>]\<rparr>, []) \<and>
   AddSYCLReqdWorkGroupSizeAttr syclDevice
     (kernelFunction\<lparr>attrs :=
        [\<lparr>data = SYCLIntelMaxWorkGroupSizeAttr (ConstantExpr 8) (ConstantExpr 4) (ConstantExpr 4),
           isImplicit = False, getLoc = AttrLoc 2\<rparr>]\<rparr>)
     (written AT_SYCLReqdWorkGroupSize 3)
     (IntegerLiteral 2) (Some (IntegerLiteral 2)) (Some (IntegerLiteral 8)) =
     (kernelFunction\<lparr>attrs :=
        [\<lparr>data = SYCLIntelMaxWorkGroupSizeAttr (ConstantExpr 8) (ConstantExpr 4) (ConstantExpr 4),
           isImplicit = False, getLoc = AttrLoc 2\<rparr>]\<rparr>,
      [Diag err_conflicting_sycl_function_attributes (AttrLoc 3)
         [Name AT_SYCLReqdWorkGroupSize, Name AT_SYCLIntelMaxWorkGroupSize],
       Diag note_conflicting_attribute (AttrLoc 2) []])"
proof -
  let ?M = "\<lparr>data = SYCLIntelMaxWorkGroupSizeAttr (ConstantExpr 8) (ConstantExpr 4) (ConstantExpr 4),
              isImplicit = False, getLoc = AttrLoc 2\<rparr>"
  let ?DM = "kernelFunction\<lparr>attrs := [?M]\<rparr>"
  have empty: "attrs kernelFunction = []" by (simp add: kernelFunction_def)
  have none: "getAttr T kernelFunction = None" for T :: "AttrData \<Rightarrow> 'a option"
    by (simp add: getAttr_def kernelFunction_def)
  have first: "AddSYCLIntelMaxWorkGroupSizeAttr syclHost kernelFunction
                 (written AT_SYCLIntelMaxWorkGroupSize 2)
                 (IntegerLiteral 8) (IntegerLiteral 4) (IntegerLiteral 4) = (?DM, [])"
    using empty
    by (simp add: AddSYCLIntelMaxWorkGroupSizeAttr_def CheckAndConvertArg_literal none
        addAttr_def Create_def written_def)
  have gM: "getAttr castMaxWorkGroupSize ?DM = Some (?M, (ConstantExpr 8, ConstantExpr 4, ConstantExpr 4))"
    and gO: "getAttr castMaxGlobalWorkDim ?DM = None" "getAttr castNumSimdWorkItems ?DM = None"
      "getAttr castReqdWorkGroupSize ?DM = None"
    by (simp_all add: getAttr_def)
  have host: "\<not> CheckMaxAllowedWorkGroupSize syclHost (ConstantExpr 2) (Some (ConstantExpr 2))
                   (Some (ConstantExpr 8)) (ConstantExpr 8) (ConstantExpr 4) (ConstantExpr 4)"
    by (simp add: CheckMaxAllowedWorkGroupSize_def getZExtValue_def syclHost_def)
  have device: "CheckMaxAllowedWorkGroupSize syclDevice (ConstantExpr 2) (Some (ConstantExpr 2))
                  (Some (ConstantExpr 8)) (ConstantExpr 8) (ConstantExpr 4) (ConstantExpr 4)"
    by (simp add: CheckMaxAllowedWorkGroupSize_def getZExtValue_def syclDevice_def)
  have conv: "CheckAndConvertArg CI 0 (IntegerLiteral 2) = (Some (ConstantExpr 2), [])"
    "CheckAndConvertOptArg CI 1 (Some (IntegerLiteral 2)) = (Some (Some (ConstantExpr 2)), [])"
    "CheckAndConvertOptArg CI 2 (Some (IntegerLiteral 8)) = (Some (Some (ConstantExpr 8)), [])"
    for CI
    by (simp_all add: CheckAndConvertArg_literal CheckAndConvertOptArg_literal)
  have second: "AddSYCLReqdWorkGroupSizeAttr syclHost ?DM (written AT_SYCLReqdWorkGroupSize 3)
     (IntegerLiteral 2) (Some (IntegerLiteral 2)) (Some (IntegerLiteral 8)) =
     (kernelFunction\<lparr>attrs :=
        [?M, \<lparr>data = SYCLReqdWorkGroupSizeAttr (ConstantExpr 2) (Some (ConstantExpr 2))
                   (Some (ConstantExpr 8)),
           isImplicit = False, getLoc = AttrLoc 3\<rparr>]\<rparr>, [])"
    unfolding AddSYCLReqdWorkGroupSizeAttr_def conv
    using gM gO host by (simp add: Let_def addAttr_def Create_def written_def)
  have third: "AddSYCLReqdWorkGroupSizeAttr syclDevice ?DM (written AT_SYCLReqdWorkGroupSize 3)
     (IntegerLiteral 2) (Some (IntegerLiteral 2)) (Some (IntegerLiteral 8)) =
     (?DM,
      [Diag err_conflicting_sycl_function_attributes (AttrLoc 3)
         [Name AT_SYCLReqdWorkGroupSize, Name AT_SYCLIntelMaxWorkGroupSize],
       Diag note_conflicting_attribute (AttrLoc 2) []])"
    unfolding AddSYCLReqdWorkGroupSizeAttr_def conv
    using gM gO device by (simp add: Let_def written_def)
  show ?thesis using first second third by simp
qed

section \<open>Mutual exclusion\<close>

text \<open>
  Claim C8.  On a declaration without attributes that \<^verbatim>\<open>fpga_register\<close> applies to,
  processing \<^verbatim>\<open>fpga_register\<close> and then \<^verbatim>\<open>numbanks\<close> with any argument attaches the
  register attribute only: \<^verbatim>\<open>numbanks\<close> is diagnosed as not compatible with it, with a
  note at the register attribute, and the declaration carries no \<^verbatim>\<open>numbanks\<close>.
\<close>

theorem register_excludes_numbanks:
  assumes "attrs D = []"
      and "\<not> (SYCLIsDevice L \<and> (declKind D = ParmVar \<or> CheckValidFPGAMemoryAttributesVar D))"
  shows "ProcessDeclAttributeList L D
           [\<lparr>parsedLoc = l1, parsedArgs = Args_Register\<rparr>,
            \<lparr>parsedLoc = l2, parsedArgs = Args_NumBanks E\<rparr>] =
           (addAttr (Create l1 SYCLIntelRegisterAttr) D,
            [Diag err_attributes_are_not_compatible (AttrLoc l2)
               [Name AT_SYCLIntelNumBanks, Name AT_SYCLIntelRegister],
             Diag note_conflicting_attribute (AttrLoc l1) []]) \<and>
         attrsOfKind AT_SYCLIntelNumBanks
           (fst (ProcessDeclAttributeList L D
                   [\<lparr>parsedLoc = l1, parsedArgs = Args_Register\<rparr>,
                    \<lparr>parsedLoc = l2, parsedArgs = Args_NumBanks E\<rparr>])) = []"
proof -
  let ?R = "\<lparr>parsedLoc = l1, parsedArgs = Args_Register\<rparr>"
  let ?N = "\<lparr>parsedLoc = l2, parsedArgs = Args_NumBanks E\<rparr>"
  let ?D1 = "addAttr (Create l1 SYCLIntelRegisterAttr) D"
  have m0: "diagnoseMutualExclusion D ?R = []"
    by (simp add: diagnoseMutualExclusion_def assms(1))
  have g0: "getAttr castRegister D = None"
    by (simp add: getAttr_def assms(1))
  have first: "ProcessDeclAttribute L D ?R = (?D1, [])"
    unfolding ProcessDeclAttribute_def handleDeclAttribute_def handleSYCLIntelRegisterAttr_def
    using m0 g0 assms(2) by (simp add: commonInfo_def)
  have a1: "attrs ?D1 = [Create l1 SYCLIntelRegisterAttr]"
    by (simp add: addAttr_def assms(1))
  have m1: "diagnoseMutualExclusion ?D1 ?N =
              [Diag err_attributes_are_not_compatible (AttrLoc l2)
                 [Name AT_SYCLIntelNumBanks, Name AT_SYCLIntelRegister],
               Diag note_conflicting_attribute (AttrLoc l1) []]"
    unfolding diagnoseMutualExclusion_def a1 by (simp add: Create_def mutuallyExclusive_def)
  have second: "ProcessDeclAttribute L ?D1 ?N = (?D1, diagnoseMutualExclusion ?D1 ?N)"
    unfolding ProcessDeclAttribute_def using m1 by simp
  have all: "ProcessDeclAttributeList L D [?R, ?N] = (?D1, diagnoseMutualExclusion ?D1 ?N)"
    by (simp add: first second)
  have none: "attrsOfKind AT_SYCLIntelNumBanks ?D1 = []"
    unfolding attrsOfKind_def a1 by (simp add: Create_def)
  show ?thesis unfolding all fst_conv using m1 none by simp
qed

theorem register_excludes_numbanks_witness:
  "ProcessDeclAttributeList syclDevice localVariable
     [\<lparr>parsedLoc = 2, parsedArgs = Args_Register\<rparr>,
      \<lparr>parsedLoc = 3, parsedArgs = Args_NumBanks (IntegerLiteral 4)\<rparr>] =
     (addAttr (Create 2 SYCLIntelRegisterAttr) localVariable,
      [Diag err_attributes_are_not_compatible (AttrLoc 3)
         [Name AT_SYCLIntelNumBanks, Name AT_SYCLIntelRegister],
       Diag note_conflicting_attribute (AttrLoc 2) []]) \<and>
   attrsOfKind AT_SYCLIntelNumBanks
     (fst (ProcessDeclAttributeList syclDevice localVariable
             [\<lparr>parsedLoc = 2, parsedArgs = Args_Register\<rparr>,
              \<lparr>parsedLoc = 3, parsedArgs = Args_NumBanks (IntegerLiteral 4)\<rparr>])) = []"
proof -
  have e: "attrs localVariable = []" by (simp add: localVariable_def)
  have s: "\<not> (SYCLIsDevice syclDevice \<and>
              (declKind localVariable = ParmVar \<or> CheckValidFPGAMemoryAttributesVar localVariable))"
    by (simp add: localVariable_def CheckValidFPGAMemoryAttributesVar_def)
  show ?thesis by (rule register_excludes_numbanks [OF e s])
qed


section \<open>Deferred validation\<close>

lemma attrs_addImplicitMemory_not_pending:
  "\<forall>a \<in> set (attrs D). \<not> isPending (data a) \<Longrightarrow>
   \<forall>a \<in> set (attrs (addImplicitMemory D)). \<not> isPending (data a)"
  by (auto simp: addImplicitMemory_def addAttr_def CreateImplicit_def)

lemma attrs_dropAttr_not_pending:
  "\<forall>a \<in> set (attrs D). \<not> isPending (data a) \<Longrightarrow>
   \<forall>a \<in> set (attrs (dropAttr T D)). \<not> isPending (data a)"
  by (auto simp: dropAttr_def)

text \<open>
  Instantiating a declaration whose only pending decoration is the last one re-enters the
  pipeline for that decoration on the declaration without it.
\<close>

lemma on_instantiated_single:
  assumes np: "\<forall>a \<in> set (attrs D0). \<not> isPending (data a)"
      and p: "isPending (data P)"
  shows "on_instantiated L \<sigma> (addAttr P D0) = reenter L \<sigma> (addAttr P D0) P"
    and "(addAttr P D0)\<lparr>attrs := remove1 P (attrs (addAttr P D0))\<rparr> = D0"
proof -
  have notin: "P \<notin> set (attrs D0)" using np p by blast
  have flt: "filter (\<lambda>a. isPending (data a)) (attrs (addAttr P D0)) = [P]"
    using np p by (simp add: addAttr_def filter_empty_conv)
  show "on_instantiated L \<sigma> (addAttr P D0) = reenter L \<sigma> (addAttr P D0) P"
    unfolding on_instantiated_def flt by (simp split: prod.splits)
  have rem: "remove1 P (attrs (addAttr P D0)) = attrs D0"
    using notin by (simp add: addAttr_def remove1_append)
  show "(addAttr P D0)\<lparr>attrs := remove1 P (attrs (addAttr P D0))\<rparr> = D0"
    unfolding rem by (simp add: addAttr_def)
qed

lemma instantiate_bank_width:
  assumes "\<forall>a \<in> set (attrs D0). \<not> isPending (data a)"
  shows "on_instantiated L \<sigma> (addAttr (Create l (SYCLIntelBankWidthAttr (ValueDependent n))) D0) =
           AddSYCLIntelBankWidthAttr L D0 (written AT_SYCLIntelBankWidth l) (IntegerLiteral (\<sigma> n))"
proof -
  let ?P = "Create l (SYCLIntelBankWidthAttr (ValueDependent n))"
  have p: "isPending (data ?P)" by (simp add: Create_def)
  show ?thesis
    unfolding on_instantiated_single(1) [OF assms p] reenter_def Let_def
      on_instantiated_single(2) [OF assms p]
    by (simp add: Create_def written_def)
qed

lemma instantiate_numbanks:
  assumes "\<forall>a \<in> set (attrs D0). \<not> isPending (data a)"
  shows "on_instantiated L \<sigma> (addAttr (Create l (SYCLIntelNumBanksAttr (ValueDependent n))) D0) =
           AddSYCLIntelNumBanksAttr L D0 (written AT_SYCLIntelNumBanks l) (IntegerLiteral (\<sigma> n))"
proof -
  let ?P = "Create l (SYCLIntelNumBanksAttr (ValueDependent n))"
  have p: "isPending (data ?P)" by (simp add: Create_def)
  show ?thesis
    unfolding on_instantiated_single(1) [OF assms p] reenter_def Let_def
      on_instantiated_single(2) [OF assms p]
    by (simp add: Create_def written_def)
qed

lemma instantiate_num_simd:
  assumes "\<forall>a \<in> set (attrs D0). \<not> isPending (data a)"
  shows "on_instantiated L \<sigma> (addAttr (Create l (SYCLIntelNumSimdWorkItemsAttr (ValueDependent n))) D0) =
           AddSYCLIntelNumSimdWorkItemsAttr L D0 (written AT_SYCLIntelNumSimdWorkItems l)
             (IntegerLiteral (\<sigma> n))"
proof -
  let ?P = "Create l (SYCLIntelNumSimdWorkItemsAttr (ValueDependent n))"
  have p: "isPending (data ?P)" by (simp add: Create_def)
  show ?thesis
    unfolding on_instantiated_single(1) [OF assms p] reenter_def Let_def
      on_instantiated_single(2) [OF assms p]
    by (simp add: Create_def written_def)
qed

lemma instantiate_max_global_work_dim:
  assumes "\<forall>a \<in> set (attrs D0). \<not> isPending (data a)"
  shows "on_instantiated L \<sigma> (addAttr (Create l (SYCLIntelMaxGlobalWorkDimAttr (ValueDependent n))) D0) =
           AddSYCLIntelMaxGlobalWorkDimAttr L D0 (written AT_SYCLIntelMaxGlobalWorkDim l)
             (IntegerLiteral (\<sigma> n))"
proof -
  let ?P = "Create l (SYCLIntelMaxGlobalWorkDimAttr (ValueDependent n))"
  have p: "isPending (data ?P)" by (simp add: Create_def)
  show ?thesis
    unfolding on_instantiated_single(1) [OF assms p] reenter_def Let_def
      on_instantiated_single(2) [OF assms p]
    by (simp add: Create_def written_def)
qed

lemma instantiate_reqd:
  assumes "\<forall>a \<in> set (attrs D0). \<not> isPending (data a)"
  shows "on_instantiated L \<sigma>
           (addAttr (Create l (SYCLReqdWorkGroupSizeAttr (ValueDependent nx)
                                 (map_option ValueDependent ny) (map_option ValueDependent nz))) D0) =
           AddSYCLReqdWorkGroupSizeAttr L D0 (written AT_SYCLReqdWorkGroupSize l)
             (IntegerLiteral (\<sigma> nx)) (map_option (\<lambda>n. IntegerLiteral (\<sigma> n)) ny)
             (map_option (\<lambda>n. IntegerLiteral (\<sigma> n)) nz)"
proof -
  let ?P = "Create l (SYCLReqdWorkGroupSizeAttr (ValueDependent nx)
                        (map_option ValueDependent ny) (map_option ValueDependent nz))"
  have p: "isPending (data ?P)" by (simp add: Create_def)
  show ?thesis
    unfolding on_instantiated_single(1) [OF assms p] reenter_def Let_def
      on_instantiated_single(2) [OF assms p]
    by (simp add: Create_def written_def option.map_comp comp_def)
qed

lemma instantiate_max:
  assumes "\<forall>a \<in> set (attrs D0). \<not> isPending (data a)"
  shows "on_instantiated L \<sigma>
           (addAttr (Create l (SYCLIntelMaxWorkGroupSizeAttr (ValueDependent nx)
                                 (ValueDependent ny) (ValueDependent nz))) D0) =
           AddSYCLIntelMaxWorkGroupSizeAttr L D0 (written AT_SYCLIntelMaxWorkGroupSize l)
             (IntegerLiteral (\<sigma> nx)) (IntegerLiteral (\<sigma> ny)) (IntegerLiteral (\<sigma> nz))"
proof -
  let ?P = "Create l (SYCLIntelMaxWorkGroupSizeAttr (ValueDependent nx)
                        (ValueDependent ny) (ValueDependent nz))"
  have p: "isPending (data ?P)" by (simp add: Create_def)
  show ?thesis
    unfolding on_instantiated_single(1) [OF assms p] reenter_def Let_def
      on_instantiated_single(2) [OF assms p]
    by (simp add: Create_def written_def)
qed

lemma attrsOfKind_addImplicitMemory:
  "K \<noteq> AT_SYCLIntelMemory \<Longrightarrow> attrsOfKind K (addImplicitMemory D) = attrsOfKind K D"
  by (simp add: addImplicitMemory_def attrsOfKind_addAttr CreateImplicit_def)

lemma addImplicitMemory_twice [simp]: "addImplicitMemory (addImplicitMemory D) = addImplicitMemory D"
  by (simp add: addImplicitMemory_idem)

text \<open>An implicit memory attribute that is already there does not change what bank\_width does.\<close>

lemma AddSYCLIntelBankWidthAttr_after_memory:
  "snd (AddSYCLIntelBankWidthAttr L (addImplicitMemory D) CI E) =
     snd (AddSYCLIntelBankWidthAttr L D CI E) \<and>
   attrsOfKind AT_SYCLIntelBankWidth (fst (AddSYCLIntelBankWidthAttr L (addImplicitMemory D) CI E)) =
     attrsOfKind AT_SYCLIntelBankWidth (fst (AddSYCLIntelBankWidthAttr L D CI E))"
  unfolding AddSYCLIntelBankWidthAttr_def
  by (auto simp: getAttr_addImplicitMemory attrsOfKind_addAttr attrsOfKind_addImplicitMemory
      split: option.splits)

text \<open>
  What \<^verbatim>\<open>numbanks\<close> with a literal does on two declarations that show it the same bank
  bits and the same eligibility, and either the same first \<^verbatim>\<open>numbanks\<close>, or none on one
  and one that holds no constant on the other.
\<close>

lemma numbanks_same_outcome:
  assumes bb: "getAttr castBankBits D' = getAttr castBankBits D"
      and cv: "CheckValidFPGAMemoryAttributesVar D' = CheckValidFPGAMemoryAttributesVar D"
      and att: "\<And>E. attachNumBanks D' CI E = attachNumBanks D CI E"
      and ex: "filter (\<lambda>a. \<not> isImplicit a) (attrsOfKind AT_SYCLIntelNumBanks D') =
               filter (\<lambda>a. \<not> isImplicit a) (attrsOfKind AT_SYCLIntelNumBanks D)"
      and nb: "getAttr castNumBanks D' = getAttr castNumBanks D \<or>
               (getAttr castNumBanks D' = None \<and>
                (\<exists>NBA e. getAttr castNumBanks D = Some (NBA, e) \<and> dyn_cast_ConstantExpr e = None))"
  shows "snd (AddSYCLIntelNumBanksAttr L D' CI (IntegerLiteral v)) =
           snd (AddSYCLIntelNumBanksAttr L D CI (IntegerLiteral v))"
    and "filter (\<lambda>a. \<not> isImplicit a)
           (attrsOfKind AT_SYCLIntelNumBanks (fst (AddSYCLIntelNumBanksAttr L D' CI (IntegerLiteral v)))) =
         filter (\<lambda>a. \<not> isImplicit a)
           (attrsOfKind AT_SYCLIntelNumBanks (fst (AddSYCLIntelNumBanksAttr L D CI (IntegerLiteral v))))"
proof -
  define tail where "tail X =
      (case getAttr castNumBanks X of
         Some (DeclAttr, DeclValue) \<Rightarrow>
           (case dyn_cast_ConstantExpr DeclValue of
              Some DeclVal \<Rightarrow>
                if v \<noteq> DeclVal then
                  (X, [Diag warn_duplicate_attribute (AttrLoc (ciLoc CI)) [Name (getParsedKind CI)],
                       Diag note_previous_attribute (getLoc DeclAttr) []])
                else (X, [])
            | None \<Rightarrow> (attachNumBanks X CI (ConstantExpr v), []))
       | None \<Rightarrow> (attachNumBanks X CI (ConstantExpr v), []))" for X
  define early where "early X =
      (if v \<le> 0 then
         Some [Diag err_attribute_requires_positive_integer (ExprLoc (ciLoc CI) 0)
                 [Name (getParsedKind CI), Select 0]]
       else if \<not> isPowerOf2 v then
         Some [Diag err_attribute_argument_not_power_of_two (ExprLoc (ciLoc CI) 0)
                 [Name (getParsedKind CI)]]
       else if (case getAttr castBankBits X of
                  Some (BBA, BBArgs) \<Rightarrow> length BBArgs \<noteq> ceilLogBase2 v
                | None \<Rightarrow> False) then
         Some [Diag err_bankbits_numbanks_conflicting (ExprLoc (ciLoc CI) 0)
                 [Name (getParsedKind CI)]]
       else if SYCLIsDevice L \<and> CheckValidFPGAMemoryAttributesVar X then
         Some [Diag err_fpga_attribute_incorrect_variable (AttrLoc (ciLoc CI))
                 [Name (getParsedKind CI), Select 1]]
       else None)" for X
  have body: "AddSYCLIntelNumBanksAttr L X CI (IntegerLiteral v) =
                (case early X of Some ds \<Rightarrow> (X, ds) | None \<Rightarrow> tail X)" for X
    by (simp add: AddSYCLIntelNumBanksAttr_def early_def tail_def)
  have e: "early D' = early D" by (simp add: early_def bb cv)
  have t: "snd (tail D') = snd (tail D) \<and>
           filter (\<lambda>a. \<not> isImplicit a) (attrsOfKind AT_SYCLIntelNumBanks (fst (tail D'))) =
           filter (\<lambda>a. \<not> isImplicit a) (attrsOfKind AT_SYCLIntelNumBanks (fst (tail D)))"
    using nb
  proof
    assume eq: "getAttr castNumBanks D' = getAttr castNumBanks D"
    show ?thesis
      unfolding tail_def eq att using ex by (auto split: option.splits)
  next
    assume "getAttr castNumBanks D' = None \<and>
            (\<exists>NBA e. getAttr castNumBanks D = Some (NBA, e) \<and> dyn_cast_ConstantExpr e = None)"
    then obtain NBA e where n': "getAttr castNumBanks D' = None"
      and g: "getAttr castNumBanks D = Some (NBA, e)" and nc: "dyn_cast_ConstantExpr e = None"
      by blast
    show ?thesis unfolding tail_def n' g att by (simp add: nc)
  qed
  from t have t1: "snd (tail D') = snd (tail D)"
    and t2: "filter (\<lambda>a. \<not> isImplicit a) (attrsOfKind AT_SYCLIntelNumBanks (fst (tail D'))) =
             filter (\<lambda>a. \<not> isImplicit a) (attrsOfKind AT_SYCLIntelNumBanks (fst (tail D)))"
    by blast+
  show "snd (AddSYCLIntelNumBanksAttr L D' CI (IntegerLiteral v)) =
           snd (AddSYCLIntelNumBanksAttr L D CI (IntegerLiteral v))"
    unfolding body e using t1 by (simp split: option.splits)
  show "filter (\<lambda>a. \<not> isImplicit a)
           (attrsOfKind AT_SYCLIntelNumBanks (fst (AddSYCLIntelNumBanksAttr L D' CI (IntegerLiteral v)))) =
         filter (\<lambda>a. \<not> isImplicit a)
           (attrsOfKind AT_SYCLIntelNumBanks (fst (AddSYCLIntelNumBanksAttr L D CI (IntegerLiteral v))))"
    unfolding body e using t2 ex by (simp split: option.splits)
qed

lemma attachNumBanks_after_memory:
  "attachNumBanks (addImplicitMemory D) CI E = attachNumBanks D CI E"
  by (simp add: attachNumBanks_def)

lemma hasAttr_dropAttr_other:
  assumes "\<And>d x. T d = Some x \<Longrightarrow> T' d = None"
  shows "hasAttr T (dropAttr T' D) = hasAttr T D"
  by (simp add: hasAttr_def getAttr_dropAttr_other [of T T', OF assms])

lemma NumBanks_not_Memory: "castMemory d = Some x \<Longrightarrow> castNumBanks d = None"
  by (cases d) auto

lemma NumBanks_not_BankBits: "castBankBits d = Some x \<Longrightarrow> castNumBanks d = None"
  by (cases d) auto

lemma attachNumBanks_after_drop:
  assumes "getAttr castNumBanks D = Some (NBA, e)" "isImplicit NBA"
  shows "attachNumBanks (dropAttr castNumBanks (addImplicitMemory D)) CI E = attachNumBanks D CI E"
proof -
  let ?D1 = "addImplicitMemory D"
  have g1: "getAttr castNumBanks ?D1 = Some (NBA, e)"
    using assms(1) by (simp add: getAttr_addImplicitMemory)
  have mem: "hasAttr castMemory (dropAttr castNumBanks ?D1)"
    using hasAttr_dropAttr_other [of castMemory castNumBanks ?D1, OF NumBanks_not_Memory] by simp
  have idem: "addImplicitMemory (dropAttr castNumBanks ?D1) = dropAttr castNumBanks ?D1"
    by (rule addImplicitMemory_idem [OF mem])
  show ?thesis
    unfolding attachNumBanks_def idem using g1 assms(2)
    by (simp add: Let_def getAttr_dropAttr_same)
qed

text \<open>
  The declaration that \<^verbatim>\<open>numbanks\<close> with a value-dependent argument leaves for the
  instantiation, and what the literal does on it.
\<close>

lemma deferred_numbanks:
  assumes np: "\<forall>a \<in> set (attrs D). \<not> isPending (data a)"
      and lit: "\<forall>NBA e. getAttr castNumBanks D = Some (NBA, e) \<and> isImplicit NBA \<longrightarrow>
                  dyn_cast_ConstantExpr e = None \<and> attrsOfKind AT_SYCLIntelNumBanks D = [NBA]"
  shows "AddSYCLIntelNumBanksAttr L D (written AT_SYCLIntelNumBanks l) (ValueDependent n) =
           (attachNumBanks D (written AT_SYCLIntelNumBanks l) (ValueDependent n), [])"
    and "last (attrs (attachNumBanks D (written AT_SYCLIntelNumBanks l) (ValueDependent n))) =
           Create l (SYCLIntelNumBanksAttr (ValueDependent n))"
    and "snd (on_instantiated L \<sigma>
                (attachNumBanks D (written AT_SYCLIntelNumBanks l) (ValueDependent n))) =
           snd (AddSYCLIntelNumBanksAttr L D (written AT_SYCLIntelNumBanks l) (IntegerLiteral (\<sigma> n)))"
    and "filter (\<lambda>a. \<not> isImplicit a) (attrsOfKind AT_SYCLIntelNumBanks
           (fst (on_instantiated L \<sigma>
                   (attachNumBanks D (written AT_SYCLIntelNumBanks l) (ValueDependent n))))) =
         filter (\<lambda>a. \<not> isImplicit a) (attrsOfKind AT_SYCLIntelNumBanks
           (fst (AddSYCLIntelNumBanksAttr L D (written AT_SYCLIntelNumBanks l)
                   (IntegerLiteral (\<sigma> n)))))"
proof -
  let ?CI = "written AT_SYCLIntelNumBanks l"
  let ?P = "Create l (SYCLIntelNumBanksAttr (ValueDependent n))"
  let ?D1 = "addImplicitMemory D"
  let ?lit = "IntegerLiteral (\<sigma> n)"
  show "AddSYCLIntelNumBanksAttr L D ?CI (ValueDependent n) =
           (attachNumBanks D ?CI (ValueDependent n), [])"
    by (simp add: AddSYCLIntelNumBanksAttr_def)
  show "last (attrs (attachNumBanks D ?CI (ValueDependent n))) = ?P"
    by (simp add: attachNumBanks_def Let_def addAttr_def written_def split: option.splits)
  have np1: "\<forall>a \<in> set (attrs ?D1). \<not> isPending (data a)"
    by (rule attrs_addImplicitMemory_not_pending [OF np])
  have np2: "\<forall>a \<in> set (attrs (dropAttr castNumBanks ?D1)). \<not> isPending (data a)"
    by (rule attrs_dropAttr_not_pending [OF np1])
  have both: "snd (on_instantiated L \<sigma> (attachNumBanks D ?CI (ValueDependent n))) =
           snd (AddSYCLIntelNumBanksAttr L D ?CI ?lit) \<and>
         filter (\<lambda>a. \<not> isImplicit a) (attrsOfKind AT_SYCLIntelNumBanks
           (fst (on_instantiated L \<sigma> (attachNumBanks D ?CI (ValueDependent n))))) =
         filter (\<lambda>a. \<not> isImplicit a) (attrsOfKind AT_SYCLIntelNumBanks
           (fst (AddSYCLIntelNumBanksAttr L D ?CI ?lit)))"
  proof (cases "\<exists>NBA e. getAttr castNumBanks D = Some (NBA, e) \<and> isImplicit NBA")
    case True
    then obtain NBA e where g: "getAttr castNumBanks D = Some (NBA, e)" and i: "isImplicit NBA"
      by blast
    from lit g i have nc: "dyn_cast_ConstantExpr e = None"
      and only: "attrsOfKind AT_SYCLIntelNumBanks D = [NBA]" by blast+
    let ?D2 = "dropAttr castNumBanks ?D1"
    have g1: "getAttr castNumBanks ?D1 = Some (NBA, e)"
      using g by (simp add: getAttr_addImplicitMemory)
    have a: "attachNumBanks D ?CI (ValueDependent n) = addAttr ?P ?D2"
      unfolding attachNumBanks_def using g1 i by (simp add: Let_def written_def)
    have inst: "on_instantiated L \<sigma> (addAttr ?P ?D2) = AddSYCLIntelNumBanksAttr L ?D2 ?CI ?lit"
      by (rule instantiate_numbanks [OF np2])
    have bb: "getAttr castBankBits ?D2 = getAttr castBankBits D"
      using getAttr_dropAttr_other [of castBankBits castNumBanks ?D1, OF NumBanks_not_BankBits]
      by (simp add: getAttr_addImplicitMemory)
    have cv: "CheckValidFPGAMemoryAttributesVar ?D2 = CheckValidFPGAMemoryAttributesVar D"
      by (simp add: dropAttr_def)
    have ex: "filter (\<lambda>a. \<not> isImplicit a) (attrsOfKind AT_SYCLIntelNumBanks ?D2) =
              filter (\<lambda>a. \<not> isImplicit a) (attrsOfKind AT_SYCLIntelNumBanks D)"
      using only i by (simp add: attrsOfKind_dropNumBanks)
    have nb: "getAttr castNumBanks ?D2 = getAttr castNumBanks D \<or>
               (getAttr castNumBanks ?D2 = None \<and>
                (\<exists>NBA e. getAttr castNumBanks D = Some (NBA, e) \<and> dyn_cast_ConstantExpr e = None))"
      using g nc by (simp add: getAttr_dropAttr_same)
    show ?thesis
      unfolding a inst
      using numbanks_same_outcome [OF bb cv attachNumBanks_after_drop [OF g i] ex nb,
          where L = L and v = "\<sigma> n"]
      by blast
  next
    case False
    have a: "attachNumBanks D ?CI (ValueDependent n) = addAttr ?P ?D1"
      unfolding attachNumBanks_def using False
      by (auto simp: Let_def written_def getAttr_addImplicitMemory split: option.splits)
    have inst: "on_instantiated L \<sigma> (addAttr ?P ?D1) = AddSYCLIntelNumBanksAttr L ?D1 ?CI ?lit"
      by (rule instantiate_numbanks [OF np1])
    have bb: "getAttr castBankBits ?D1 = getAttr castBankBits D"
      by (simp add: getAttr_addImplicitMemory)
    have cv: "CheckValidFPGAMemoryAttributesVar ?D1 = CheckValidFPGAMemoryAttributesVar D"
      by simp
    have ex: "filter (\<lambda>a. \<not> isImplicit a) (attrsOfKind AT_SYCLIntelNumBanks ?D1) =
              filter (\<lambda>a. \<not> isImplicit a) (attrsOfKind AT_SYCLIntelNumBanks D)"
      by (simp add: attrsOfKind_addImplicitMemory)
    have nb: "getAttr castNumBanks ?D1 = getAttr castNumBanks D \<or>
               (getAttr castNumBanks ?D1 = None \<and>
                (\<exists>NBA e. getAttr castNumBanks D = Some (NBA, e) \<and> dyn_cast_ConstantExpr e = None))"
      by (simp add: getAttr_addImplicitMemory)
    show ?thesis
      unfolding a inst
      using numbanks_same_outcome [OF bb cv attachNumBanks_after_memory ex nb,
          where L = L and v = "\<sigma> n"]
      by blast
  qed
  from both show "snd (on_instantiated L \<sigma> (attachNumBanks D ?CI (ValueDependent n))) =
           snd (AddSYCLIntelNumBanksAttr L D ?CI ?lit)" by blast
  from both show "filter (\<lambda>a. \<not> isImplicit a) (attrsOfKind AT_SYCLIntelNumBanks
           (fst (on_instantiated L \<sigma> (attachNumBanks D ?CI (ValueDependent n))))) =
         filter (\<lambda>a. \<not> isImplicit a) (attrsOfKind AT_SYCLIntelNumBanks
           (fst (AddSYCLIntelNumBanksAttr L D ?CI ?lit)))" by blast
qed

text \<open>Nothing is compared with a value-dependent dimension.\<close>

lemma InvalidWorkGroupSizeAttrs_dependent [simp]:
  "InvalidWorkGroupSizeAttrs MG (ValueDependent n) Y Z = False"
  by (cases "dyn_cast_ConstantExpr MG") (simp_all add: InvalidWorkGroupSizeAttrs_def)

lemma CheckMaxAllowedWorkGroupSize_dependent [simp]:
  "CheckMaxAllowedWorkGroupSize L (ValueDependent n) Y Z MX MY MZ = False"
  "CheckMaxAllowedWorkGroupSize L RX RY RZ (ValueDependent n) MY MZ = False"
  by (cases "dyn_cast_ConstantExpr RX"; simp add: CheckMaxAllowedWorkGroupSize_def)+

lemma CheckWorkGroupSize_dependent [simp]:
  "CheckWorkGroupSize N (ValueDependent n) Y Z = False"
  by (cases "dyn_cast_ConstantExpr N") (simp_all add: CheckWorkGroupSize_def)

lemma CheckAndConvertArg_dependent [simp]:
  "CheckAndConvertArg CI i (ValueDependent n) = (Some (ValueDependent n), [])"
  by (simp add: CheckAndConvertArg_def)

lemma CheckAndConvertOptArg_dependent [simp]:
  "CheckAndConvertOptArg CI i (map_option ValueDependent n) =
     (Some (map_option ValueDependent n), [])"
  by (cases n) (simp_all add: CheckAndConvertOptArg_def)

lemma deferred_reqd:
  assumes "getAttr castReqdWorkGroupSize D = None"
  shows "AddSYCLReqdWorkGroupSizeAttr L D CI (ValueDependent nx)
           (map_option ValueDependent ny) (map_option ValueDependent nz) =
           (addAttr (Create (ciLoc CI) (SYCLReqdWorkGroupSizeAttr (ValueDependent nx)
                        (map_option ValueDependent ny) (map_option ValueDependent nz))) D, [])"
  unfolding AddSYCLReqdWorkGroupSizeAttr_def
  using assms by (simp add: Let_def split: option.splits)

lemma deferred_max:
  "AddSYCLIntelMaxWorkGroupSizeAttr L D CI (ValueDependent nx) (ValueDependent ny)
     (ValueDependent nz) =
     (addAttr (Create (ciLoc CI) (SYCLIntelMaxWorkGroupSizeAttr (ValueDependent nx)
                  (ValueDependent ny) (ValueDependent nz))) D, [])"
  unfolding AddSYCLIntelMaxWorkGroupSizeAttr_def
  by (simp add: Let_def AnyWorkGroupSizesDiffer_def AllWorkGroupSizesSame_def split: option.splits)


text \<open>
  A list of value-dependent bank bits passes the first loop as it is, and the second
  loop is skipped for it.
\<close>

lemma convertBankBitsArgs_dependent:
  "convertBankBitsArgs CI i (map ValueDependent ns) =
     Inr (map ValueDependent ns, replicate (length ns) 0)"
  by (induction ns arbitrary: i) simp_all

lemma convertBankBitsArgs_length:
  "convertBankBitsArgs CI i es = Inr (Args, Values) \<Longrightarrow> length Args = length es"
proof (induction es arbitrary: i Args Values)
  case Nil
  then show ?case by simp
next
  case (Cons E Es)
  then show ?case
    by (auto split: if_splits option.splits sum.splits prod.splits)
qed

lemma deferred_bank_bits_attached:
  assumes noNB: "getAttr castNumBanks D = None"
      and noBB: "getAttr castBankBits D = None"
      and subj: "\<not> (SYCLIsDevice L \<and> CheckValidFPGAMemoryAttributesVar D)"
      and ne: "ns \<noteq> []"
      and small: "length ns < 32"
  shows "handleSYCLIntelBankBitsAttr L D (written AT_SYCLIntelBankBits l) (map ValueDependent ns) =
           (addAttr (Create l (SYCLIntelBankBitsAttr (map ValueDependent ns)))
              (addImplicitMemory
                 (addAttr (CreateImplicit (SYCLIntelNumBanksAttr
                            (IntegerLiteral (2 ^ length ns)))) D)), [])"
proof -
  have dep: "list_ex isValueDependent (map ValueDependent ns)"
    using ne by (cases ns) simp_all
  have nb: "implicitNumBanks (length ns) = 2 ^ length ns"
    using small by (simp add: implicitNumBanks_def)
  have add: "AddSYCLIntelBankBitsAttr L D (written AT_SYCLIntelBankBits l) (map ValueDependent ns) =
           (addAttr (Create l (SYCLIntelBankBitsAttr (map ValueDependent ns)))
              (addImplicitMemory
                 (addAttr (CreateImplicit (SYCLIntelNumBanksAttr
                            (IntegerLiteral (2 ^ length ns)))) D)), [])"
    unfolding AddSYCLIntelBankBitsAttr_def convertBankBitsArgs_dependent
    using dep noNB subj nb by (simp add: Let_def written_def)
  have len: "\<not> length (map ValueDependent ns) < 1" using ne by (cases ns) auto
  show ?thesis
    unfolding handleSYCLIntelBankBitsAttr_def add Let_def
    using len noBB by (simp add: checkForDuplicateAttribute_BankBits_def)
qed

lemma instantiate_bank_bits:
  assumes "\<forall>a \<in> set (attrs D0). \<not> isPending (data a)" and ne: "ns \<noteq> []"
  shows "on_instantiated L \<sigma> (addAttr (Create l (SYCLIntelBankBitsAttr (map ValueDependent ns))) D0) =
           AddSYCLIntelBankBitsAttr L D0 (written AT_SYCLIntelBankBits l)
             (map (\<lambda>n. IntegerLiteral (\<sigma> n)) ns)"
proof -
  let ?P = "Create l (SYCLIntelBankBitsAttr (map ValueDependent ns))"
  have p: "isPending (data ?P)" using ne by (cases ns) (simp_all add: Create_def)
  have m: "map (substExpr \<sigma> \<circ> ValueDependent) ns = map (\<lambda>n. IntegerLiteral (\<sigma> n)) ns"
    by (rule map_cong) simp_all
  show ?thesis
    unfolding on_instantiated_single(1) [OF assms(1) p] reenter_def Let_def
      on_instantiated_single(2) [OF assms(1) p]
    by (simp add: Create_def written_def m)
qed

text \<open>
  The implicit \<^verbatim>\<open>numbanks\<close> and memory attribute that a value-dependent \<^verbatim>\<open>bank_bits\<close>
  has created do not change what the function does with the same number of arguments.
\<close>

lemma bank_bits_after_synthesis:
  assumes noNB: "getAttr castNumBanks D = None"
      and small: "length es < 32"
  shows "snd (AddSYCLIntelBankBitsAttr L
                (addImplicitMemory
                   (addAttr (CreateImplicit (SYCLIntelNumBanksAttr
                              (IntegerLiteral (2 ^ length es)))) D)) CI es) =
           snd (AddSYCLIntelBankBitsAttr L D CI es) \<and>
         attrsOfKind AT_SYCLIntelBankBits
           (fst (AddSYCLIntelBankBitsAttr L
                   (addImplicitMemory
                      (addAttr (CreateImplicit (SYCLIntelNumBanksAttr
                                 (IntegerLiteral (2 ^ length es)))) D)) CI es)) =
           attrsOfKind AT_SYCLIntelBankBits (fst (AddSYCLIntelBankBitsAttr L D CI es))"
proof -
  define NB where "NB = CreateImplicit (SYCLIntelNumBanksAttr (IntegerLiteral (2 ^ length es)))"
  define D1 where "D1 = addImplicitMemory (addAttr NB D)"
  have dNB: "data NB = SYCLIntelNumBanksAttr (IntegerLiteral (2 ^ length es))"
    by (simp add: NB_def CreateImplicit_def)
  have gNB: "getAttr castNumBanks D1 = Some (NB, IntegerLiteral (2 ^ length es))"
    unfolding D1_def by (simp add: getAttr_addImplicitMemory getAttr_addAttr noNB dNB)
  have kinds: "attrsOfKind AT_SYCLIntelBankBits D1 = attrsOfKind AT_SYCLIntelBankBits D"
    unfolding D1_def by (simp add: attrsOfKind_addImplicitMemory attrsOfKind_addAttr dNB)
  have kindsNB: "attrsOfKind AT_SYCLIntelBankBits (addAttr NB D) = attrsOfKind AT_SYCLIntelBankBits D"
    by (simp add: attrsOfKind_addAttr dNB)
  have valid: "CheckValidFPGAMemoryAttributesVar D1 = CheckValidFPGAMemoryAttributesVar D"
    unfolding D1_def by simp
  have mem: "addImplicitMemory D1 = D1" unfolding D1_def by simp
  have nb: "implicitNumBanks (length es) = 2 ^ length es"
    using small by (simp add: implicitNumBanks_def)
  have "snd (AddSYCLIntelBankBitsAttr L D1 CI es) = snd (AddSYCLIntelBankBitsAttr L D CI es) \<and>
        attrsOfKind AT_SYCLIntelBankBits (fst (AddSYCLIntelBankBitsAttr L D1 CI es)) =
          attrsOfKind AT_SYCLIntelBankBits (fst (AddSYCLIntelBankBitsAttr L D CI es))"
  proof (cases "convertBankBitsArgs CI 0 es")
    case (Inl ds)
    then show ?thesis by (simp add: AddSYCLIntelBankBitsAttr_def kinds)
  next
    case (Inr r)
    obtain Args Values where r: "r = (Args, Values)" by (cases r)
    have len: "length Args = length es"
      using convertBankBitsArgs_length Inr r by blast
    show ?thesis
    proof (cases "\<not> list_ex isValueDependent es \<and> 1 < length Values \<and> \<not> ListIsConsecutive Values")
      case True
      then show ?thesis using Inr r by (simp add: AddSYCLIntelBankBitsAttr_def kinds)
    next
      case False
      have left: "AddSYCLIntelBankBitsAttr L D1 CI es =
                    (if SYCLIsDevice L \<and> CheckValidFPGAMemoryAttributesVar D then
                       (D1, [Diag err_fpga_attribute_incorrect_variable (AttrLoc (ciLoc CI))
                               [Name (getParsedKind CI), Select 1]])
                     else (addAttr (Create (ciLoc CI) (SYCLIntelBankBitsAttr Args)) D1, []))"
        unfolding AddSYCLIntelBankBitsAttr_def Inr r
        using False gNB len valid mem by (auto simp: ceilLogBase2_two_power)
      have right: "AddSYCLIntelBankBitsAttr L D CI es =
                    (if SYCLIsDevice L \<and> CheckValidFPGAMemoryAttributesVar D then
                       (addAttr NB D, [Diag err_fpga_attribute_incorrect_variable (AttrLoc (ciLoc CI))
                               [Name (getParsedKind CI), Select 1]])
                     else (addAttr (Create (ciLoc CI) (SYCLIntelBankBitsAttr Args)) D1, []))"
        unfolding AddSYCLIntelBankBitsAttr_def Inr r D1_def NB_def
        using False noNB len nb by (auto simp: Let_def)
      show ?thesis unfolding left right by (simp add: kinds kindsNB)
    qed
  qed
  then show ?thesis unfolding D1_def NB_def .
qed
text \<open>
  Claim C9, amended.  Take a declaration without pending decorations.  The functions
  that add \<^verbatim>\<open>bank_width\<close>, \<^verbatim>\<open>numbanks\<close>, \<^verbatim>\<open>num_simd_work_items\<close> and
  \<^verbatim>\<open>max_global_work_dim\<close> attach a value-dependent argument as it is, without a
  diagnostic, and so do the ones that add \<^verbatim>\<open>max_work_group_size\<close> and, on a declaration
  without \<^verbatim>\<open>reqd_work_group_size\<close>, \<^verbatim>\<open>reqd_work_group_size\<close> when all their arguments
  are value-dependent.  When the declaration is then instantiated, before any other
  decoration is attached, the diagnostics are exactly those of attaching the decoration
  with the literal values to the original declaration, and the declaration ends up with
  the same explicit decorations of the kind: for \<^verbatim>\<open>num_simd_work_items\<close>,
  \<^verbatim>\<open>max_global_work_dim\<close> and the two work-group sizes, which create no implicit
  attribute, the instantiated declaration is that of the literal altogether.  For
  \<^verbatim>\<open>numbanks\<close> this takes that an implicit \<^verbatim>\<open>numbanks\<close> of the declaration, which the
  value-dependent one displaces, is its only one and holds a literal, as the one that
  \<^verbatim>\<open>bank_bits\<close> creates.  The handler of \<^verbatim>\<open>bank_bits\<close>, on a declaration that the
  attribute applies to and that carries neither \<^verbatim>\<open>numbanks\<close> nor \<^verbatim>\<open>bank_bits\<close>,
  attaches fewer than 32 value-dependent bank bits as they are, with the implicit
  \<^verbatim>\<open>numbanks\<close> and memory attribute and without a diagnostic; the instantiation then
  gives the diagnostics of the handler on the literal values and leaves the same
  \<^verbatim>\<open>bank_bits\<close> attributes.
\<close>

theorem deferred_validation_same_outcome:
  assumes np: "\<forall>a \<in> set (attrs D). \<not> isPending (data a)"
  shows "AddSYCLIntelBankWidthAttr L D (written AT_SYCLIntelBankWidth l) (ValueDependent n) =
           (addAttr (Create l (SYCLIntelBankWidthAttr (ValueDependent n))) (addImplicitMemory D), []) \<and>
         snd (on_instantiated L \<sigma>
                (fst (AddSYCLIntelBankWidthAttr L D (written AT_SYCLIntelBankWidth l) (ValueDependent n)))) =
           snd (AddSYCLIntelBankWidthAttr L D (written AT_SYCLIntelBankWidth l) (IntegerLiteral (\<sigma> n))) \<and>
         attrsOfKind AT_SYCLIntelBankWidth
           (fst (on_instantiated L \<sigma>
                   (fst (AddSYCLIntelBankWidthAttr L D (written AT_SYCLIntelBankWidth l)
                           (ValueDependent n))))) =
           attrsOfKind AT_SYCLIntelBankWidth
             (fst (AddSYCLIntelBankWidthAttr L D (written AT_SYCLIntelBankWidth l)
                     (IntegerLiteral (\<sigma> n)))) \<and>
         ((\<forall>NBA e. getAttr castNumBanks D = Some (NBA, e) \<and> isImplicit NBA \<longrightarrow>
             dyn_cast_ConstantExpr e = None \<and> attrsOfKind AT_SYCLIntelNumBanks D = [NBA]) \<longrightarrow>
          snd (AddSYCLIntelNumBanksAttr L D (written AT_SYCLIntelNumBanks l) (ValueDependent n)) = [] \<and>
          last (attrs (fst (AddSYCLIntelNumBanksAttr L D (written AT_SYCLIntelNumBanks l)
                              (ValueDependent n)))) =
            Create l (SYCLIntelNumBanksAttr (ValueDependent n)) \<and>
          snd (on_instantiated L \<sigma>
                 (fst (AddSYCLIntelNumBanksAttr L D (written AT_SYCLIntelNumBanks l)
                         (ValueDependent n)))) =
            snd (AddSYCLIntelNumBanksAttr L D (written AT_SYCLIntelNumBanks l)
                   (IntegerLiteral (\<sigma> n))) \<and>
          filter (\<lambda>a. \<not> isImplicit a) (attrsOfKind AT_SYCLIntelNumBanks
            (fst (on_instantiated L \<sigma>
                    (fst (AddSYCLIntelNumBanksAttr L D (written AT_SYCLIntelNumBanks l)
                            (ValueDependent n)))))) =
          filter (\<lambda>a. \<not> isImplicit a) (attrsOfKind AT_SYCLIntelNumBanks
            (fst (AddSYCLIntelNumBanksAttr L D (written AT_SYCLIntelNumBanks l)
                    (IntegerLiteral (\<sigma> n)))))) \<and>
         AddSYCLIntelNumSimdWorkItemsAttr L D (written AT_SYCLIntelNumSimdWorkItems l)
             (ValueDependent n) =
           (addAttr (Create l (SYCLIntelNumSimdWorkItemsAttr (ValueDependent n))) D, []) \<and>
         on_instantiated L \<sigma>
           (fst (AddSYCLIntelNumSimdWorkItemsAttr L D (written AT_SYCLIntelNumSimdWorkItems l)
                   (ValueDependent n))) =
           AddSYCLIntelNumSimdWorkItemsAttr L D (written AT_SYCLIntelNumSimdWorkItems l)
             (IntegerLiteral (\<sigma> n)) \<and>
         AddSYCLIntelMaxGlobalWorkDimAttr L D (written AT_SYCLIntelMaxGlobalWorkDim l)
             (ValueDependent n) =
           (addAttr (Create l (SYCLIntelMaxGlobalWorkDimAttr (ValueDependent n))) D, []) \<and>
         on_instantiated L \<sigma>
           (fst (AddSYCLIntelMaxGlobalWorkDimAttr L D (written AT_SYCLIntelMaxGlobalWorkDim l)
                   (ValueDependent n))) =
           AddSYCLIntelMaxGlobalWorkDimAttr L D (written AT_SYCLIntelMaxGlobalWorkDim l)
             (IntegerLiteral (\<sigma> n)) \<and>
         (getAttr castReqdWorkGroupSize D = None \<longrightarrow>
          AddSYCLReqdWorkGroupSizeAttr L D (written AT_SYCLReqdWorkGroupSize l) (ValueDependent n)
              (map_option ValueDependent ny) (map_option ValueDependent nz) =
            (addAttr (Create l (SYCLReqdWorkGroupSizeAttr (ValueDependent n)
                         (map_option ValueDependent ny) (map_option ValueDependent nz))) D, []) \<and>
          on_instantiated L \<sigma>
            (fst (AddSYCLReqdWorkGroupSizeAttr L D (written AT_SYCLReqdWorkGroupSize l)
                    (ValueDependent n) (map_option ValueDependent ny)
                    (map_option ValueDependent nz))) =
            AddSYCLReqdWorkGroupSizeAttr L D (written AT_SYCLReqdWorkGroupSize l)
              (IntegerLiteral (\<sigma> n)) (map_option (\<lambda>n. IntegerLiteral (\<sigma> n)) ny)
              (map_option (\<lambda>n. IntegerLiteral (\<sigma> n)) nz)) \<and>
         AddSYCLIntelMaxWorkGroupSizeAttr L D (written AT_SYCLIntelMaxWorkGroupSize l)
             (ValueDependent n) (ValueDependent my) (ValueDependent mz) =
           (addAttr (Create l (SYCLIntelMaxWorkGroupSizeAttr (ValueDependent n)
                        (ValueDependent my) (ValueDependent mz))) D, []) \<and>
         on_instantiated L \<sigma>
           (fst (AddSYCLIntelMaxWorkGroupSizeAttr L D (written AT_SYCLIntelMaxWorkGroupSize l)
                   (ValueDependent n) (ValueDependent my) (ValueDependent mz))) =
           AddSYCLIntelMaxWorkGroupSizeAttr L D (written AT_SYCLIntelMaxWorkGroupSize l)
             (IntegerLiteral (\<sigma> n)) (IntegerLiteral (\<sigma> my)) (IntegerLiteral (\<sigma> mz)) \<and>
         (getAttr castNumBanks D = None \<and> getAttr castBankBits D = None \<and>
            \<not> (SYCLIsDevice L \<and> CheckValidFPGAMemoryAttributesVar D) \<and>
            ns \<noteq> [] \<and> length ns < 32 \<longrightarrow>
          handleSYCLIntelBankBitsAttr L D (written AT_SYCLIntelBankBits l) (map ValueDependent ns) =
            (addAttr (Create l (SYCLIntelBankBitsAttr (map ValueDependent ns)))
               (addImplicitMemory
                  (addAttr (CreateImplicit (SYCLIntelNumBanksAttr
                             (IntegerLiteral (2 ^ length ns)))) D)), []) \<and>
          snd (on_instantiated L \<sigma>
                 (fst (handleSYCLIntelBankBitsAttr L D (written AT_SYCLIntelBankBits l)
                         (map ValueDependent ns)))) =
            snd (handleSYCLIntelBankBitsAttr L D (written AT_SYCLIntelBankBits l)
                   (map (\<lambda>n. IntegerLiteral (\<sigma> n)) ns)) \<and>
          attrsOfKind AT_SYCLIntelBankBits
            (fst (on_instantiated L \<sigma>
                    (fst (handleSYCLIntelBankBitsAttr L D (written AT_SYCLIntelBankBits l)
                            (map ValueDependent ns))))) =
            attrsOfKind AT_SYCLIntelBankBits
              (fst (handleSYCLIntelBankBitsAttr L D (written AT_SYCLIntelBankBits l)
                      (map (\<lambda>n. IntegerLiteral (\<sigma> n)) ns))))"
proof -
  have bw1: "AddSYCLIntelBankWidthAttr L D (written AT_SYCLIntelBankWidth l) (ValueDependent n) =
               (addAttr (Create l (SYCLIntelBankWidthAttr (ValueDependent n))) (addImplicitMemory D), [])"
    by (simp add: AddSYCLIntelBankWidthAttr_def written_def)
  note bw2 = instantiate_bank_width [OF attrs_addImplicitMemory_not_pending [OF np],
      where L = L and \<sigma> = \<sigma> and l = l and n = n]
  note mem = AddSYCLIntelBankWidthAttr_after_memory [of L D "written AT_SYCLIntelBankWidth l"
      "IntegerLiteral (\<sigma> n)"]
  have bw: "AddSYCLIntelBankWidthAttr L D (written AT_SYCLIntelBankWidth l) (ValueDependent n) =
           (addAttr (Create l (SYCLIntelBankWidthAttr (ValueDependent n))) (addImplicitMemory D), []) \<and>
         snd (on_instantiated L \<sigma>
                (fst (AddSYCLIntelBankWidthAttr L D (written AT_SYCLIntelBankWidth l) (ValueDependent n)))) =
           snd (AddSYCLIntelBankWidthAttr L D (written AT_SYCLIntelBankWidth l) (IntegerLiteral (\<sigma> n))) \<and>
         attrsOfKind AT_SYCLIntelBankWidth
           (fst (on_instantiated L \<sigma>
                   (fst (AddSYCLIntelBankWidthAttr L D (written AT_SYCLIntelBankWidth l)
                           (ValueDependent n))))) =
           attrsOfKind AT_SYCLIntelBankWidth
             (fst (AddSYCLIntelBankWidthAttr L D (written AT_SYCLIntelBankWidth l)
                     (IntegerLiteral (\<sigma> n))))"
    unfolding bw1 fst_conv bw2 using mem by simp
  have nb: "(\<forall>NBA e. getAttr castNumBanks D = Some (NBA, e) \<and> isImplicit NBA \<longrightarrow>
             dyn_cast_ConstantExpr e = None \<and> attrsOfKind AT_SYCLIntelNumBanks D = [NBA]) \<longrightarrow>
          snd (AddSYCLIntelNumBanksAttr L D (written AT_SYCLIntelNumBanks l) (ValueDependent n)) = [] \<and>
          last (attrs (fst (AddSYCLIntelNumBanksAttr L D (written AT_SYCLIntelNumBanks l)
                              (ValueDependent n)))) =
            Create l (SYCLIntelNumBanksAttr (ValueDependent n)) \<and>
          snd (on_instantiated L \<sigma>
                 (fst (AddSYCLIntelNumBanksAttr L D (written AT_SYCLIntelNumBanks l)
                         (ValueDependent n)))) =
            snd (AddSYCLIntelNumBanksAttr L D (written AT_SYCLIntelNumBanks l)
                   (IntegerLiteral (\<sigma> n))) \<and>
          filter (\<lambda>a. \<not> isImplicit a) (attrsOfKind AT_SYCLIntelNumBanks
            (fst (on_instantiated L \<sigma>
                    (fst (AddSYCLIntelNumBanksAttr L D (written AT_SYCLIntelNumBanks l)
                            (ValueDependent n)))))) =
          filter (\<lambda>a. \<not> isImplicit a) (attrsOfKind AT_SYCLIntelNumBanks
            (fst (AddSYCLIntelNumBanksAttr L D (written AT_SYCLIntelNumBanks l)
                    (IntegerLiteral (\<sigma> n)))))"
  proof
    assume lit: "\<forall>NBA e. getAttr castNumBanks D = Some (NBA, e) \<and> isImplicit NBA \<longrightarrow>
             dyn_cast_ConstantExpr e = None \<and> attrsOfKind AT_SYCLIntelNumBanks D = [NBA]"
    note d = deferred_numbanks [OF np lit]
    show "snd (AddSYCLIntelNumBanksAttr L D (written AT_SYCLIntelNumBanks l) (ValueDependent n)) = [] \<and>
          last (attrs (fst (AddSYCLIntelNumBanksAttr L D (written AT_SYCLIntelNumBanks l)
                              (ValueDependent n)))) =
            Create l (SYCLIntelNumBanksAttr (ValueDependent n)) \<and>
          snd (on_instantiated L \<sigma>
                 (fst (AddSYCLIntelNumBanksAttr L D (written AT_SYCLIntelNumBanks l)
                         (ValueDependent n)))) =
            snd (AddSYCLIntelNumBanksAttr L D (written AT_SYCLIntelNumBanks l)
                   (IntegerLiteral (\<sigma> n))) \<and>
          filter (\<lambda>a. \<not> isImplicit a) (attrsOfKind AT_SYCLIntelNumBanks
            (fst (on_instantiated L \<sigma>
                    (fst (AddSYCLIntelNumBanksAttr L D (written AT_SYCLIntelNumBanks l)
                            (ValueDependent n)))))) =
          filter (\<lambda>a. \<not> isImplicit a) (attrsOfKind AT_SYCLIntelNumBanks
            (fst (AddSYCLIntelNumBanksAttr L D (written AT_SYCLIntelNumBanks l)
                    (IntegerLiteral (\<sigma> n)))))"
      unfolding d(1) fst_conv snd_conv using d(2,3,4) by simp
  qed
  have ns1: "AddSYCLIntelNumSimdWorkItemsAttr L D (written AT_SYCLIntelNumSimdWorkItems l)
               (ValueDependent n) =
             (addAttr (Create l (SYCLIntelNumSimdWorkItemsAttr (ValueDependent n))) D, [])"
    by (simp add: AddSYCLIntelNumSimdWorkItemsAttr_def written_def)
  have ns: "AddSYCLIntelNumSimdWorkItemsAttr L D (written AT_SYCLIntelNumSimdWorkItems l)
             (ValueDependent n) =
           (addAttr (Create l (SYCLIntelNumSimdWorkItemsAttr (ValueDependent n))) D, []) \<and>
         on_instantiated L \<sigma>
           (fst (AddSYCLIntelNumSimdWorkItemsAttr L D (written AT_SYCLIntelNumSimdWorkItems l)
                   (ValueDependent n))) =
           AddSYCLIntelNumSimdWorkItemsAttr L D (written AT_SYCLIntelNumSimdWorkItems l)
             (IntegerLiteral (\<sigma> n))"
    unfolding ns1 fst_conv using instantiate_num_simd [OF np] by simp
  have mg1: "AddSYCLIntelMaxGlobalWorkDimAttr L D (written AT_SYCLIntelMaxGlobalWorkDim l)
               (ValueDependent n) =
             (addAttr (Create l (SYCLIntelMaxGlobalWorkDimAttr (ValueDependent n))) D, [])"
    by (simp add: AddSYCLIntelMaxGlobalWorkDimAttr_def written_def)
  have mg: "AddSYCLIntelMaxGlobalWorkDimAttr L D (written AT_SYCLIntelMaxGlobalWorkDim l)
             (ValueDependent n) =
           (addAttr (Create l (SYCLIntelMaxGlobalWorkDimAttr (ValueDependent n))) D, []) \<and>
         on_instantiated L \<sigma>
           (fst (AddSYCLIntelMaxGlobalWorkDimAttr L D (written AT_SYCLIntelMaxGlobalWorkDim l)
                   (ValueDependent n))) =
           AddSYCLIntelMaxGlobalWorkDimAttr L D (written AT_SYCLIntelMaxGlobalWorkDim l)
             (IntegerLiteral (\<sigma> n))"
    unfolding mg1 fst_conv using instantiate_max_global_work_dim [OF np] by simp
  have rq: "getAttr castReqdWorkGroupSize D = None \<longrightarrow>
          AddSYCLReqdWorkGroupSizeAttr L D (written AT_SYCLReqdWorkGroupSize l) (ValueDependent n)
              (map_option ValueDependent ny) (map_option ValueDependent nz) =
            (addAttr (Create l (SYCLReqdWorkGroupSizeAttr (ValueDependent n)
                         (map_option ValueDependent ny) (map_option ValueDependent nz))) D, []) \<and>
          on_instantiated L \<sigma>
            (fst (AddSYCLReqdWorkGroupSizeAttr L D (written AT_SYCLReqdWorkGroupSize l)
                    (ValueDependent n) (map_option ValueDependent ny)
                    (map_option ValueDependent nz))) =
            AddSYCLReqdWorkGroupSizeAttr L D (written AT_SYCLReqdWorkGroupSize l)
              (IntegerLiteral (\<sigma> n)) (map_option (\<lambda>n. IntegerLiteral (\<sigma> n)) ny)
              (map_option (\<lambda>n. IntegerLiteral (\<sigma> n)) nz)"
  proof
    assume none: "getAttr castReqdWorkGroupSize D = None"
    have rq1: "AddSYCLReqdWorkGroupSizeAttr L D (written AT_SYCLReqdWorkGroupSize l) (ValueDependent n)
              (map_option ValueDependent ny) (map_option ValueDependent nz) =
            (addAttr (Create l (SYCLReqdWorkGroupSizeAttr (ValueDependent n)
                         (map_option ValueDependent ny) (map_option ValueDependent nz))) D, [])"
      using deferred_reqd [OF none, of L "written AT_SYCLReqdWorkGroupSize l" n ny nz]
      by (simp add: written_def)
    show "AddSYCLReqdWorkGroupSizeAttr L D (written AT_SYCLReqdWorkGroupSize l) (ValueDependent n)
              (map_option ValueDependent ny) (map_option ValueDependent nz) =
            (addAttr (Create l (SYCLReqdWorkGroupSizeAttr (ValueDependent n)
                         (map_option ValueDependent ny) (map_option ValueDependent nz))) D, []) \<and>
          on_instantiated L \<sigma>
            (fst (AddSYCLReqdWorkGroupSizeAttr L D (written AT_SYCLReqdWorkGroupSize l)
                    (ValueDependent n) (map_option ValueDependent ny)
                    (map_option ValueDependent nz))) =
            AddSYCLReqdWorkGroupSizeAttr L D (written AT_SYCLReqdWorkGroupSize l)
              (IntegerLiteral (\<sigma> n)) (map_option (\<lambda>n. IntegerLiteral (\<sigma> n)) ny)
              (map_option (\<lambda>n. IntegerLiteral (\<sigma> n)) nz)"
      unfolding rq1 fst_conv using instantiate_reqd [OF np] by simp
  qed
  have mx1: "AddSYCLIntelMaxWorkGroupSizeAttr L D (written AT_SYCLIntelMaxWorkGroupSize l)
             (ValueDependent n) (ValueDependent my) (ValueDependent mz) =
           (addAttr (Create l (SYCLIntelMaxWorkGroupSizeAttr (ValueDependent n)
                        (ValueDependent my) (ValueDependent mz))) D, [])"
    using deferred_max [of L D "written AT_SYCLIntelMaxWorkGroupSize l" n my mz]
    by (simp add: written_def)
  have mx: "AddSYCLIntelMaxWorkGroupSizeAttr L D (written AT_SYCLIntelMaxWorkGroupSize l)
             (ValueDependent n) (ValueDependent my) (ValueDependent mz) =
           (addAttr (Create l (SYCLIntelMaxWorkGroupSizeAttr (ValueDependent n)
                        (ValueDependent my) (ValueDependent mz))) D, []) \<and>
         on_instantiated L \<sigma>
           (fst (AddSYCLIntelMaxWorkGroupSizeAttr L D (written AT_SYCLIntelMaxWorkGroupSize l)
                   (ValueDependent n) (ValueDependent my) (ValueDependent mz))) =
           AddSYCLIntelMaxWorkGroupSizeAttr L D (written AT_SYCLIntelMaxWorkGroupSize l)
             (IntegerLiteral (\<sigma> n)) (IntegerLiteral (\<sigma> my)) (IntegerLiteral (\<sigma> mz))"
    unfolding mx1 fst_conv using instantiate_max [OF np] by simp
  have bb: "(getAttr castNumBanks D = None \<and> getAttr castBankBits D = None \<and>
        \<not> (SYCLIsDevice L \<and> CheckValidFPGAMemoryAttributesVar D) \<and>
        ns \<noteq> [] \<and> length ns < 32 \<longrightarrow>
      handleSYCLIntelBankBitsAttr L D (written AT_SYCLIntelBankBits l) (map ValueDependent ns) =
        (addAttr (Create l (SYCLIntelBankBitsAttr (map ValueDependent ns)))
           (addImplicitMemory
          (addAttr (CreateImplicit (SYCLIntelNumBanksAttr
                     (IntegerLiteral (2 ^ length ns)))) D)), []) \<and>
      snd (on_instantiated L \<sigma>
         (fst (handleSYCLIntelBankBitsAttr L D (written AT_SYCLIntelBankBits l)
                 (map ValueDependent ns)))) =
        snd (handleSYCLIntelBankBitsAttr L D (written AT_SYCLIntelBankBits l)
           (map (\<lambda>n. IntegerLiteral (\<sigma> n)) ns)) \<and>
      attrsOfKind AT_SYCLIntelBankBits
        (fst (on_instantiated L \<sigma>
            (fst (handleSYCLIntelBankBitsAttr L D (written AT_SYCLIntelBankBits l)
                    (map ValueDependent ns))))) =
        attrsOfKind AT_SYCLIntelBankBits
          (fst (handleSYCLIntelBankBitsAttr L D (written AT_SYCLIntelBankBits l)
              (map (\<lambda>n. IntegerLiteral (\<sigma> n)) ns))))"
  proof
    assume h: "getAttr castNumBanks D = None \<and> getAttr castBankBits D = None \<and>
            \<not> (SYCLIsDevice L \<and> CheckValidFPGAMemoryAttributesVar D) \<and>
            ns \<noteq> [] \<and> length ns < 32"
    then have noNB: "getAttr castNumBanks D = None" and noBB: "getAttr castBankBits D = None"
      and subj: "\<not> (SYCLIsDevice L \<and> CheckValidFPGAMemoryAttributesVar D)"
      and ne: "ns \<noteq> []" and small: "length ns < 32"
      by blast+
    let ?lit = "map (\<lambda>n. IntegerLiteral (\<sigma> n)) ns"
    let ?A = "written AT_SYCLIntelBankBits l"
    have np0: "\<forall>a \<in> set (attrs (addAttr (CreateImplicit (SYCLIntelNumBanksAttr
                 (IntegerLiteral (2 ^ length ns)))) D)). \<not> isPending (data a)"
      using np by (simp add: addAttr_def CreateImplicit_def)
    note np1 = attrs_addImplicitMemory_not_pending [OF np0]
    note a = deferred_bank_bits_attached [OF noNB noBB subj ne small, of l]
    note b = instantiate_bank_bits [OF np1 ne, of L \<sigma> l]
    have small': "length ?lit < 32" using small by simp
    have c: "snd (AddSYCLIntelBankBitsAttr L
                (addImplicitMemory
                   (addAttr (CreateImplicit (SYCLIntelNumBanksAttr
                              (IntegerLiteral (2 ^ length ns)))) D)) ?A ?lit) =
           snd (AddSYCLIntelBankBitsAttr L D ?A ?lit) \<and>
         attrsOfKind AT_SYCLIntelBankBits
           (fst (AddSYCLIntelBankBitsAttr L
                   (addImplicitMemory
                      (addAttr (CreateImplicit (SYCLIntelNumBanksAttr
                                 (IntegerLiteral (2 ^ length ns)))) D)) ?A ?lit)) =
           attrsOfKind AT_SYCLIntelBankBits (fst (AddSYCLIntelBankBitsAttr L D ?A ?lit))"
      using bank_bits_after_synthesis [OF noNB small', where L = L and CI = ?A] by simp
    have len: "\<not> length ?lit < 1" using ne by (cases ns) auto
    have hd: "handleSYCLIntelBankBitsAttr L D ?A ?lit = AddSYCLIntelBankBitsAttr L D ?A ?lit"
      using len noBB
      by (cases "AddSYCLIntelBankBitsAttr L D ?A ?lit")
        (simp add: handleSYCLIntelBankBitsAttr_def checkForDuplicateAttribute_BankBits_def Let_def)
    show "handleSYCLIntelBankBitsAttr L D ?A (map ValueDependent ns) =
        (addAttr (Create l (SYCLIntelBankBitsAttr (map ValueDependent ns)))
           (addImplicitMemory
              (addAttr (CreateImplicit (SYCLIntelNumBanksAttr
                         (IntegerLiteral (2 ^ length ns)))) D)), []) \<and>
      snd (on_instantiated L \<sigma>
             (fst (handleSYCLIntelBankBitsAttr L D ?A (map ValueDependent ns)))) =
        snd (handleSYCLIntelBankBitsAttr L D ?A ?lit) \<and>
      attrsOfKind AT_SYCLIntelBankBits
        (fst (on_instantiated L \<sigma>
                (fst (handleSYCLIntelBankBitsAttr L D ?A (map ValueDependent ns))))) =
        attrsOfKind AT_SYCLIntelBankBits (fst (handleSYCLIntelBankBitsAttr L D ?A ?lit))"
      unfolding a fst_conv b hd using c by simp
  qed
  from bw nb ns mg rq mx bb show ?thesis by blast
qed

theorem deferred_validation_same_outcome_witness:
  "snd (on_instantiated syclDevice (substituteAll 6)
          (fst (AddSYCLIntelBankWidthAttr syclDevice localVariable (written AT_SYCLIntelBankWidth 2)
                  (ValueDependent 0)))) =
     snd (AddSYCLIntelBankWidthAttr syclDevice localVariable (written AT_SYCLIntelBankWidth 2)
            (IntegerLiteral 6)) \<and>
   snd (AddSYCLIntelBankWidthAttr syclDevice localVariable (written AT_SYCLIntelBankWidth 2)
          (IntegerLiteral 6)) =
     [Diag err_attribute_argument_not_power_of_two (ExprLoc 2 0) [Name AT_SYCLIntelBankWidth]] \<and>
   snd (on_instantiated syclDevice (substituteAll 8)
          (fst (AddSYCLIntelBankWidthAttr syclDevice localVariable (written AT_SYCLIntelBankWidth 2)
                  (ValueDependent 0)))) =
     snd (AddSYCLIntelBankWidthAttr syclDevice localVariable (written AT_SYCLIntelBankWidth 2)
            (IntegerLiteral 8)) \<and>
   attrsOfKind AT_SYCLIntelBankWidth
     (fst (on_instantiated syclDevice (substituteAll 8)
             (fst (AddSYCLIntelBankWidthAttr syclDevice localVariable (written AT_SYCLIntelBankWidth 2)
                     (ValueDependent 0))))) =
     attrsOfKind AT_SYCLIntelBankWidth
       (fst (AddSYCLIntelBankWidthAttr syclDevice localVariable (written AT_SYCLIntelBankWidth 2)
               (IntegerLiteral 8))) \<and>
   AddSYCLIntelBankWidthAttr syclDevice localVariable (written AT_SYCLIntelBankWidth 2)
     (IntegerLiteral 8) =
     (addAttr (Create 2 (SYCLIntelBankWidthAttr (ConstantExpr 8))) (addImplicitMemory localVariable), []) \<and>
   snd (on_instantiated syclDevice (substituteAll 8)
          (fst (AddSYCLIntelNumBanksAttr syclDevice localVariableWithBankBits
                  (written AT_SYCLIntelNumBanks 2) (ValueDependent 0)))) =
     snd (AddSYCLIntelNumBanksAttr syclDevice localVariableWithBankBits
            (written AT_SYCLIntelNumBanks 2) (IntegerLiteral 8)) \<and>
   snd (AddSYCLIntelNumBanksAttr syclDevice localVariableWithBankBits
          (written AT_SYCLIntelNumBanks 2) (IntegerLiteral 8)) =
     [Diag err_bankbits_numbanks_conflicting (ExprLoc 2 0) [Name AT_SYCLIntelNumBanks]] \<and>
   snd (on_instantiated syclDevice (substituteAll 8)
          (fst (handleSYCLIntelBankBitsAttr syclDevice localVariable (written AT_SYCLIntelBankBits 2)
                  [ValueDependent 0, ValueDependent 1]))) =
     snd (handleSYCLIntelBankBitsAttr syclDevice localVariable (written AT_SYCLIntelBankBits 2)
            [IntegerLiteral 8, IntegerLiteral 8]) \<and>
   snd (handleSYCLIntelBankBitsAttr syclDevice localVariable (written AT_SYCLIntelBankBits 2)
          [IntegerLiteral 8, IntegerLiteral 8]) =
     [Diag err_bankbits_non_consecutive (AttrLoc 2) [Name AT_SYCLIntelBankBits]]"
proof -
  have np: "\<forall>a \<in> set (attrs localVariable). \<not> isPending (data a)"
    by (simp add: localVariable_def)
  have npB: "\<forall>a \<in> set (attrs localVariableWithBankBits). \<not> isPending (data a)"
    by (simp add: localVariableWithBankBits_def)
  have lit: "\<forall>NBA e. getAttr castNumBanks localVariableWithBankBits = Some (NBA, e) \<and> isImplicit NBA \<longrightarrow>
               dyn_cast_ConstantExpr e = None \<and>
               attrsOfKind AT_SYCLIntelNumBanks localVariableWithBankBits = [NBA]"
    by (auto simp: getAttr_def attrsOfKind_def localVariableWithBankBits_def)
  note six = deferred_validation_same_outcome [OF np, where L = syclDevice and l = 2 and n = 0
      and \<sigma> = "substituteAll 6"]
  note eight = deferred_validation_same_outcome [OF np, where L = syclDevice and l = 2 and n = 0
      and \<sigma> = "substituteAll 8"]
  note banks = deferred_validation_same_outcome [OF npB, where L = syclDevice and l = 2 and n = 0
      and \<sigma> = "substituteAll 8"]
  have none: "getAttr castBankWidth localVariable = None"
    by (simp add: getAttr_def localVariable_def)
  have subj: "\<not> CheckValidFPGAMemoryAttributesVar localVariable"
    by (simp add: CheckValidFPGAMemoryAttributesVar_def localVariable_def)
  have p6: "\<not> isPowerOf2 6" by (simp add: isPowerOf2_def compute_floorlog)
  have p8: "isPowerOf2 8" by (simp add: isPowerOf2_def compute_floorlog)
  have c8: "ceilLogBase2 8 = 3" using ceilLogBase2_two_power [of 3] by simp
  have l6: "snd (AddSYCLIntelBankWidthAttr syclDevice localVariable (written AT_SYCLIntelBankWidth 2)
          (IntegerLiteral 6)) =
     [Diag err_attribute_argument_not_power_of_two (ExprLoc 2 0) [Name AT_SYCLIntelBankWidth]]"
    by (simp add: AddSYCLIntelBankWidthAttr_def p6 written_def)
  have l8: "AddSYCLIntelBankWidthAttr syclDevice localVariable (written AT_SYCLIntelBankWidth 2)
     (IntegerLiteral 8) =
     (addAttr (Create 2 (SYCLIntelBankWidthAttr (ConstantExpr 8))) (addImplicitMemory localVariable), [])"
    by (simp add: AddSYCLIntelBankWidthAttr_def p8 none subj written_def)
  have b8: "snd (AddSYCLIntelNumBanksAttr syclDevice localVariableWithBankBits
          (written AT_SYCLIntelNumBanks 2) (IntegerLiteral 8)) =
     [Diag err_bankbits_numbanks_conflicting (ExprLoc 2 0) [Name AT_SYCLIntelNumBanks]]"
    by (simp add: AddSYCLIntelNumBanksAttr_def p8 c8 getAttr_def localVariableWithBankBits_def
        written_def)
  have s6: "substituteAll 6 0 = 6" and s8: "substituteAll 8 0 = 8"
    by (simp_all add: substituteAll_def)
  note bits = deferred_validation_same_outcome [OF np, where L = syclDevice and l = 2
      and \<sigma> = "substituteAll 8" and ns = "[0, 1]"]
  have noneT: "getAttr T localVariable = None" for T :: "AttrData \<Rightarrow> 'a option"
    by (simp add: getAttr_def localVariable_def)
  have bbw: "getAttr castNumBanks localVariable = None \<and> getAttr castBankBits localVariable = None \<and>
      \<not> (SYCLIsDevice syclDevice \<and> CheckValidFPGAMemoryAttributesVar localVariable) \<and>
      [0, 1 :: nat] \<noteq> [] \<and> length [0, 1 :: nat] < 32 \<longrightarrow>
      snd (on_instantiated syclDevice (substituteAll 8)
             (fst (handleSYCLIntelBankBitsAttr syclDevice localVariable
                     (written AT_SYCLIntelBankBits 2) (map ValueDependent [0, 1])))) =
        snd (handleSYCLIntelBankBitsAttr syclDevice localVariable (written AT_SYCLIntelBankBits 2)
               (map (\<lambda>n. IntegerLiteral (substituteAll 8 n)) [0, 1]))"
    using bits by blast
  have w: "snd (on_instantiated syclDevice (substituteAll 8)
          (fst (handleSYCLIntelBankBitsAttr syclDevice localVariable (written AT_SYCLIntelBankBits 2)
                  [ValueDependent 0, ValueDependent 1]))) =
     snd (handleSYCLIntelBankBitsAttr syclDevice localVariable (written AT_SYCLIntelBankBits 2)
            [IntegerLiteral 8, IntegerLiteral 8])"
    using bbw subj by (simp add: noneT substituteAll_def)
  have ext: "getExtValue 8 = 8" "getExtValue 7 = 7" by (simp_all add: getExtValue_def)
  have lb: "snd (handleSYCLIntelBankBitsAttr syclDevice localVariable (written AT_SYCLIntelBankBits 2)
          [IntegerLiteral 8, IntegerLiteral 8]) =
     [Diag err_bankbits_non_consecutive (AttrLoc 2) [Name AT_SYCLIntelBankBits]]"
    by (simp add: handleSYCLIntelBankBitsAttr_def checkForDuplicateAttribute_BankBits_def
        AddSYCLIntelBankBitsAttr_def ListIsConsecutive_def ext noneT written_def Let_def)
  show ?thesis using six eight banks lit l6 l8 b8 w lb unfolding s6 s8 by blast
qed

text \<open>
  Claim C9 as stated fails.  Validation is not deferred for every decoration with a
  value-dependent argument: after \<^verbatim>\<open>numbanks(8)\<close> the attribute \<^verbatim>\<open>bank_bits(N)\<close> is
  diagnosed at once, for the number of its arguments, and not attached.  And the outcome
  of a deferred validation depends on what has been attached in between: after
  \<^verbatim>\<open>num_simd_work_items(N)\<close> the attribute \<^verbatim>\<open>reqd_work_group_size(16)\<close> is attached without
  a diagnostic; instantiating \<open>N\<close> with \<open>5\<close> then diagnoses \<^verbatim>\<open>num_simd_work_items\<close> and
  drops it, while \<^verbatim>\<open>num_simd_work_items(5)\<close> written in its place is attached without a
  diagnostic.
\<close>

theorem deferred_validation_counterexample:
  "handleSYCLIntelBankBitsAttr syclDevice
     (localVariable\<lparr>attrs :=
        [\<lparr>data = SYCLIntelMemoryAttr Default, isImplicit = True, getLoc = NoLoc\<rparr>,
         \<lparr>data = SYCLIntelNumBanksAttr (ConstantExpr 8), isImplicit = False, getLoc = AttrLoc 2\<rparr>]\<rparr>)
     (written AT_SYCLIntelBankBits 3) [ValueDependent 0] =
     (localVariable\<lparr>attrs :=
        [\<lparr>data = SYCLIntelMemoryAttr Default, isImplicit = True, getLoc = NoLoc\<rparr>,
         \<lparr>data = SYCLIntelNumBanksAttr (ConstantExpr 8), isImplicit = False, getLoc = AttrLoc 2\<rparr>]\<rparr>,
      [Diag err_bankbits_numbanks_conflicting (AttrLoc 3) []]) \<and>
   AddSYCLIntelNumSimdWorkItemsAttr syclDevice kernelFunction
     (written AT_SYCLIntelNumSimdWorkItems 2) (ValueDependent 0) =
     (kernelFunction\<lparr>attrs :=
        [\<lparr>data = SYCLIntelNumSimdWorkItemsAttr (ValueDependent 0), isImplicit = False,
           getLoc = AttrLoc 2\<rparr>]\<rparr>, []) \<and>
   AddSYCLReqdWorkGroupSizeAttr syclDevice
     (kernelFunction\<lparr>attrs :=
        [\<lparr>data = SYCLIntelNumSimdWorkItemsAttr (ValueDependent 0), isImplicit = False,
           getLoc = AttrLoc 2\<rparr>]\<rparr>)
     (written AT_SYCLReqdWorkGroupSize 3) (IntegerLiteral 16) None None =
     (kernelFunction\<lparr>attrs :=
        [\<lparr>data = SYCLIntelNumSimdWorkItemsAttr (ValueDependent 0), isImplicit = False,
           getLoc = AttrLoc 2\<rparr>,
         \<lparr>data = SYCLReqdWorkGroupSizeAttr (ConstantExpr 16) None None, isImplicit = False,
           getLoc = AttrLoc 3\<rparr>]\<rparr>, []) \<and>
   on_instantiated syclDevice (substituteAll 5)
     (kernelFunction\<lparr>attrs :=
        [\<lparr>data = SYCLIntelNumSimdWorkItemsAttr (ValueDependent 0), isImplicit = False,
           getLoc = AttrLoc 2\<rparr>,
         \<lparr>data = SYCLReqdWorkGroupSizeAttr (ConstantExpr 16) None None, isImplicit = False,
           getLoc = AttrLoc 3\<rparr>]\<rparr>) =
     (kernelFunction\<lparr>attrs :=
        [\<lparr>data = SYCLReqdWorkGroupSizeAttr (ConstantExpr 16) None None, isImplicit = False,
           getLoc = AttrLoc 3\<rparr>]\<rparr>,
      [Diag err_sycl_num_kernel_wrong_reqd_wg_size (AttrLoc 2)
         [Name AT_SYCLIntelNumSimdWorkItems, Name AT_SYCLReqdWorkGroupSize],
       Diag note_conflicting_attribute (AttrLoc 3) []]) \<and>
   AddSYCLIntelNumSimdWorkItemsAttr syclDevice kernelFunction
     (written AT_SYCLIntelNumSimdWorkItems 2) (IntegerLiteral 5) =
     (kernelFunction\<lparr>attrs :=
        [\<lparr>data = SYCLIntelNumSimdWorkItemsAttr (ConstantExpr 5), isImplicit = False,
           getLoc = AttrLoc 2\<rparr>]\<rparr>, [])"
proof -
  let ?N = "\<lparr>data = SYCLIntelNumSimdWorkItemsAttr (ValueDependent 0), isImplicit = False,
              getLoc = AttrLoc 2\<rparr>"
  let ?R = "\<lparr>data = SYCLReqdWorkGroupSizeAttr (ConstantExpr 16) None None, isImplicit = False,
              getLoc = AttrLoc 3\<rparr>"
  have emptyK: "attrs kernelFunction = []" by (simp add: kernelFunction_def)
  have noneK: "getAttr T kernelFunction = None" for T :: "AttrData \<Rightarrow> 'a option"
    by (simp add: getAttr_def kernelFunction_def)
  have c8: "ceilLogBase2 8 = 3" using ceilLogBase2_two_power [of 3] by simp
  have bits: "handleSYCLIntelBankBitsAttr syclDevice
     (localVariable\<lparr>attrs :=
        [\<lparr>data = SYCLIntelMemoryAttr Default, isImplicit = True, getLoc = NoLoc\<rparr>,
         \<lparr>data = SYCLIntelNumBanksAttr (ConstantExpr 8), isImplicit = False, getLoc = AttrLoc 2\<rparr>]\<rparr>)
     (written AT_SYCLIntelBankBits 3) [ValueDependent 0] =
     (localVariable\<lparr>attrs :=
        [\<lparr>data = SYCLIntelMemoryAttr Default, isImplicit = True, getLoc = NoLoc\<rparr>,
         \<lparr>data = SYCLIntelNumBanksAttr (ConstantExpr 8), isImplicit = False, getLoc = AttrLoc 2\<rparr>]\<rparr>,
      [Diag err_bankbits_numbanks_conflicting (AttrLoc 3) []])"
    by (simp add: handleSYCLIntelBankBitsAttr_def checkForDuplicateAttribute_BankBits_def
        AddSYCLIntelBankBitsAttr_def getAttr_def c8 written_def Let_def)
  have first: "AddSYCLIntelNumSimdWorkItemsAttr syclDevice kernelFunction
     (written AT_SYCLIntelNumSimdWorkItems 2) (ValueDependent 0) =
     (kernelFunction\<lparr>attrs := [?N]\<rparr>, [])"
    using emptyK
    by (simp add: AddSYCLIntelNumSimdWorkItemsAttr_def addAttr_def Create_def written_def)
  have second: "AddSYCLReqdWorkGroupSizeAttr syclDevice (kernelFunction\<lparr>attrs := [?N]\<rparr>)
     (written AT_SYCLReqdWorkGroupSize 3) (IntegerLiteral 16) None None =
     (kernelFunction\<lparr>attrs := [?N, ?R]\<rparr>, [])"
    by (simp add: AddSYCLReqdWorkGroupSizeAttr_def CheckAndConvertArg_def
        CheckAndConvertOptArg_def getAttr_def CheckWorkGroupSize_def addAttr_def Create_def
        written_def)
  have check: "CheckWorkGroupSize (ConstantExpr 5) (ConstantExpr 16) None None"
    by (simp add: CheckWorkGroupSize_def getZExtValue_def)
  have third: "on_instantiated syclDevice (substituteAll 5) (kernelFunction\<lparr>attrs := [?N, ?R]\<rparr>) =
     (kernelFunction\<lparr>attrs := [?R]\<rparr>,
      [Diag err_sycl_num_kernel_wrong_reqd_wg_size (AttrLoc 2)
         [Name AT_SYCLIntelNumSimdWorkItems, Name AT_SYCLReqdWorkGroupSize],
       Diag note_conflicting_attribute (AttrLoc 3) []])"
    using check
    by (simp add: on_instantiated_def reenter_def AddSYCLIntelNumSimdWorkItemsAttr_def
        getAttr_def substituteAll_def Let_def)
  have fourth: "AddSYCLIntelNumSimdWorkItemsAttr syclDevice kernelFunction
     (written AT_SYCLIntelNumSimdWorkItems 2) (IntegerLiteral 5) =
     (kernelFunction\<lparr>attrs :=
        [\<lparr>data = SYCLIntelNumSimdWorkItemsAttr (ConstantExpr 5), isImplicit = False,
           getLoc = AttrLoc 2\<rparr>]\<rparr>, [])"
    using emptyK
    by (simp add: AddSYCLIntelNumSimdWorkItemsAttr_def noneK addAttr_def Create_def written_def)
  show ?thesis using bits first second third fourth by simp
qed

section \<open>Duplicates with a different value\<close>

lemma AreArgValuesIdentical_constants:
  "AreArgValuesIdentical (map_option ConstantExpr a) (map_option ConstantExpr b) =
     (if a = b then Same else Different)"
  by (cases a; cases b) auto

lemma AnyWorkGroupSizesDiffer_constants:
  "AnyWorkGroupSizesDiffer (Some (ConstantExpr vx)) (map_option ConstantExpr vy)
     (map_option ConstantExpr vz) (Some (ConstantExpr wx)) (map_option ConstantExpr wy)
     (map_option ConstantExpr wz) = ((vx, vy, vz) \<noteq> (wx, wy, wz))"
  by (auto simp: AnyWorkGroupSizesDiffer_def AreArgValuesIdentical_constants)

lemma AllWorkGroupSizesSame_constants:
  "AllWorkGroupSizesSame (Some (ConstantExpr vx)) (map_option ConstantExpr vy)
     (map_option ConstantExpr vz) (Some (ConstantExpr wx)) (map_option ConstantExpr wy)
     (map_option ConstantExpr wz) = ((vx, vy, vz) = (wx, wy, wz))"
  by (auto simp: AllWorkGroupSizesSame_def AreArgValuesIdentical_constants)

lemma AnyWorkGroupSizesDiffer_three:
  "AnyWorkGroupSizesDiffer (Some (ConstantExpr vx)) (Some (ConstantExpr vy))
     (Some (ConstantExpr vz)) (Some (ConstantExpr wx)) (Some (ConstantExpr wy))
     (Some (ConstantExpr wz)) = ((vx, vy, vz) \<noteq> (wx, wy, wz))"
  using AnyWorkGroupSizesDiffer_constants [of vx "Some vy" "Some vz" wx "Some wy" "Some wz"]
  by simp

lemma AllWorkGroupSizesSame_three:
  "AllWorkGroupSizesSame (Some (ConstantExpr vx)) (Some (ConstantExpr vy))
     (Some (ConstantExpr vz)) (Some (ConstantExpr wx)) (Some (ConstantExpr wy))
     (Some (ConstantExpr wz)) = ((vx, vy, vz) = (wx, wy, wz))"
  using AllWorkGroupSizesSame_constants [of vx "Some vy" "Some vz" wx "Some wy" "Some wz"]
  by simp

lemma CheckAndConvertArg_literal_cases:
  "CheckAndConvertArg CI i (IntegerLiteral v) =
     (if 0 < v then (Some (ConstantExpr v), [])
      else (None, [Diag err_attribute_requires_positive_integer (ExprLoc (ciLoc CI) i)
                     [Name (getParsedKind CI), Select 0]]))"
  by (simp add: CheckAndConvertArg_def)

lemma CheckAndConvertOptArg_literal_cases:
  "CheckAndConvertOptArg CI i (map_option IntegerLiteral v) =
     (if \<forall>y \<in> set_option v. 0 < y then (Some (map_option ConstantExpr v), [])
      else (None, [Diag err_attribute_requires_positive_integer (ExprLoc (ciLoc CI) i)
                     [Name (getParsedKind CI), Select 0]]))"
  by (cases v) (simp_all add: CheckAndConvertOptArg_def CheckAndConvertArg_literal_cases)

text \<open>The single-valued attributes.\<close>

lemma bank_width_conflict:
  assumes "getAttr castBankWidth D = Some (A0, ConstantExpr w)" "v \<noteq> w"
  shows "fst (AddSYCLIntelBankWidthAttr L D CI (IntegerLiteral v)) = D"
    and "snd (AddSYCLIntelBankWidthAttr L D CI (IntegerLiteral v)) \<noteq> []"
    and "(\<exists>k. v = 2 ^ k) \<Longrightarrow> \<not> (SYCLIsDevice L \<and> CheckValidFPGAMemoryAttributesVar D) \<Longrightarrow>
         snd (AddSYCLIntelBankWidthAttr L D CI (IntegerLiteral v)) =
           [Diag warn_duplicate_attribute (AttrLoc (ciLoc CI)) [Name (getParsedKind CI)],
            Diag note_previous_attribute (getLoc A0) []]"
proof -
  show "fst (AddSYCLIntelBankWidthAttr L D CI (IntegerLiteral v)) = D"
    using assms by (simp add: AddSYCLIntelBankWidthAttr_def)
  show "snd (AddSYCLIntelBankWidthAttr L D CI (IntegerLiteral v)) \<noteq> []"
    using assms by (simp add: AddSYCLIntelBankWidthAttr_def)
  assume p: "\<exists>k. v = 2 ^ k" and s: "\<not> (SYCLIsDevice L \<and> CheckValidFPGAMemoryAttributesVar D)"
  from p have "isPowerOf2 v" "0 < v" by (auto simp: isPowerOf2_iff)
  then show "snd (AddSYCLIntelBankWidthAttr L D CI (IntegerLiteral v)) =
           [Diag warn_duplicate_attribute (AttrLoc (ciLoc CI)) [Name (getParsedKind CI)],
            Diag note_previous_attribute (getLoc A0) []]"
    using assms s by (auto simp: AddSYCLIntelBankWidthAttr_def)
qed

lemma numbanks_conflict:
  assumes "getAttr castNumBanks D = Some (A0, ConstantExpr w)" "v \<noteq> w"
  shows "fst (AddSYCLIntelNumBanksAttr L D CI (IntegerLiteral v)) = D"
    and "snd (AddSYCLIntelNumBanksAttr L D CI (IntegerLiteral v)) \<noteq> []"
    and "(\<exists>k. v = 2 ^ k) \<Longrightarrow> \<not> (SYCLIsDevice L \<and> CheckValidFPGAMemoryAttributesVar D) \<Longrightarrow>
         (\<forall>BBA BBArgs. getAttr castBankBits D = Some (BBA, BBArgs) \<longrightarrow>
                        length BBArgs = ceillog2 (nat v)) \<Longrightarrow>
         snd (AddSYCLIntelNumBanksAttr L D CI (IntegerLiteral v)) =
           [Diag warn_duplicate_attribute (AttrLoc (ciLoc CI)) [Name (getParsedKind CI)],
            Diag note_previous_attribute (getLoc A0) []]"
proof -
  show "fst (AddSYCLIntelNumBanksAttr L D CI (IntegerLiteral v)) = D"
    using assms by (simp add: AddSYCLIntelNumBanksAttr_def)
  show "snd (AddSYCLIntelNumBanksAttr L D CI (IntegerLiteral v)) \<noteq> []"
    using assms by (simp add: AddSYCLIntelNumBanksAttr_def)
  assume p: "\<exists>k. v = 2 ^ k" and s: "\<not> (SYCLIsDevice L \<and> CheckValidFPGAMemoryAttributesVar D)"
    and b: "\<forall>BBA BBArgs. getAttr castBankBits D = Some (BBA, BBArgs) \<longrightarrow>
                        length BBArgs = ceillog2 (nat v)"
  from p have p2: "isPowerOf2 v" and pos: "0 < v" by (auto simp: isPowerOf2_iff)
  have clb: "ceilLogBase2 v = ceillog2 (nat v)" using pos by (simp add: ceilLogBase2_def)
  show "snd (AddSYCLIntelNumBanksAttr L D CI (IntegerLiteral v)) =
           [Diag warn_duplicate_attribute (AttrLoc (ciLoc CI)) [Name (getParsedKind CI)],
            Diag note_previous_attribute (getLoc A0) []]"
    using assms s b p2 pos clb by (auto simp: AddSYCLIntelNumBanksAttr_def split: option.splits)
qed

lemma num_simd_conflict:
  assumes "getAttr castNumSimdWorkItems D = Some (A0, ConstantExpr w)" "v \<noteq> w"
  shows "fst (AddSYCLIntelNumSimdWorkItemsAttr L D CI (IntegerLiteral v)) = D"
    and "snd (AddSYCLIntelNumSimdWorkItemsAttr L D CI (IntegerLiteral v)) \<noteq> []"
    and "0 < v \<Longrightarrow>
         snd (AddSYCLIntelNumSimdWorkItemsAttr L D CI (IntegerLiteral v)) =
           [Diag warn_duplicate_attribute (AttrLoc (ciLoc CI)) [Name (getParsedKind CI)],
            Diag note_previous_attribute (getLoc A0) []]"
  using assms by (simp_all add: AddSYCLIntelNumSimdWorkItemsAttr_def)

lemma merge_bank_width_conflict:
  assumes "getAttr castBankWidth D = Some (A0, ConstantExpr w)" "v \<noteq> w"
  shows "MergeSYCLIntelBankWidthAttr D A (ConstantExpr v) =
           (None, [Diag warn_duplicate_attribute (getLoc A0) [Name AT_SYCLIntelBankWidth],
                   Diag note_previous_attribute (getLoc A) []])"
  using assms by (auto simp: MergeSYCLIntelBankWidthAttr_def)


text \<open>The work-group size attributes.\<close>

lemma reqd_conflict:
  assumes g: "getAttr castReqdWorkGroupSize D =
                Some (A0, (ConstantExpr wx, map_option ConstantExpr wy, map_option ConstantExpr wz))"
      and ne: "(vx, vy, vz) \<noteq> (wx, wy, wz)"
  shows "fst (AddSYCLReqdWorkGroupSizeAttr L D CI (IntegerLiteral vx)
                (map_option IntegerLiteral vy) (map_option IntegerLiteral vz)) = D"
    and "snd (AddSYCLReqdWorkGroupSizeAttr L D CI (IntegerLiteral vx)
                (map_option IntegerLiteral vy) (map_option IntegerLiteral vz)) \<noteq> []"
    and "0 < vx \<Longrightarrow> \<forall>y \<in> set_option vy. 0 < y \<Longrightarrow> \<forall>z \<in> set_option vz. 0 < z \<Longrightarrow>
         \<not> (case getAttr castMaxGlobalWorkDim D of
              Some (GA, MGValue) \<Rightarrow>
                InvalidWorkGroupSizeAttrs MGValue (ConstantExpr vx) (map_option ConstantExpr vy)
                  (map_option ConstantExpr vz)
            | None \<Rightarrow> False) \<Longrightarrow>
         \<not> (case getAttr castMaxWorkGroupSize D of
              Some (MA, (MX, MY, MZ)) \<Rightarrow>
                CheckMaxAllowedWorkGroupSize L (ConstantExpr vx) (map_option ConstantExpr vy)
                  (map_option ConstantExpr vz) MX MY MZ
            | None \<Rightarrow> False) \<Longrightarrow>
         \<not> (case getAttr castNumSimdWorkItems D of
              Some (SA, NSWIValue) \<Rightarrow>
                CheckWorkGroupSize NSWIValue (ConstantExpr vx) (map_option ConstantExpr vy)
                  (map_option ConstantExpr vz)
            | None \<Rightarrow> False) \<Longrightarrow>
         snd (AddSYCLReqdWorkGroupSizeAttr L D CI (IntegerLiteral vx)
                (map_option IntegerLiteral vy) (map_option IntegerLiteral vz)) =
           [Diag err_duplicate_attribute (AttrLoc (ciLoc CI)) [Name (getParsedKind CI)],
            Diag note_previous_attribute (getLoc A0) []]"
proof -
  have differ: "AnyWorkGroupSizesDiffer (Some (ConstantExpr vx)) (map_option ConstantExpr vy)
     (map_option ConstantExpr vz) (Some (ConstantExpr wx)) (map_option ConstantExpr wy)
     (map_option ConstantExpr wz)"
    using ne by (simp only: AnyWorkGroupSizesDiffer_constants) simp
  show "fst (AddSYCLReqdWorkGroupSizeAttr L D CI (IntegerLiteral vx)
                (map_option IntegerLiteral vy) (map_option IntegerLiteral vz)) = D"
    unfolding AddSYCLReqdWorkGroupSizeAttr_def CheckAndConvertArg_literal_cases
      CheckAndConvertOptArg_literal_cases
    using g differ by (simp add: Let_def)
  show "snd (AddSYCLReqdWorkGroupSizeAttr L D CI (IntegerLiteral vx)
                (map_option IntegerLiteral vy) (map_option IntegerLiteral vz)) \<noteq> []"
    unfolding AddSYCLReqdWorkGroupSizeAttr_def CheckAndConvertArg_literal_cases
      CheckAndConvertOptArg_literal_cases
    using g differ by (simp add: Let_def)
  assume pos: "0 < vx" "\<forall>y \<in> set_option vy. 0 < y" "\<forall>z \<in> set_option vz. 0 < z"
    and mg: "\<not> (case getAttr castMaxGlobalWorkDim D of
              Some (GA, MGValue) \<Rightarrow>
                InvalidWorkGroupSizeAttrs MGValue (ConstantExpr vx) (map_option ConstantExpr vy)
                  (map_option ConstantExpr vz)
            | None \<Rightarrow> False)"
    and mx: "\<not> (case getAttr castMaxWorkGroupSize D of
              Some (MA, (MX, MY, MZ)) \<Rightarrow>
                CheckMaxAllowedWorkGroupSize L (ConstantExpr vx) (map_option ConstantExpr vy)
                  (map_option ConstantExpr vz) MX MY MZ
            | None \<Rightarrow> False)"
    and ns: "\<not> (case getAttr castNumSimdWorkItems D of
              Some (SA, NSWIValue) \<Rightarrow>
                CheckWorkGroupSize NSWIValue (ConstantExpr vx) (map_option ConstantExpr vy)
                  (map_option ConstantExpr vz)
            | None \<Rightarrow> False)"
  have dsMG: "(case getAttr castMaxGlobalWorkDim D of
                 Some (DeclAttr, MGValue) \<Rightarrow>
                   if InvalidWorkGroupSizeAttrs MGValue (ConstantExpr vx)
                        (map_option ConstantExpr vy) (map_option ConstantExpr vz) then
                     [Diag err_sycl_x_y_z_arguments_must_be_one (AttrLoc (ciLoc CI))
                        [Name (getParsedKind CI), Name AT_SYCLIntelMaxGlobalWorkDim]]
                   else []
               | None \<Rightarrow> []) = []"
    using mg by (auto split: option.splits)
  show "snd (AddSYCLReqdWorkGroupSizeAttr L D CI (IntegerLiteral vx)
                (map_option IntegerLiteral vy) (map_option IntegerLiteral vz)) =
           [Diag err_duplicate_attribute (AttrLoc (ciLoc CI)) [Name (getParsedKind CI)],
            Diag note_previous_attribute (getLoc A0) []]"
    unfolding AddSYCLReqdWorkGroupSizeAttr_def CheckAndConvertArg_literal_cases
      CheckAndConvertOptArg_literal_cases
    using pos g differ mx ns dsMG by (simp add: Let_def)
qed

lemma max_conflict:
  assumes g: "getAttr castMaxWorkGroupSize D =
                Some (A0, (ConstantExpr wx, ConstantExpr wy, ConstantExpr wz))"
      and ne: "(vx, vy, vz) \<noteq> (wx, wy, wz)"
  shows "fst (AddSYCLIntelMaxWorkGroupSizeAttr L D CI (IntegerLiteral vx)
                (IntegerLiteral vy) (IntegerLiteral vz)) = D"
    and "snd (AddSYCLIntelMaxWorkGroupSizeAttr L D CI (IntegerLiteral vx)
                (IntegerLiteral vy) (IntegerLiteral vz)) \<noteq> []"
    and "0 < vx \<Longrightarrow> 0 < vy \<Longrightarrow> 0 < vz \<Longrightarrow>
         \<not> (case getAttr castReqdWorkGroupSize D of
              Some (RA, (RX, RY, RZ)) \<Rightarrow>
                CheckMaxAllowedWorkGroupSize L RX RY RZ (ConstantExpr vx) (ConstantExpr vy)
                  (ConstantExpr vz)
            | None \<Rightarrow> False) \<Longrightarrow>
         \<not> (case getAttr castMaxGlobalWorkDim D of
              Some (GA, MGValue) \<Rightarrow>
                InvalidWorkGroupSizeAttrs MGValue (ConstantExpr vx) (Some (ConstantExpr vy))
                  (Some (ConstantExpr vz))
            | None \<Rightarrow> False) \<Longrightarrow>
         snd (AddSYCLIntelMaxWorkGroupSizeAttr L D CI (IntegerLiteral vx)
                (IntegerLiteral vy) (IntegerLiteral vz)) =
           [Diag warn_duplicate_attribute (AttrLoc (ciLoc CI)) [Name (getParsedKind CI)],
            Diag note_previous_attribute (getLoc A0) []]"
proof -
  have differ: "AnyWorkGroupSizesDiffer (Some (ConstantExpr vx)) (Some (ConstantExpr vy))
     (Some (ConstantExpr vz)) (Some (ConstantExpr wx)) (Some (ConstantExpr wy))
     (Some (ConstantExpr wz))"
    using ne by (simp only: AnyWorkGroupSizesDiffer_three) simp
  show "fst (AddSYCLIntelMaxWorkGroupSizeAttr L D CI (IntegerLiteral vx)
                (IntegerLiteral vy) (IntegerLiteral vz)) = D"
    unfolding AddSYCLIntelMaxWorkGroupSizeAttr_def CheckAndConvertArg_literal_cases
    using g differ by (simp add: Let_def)
  show "snd (AddSYCLIntelMaxWorkGroupSizeAttr L D CI (IntegerLiteral vx)
                (IntegerLiteral vy) (IntegerLiteral vz)) \<noteq> []"
    unfolding AddSYCLIntelMaxWorkGroupSizeAttr_def CheckAndConvertArg_literal_cases
    using g differ by (simp add: Let_def)
  assume "0 < vx" "0 < vy" "0 < vz"
    "\<not> (case getAttr castReqdWorkGroupSize D of
              Some (RA, (RX, RY, RZ)) \<Rightarrow>
                CheckMaxAllowedWorkGroupSize L RX RY RZ (ConstantExpr vx) (ConstantExpr vy)
                  (ConstantExpr vz)
            | None \<Rightarrow> False)"
    "\<not> (case getAttr castMaxGlobalWorkDim D of
              Some (GA, MGValue) \<Rightarrow>
                InvalidWorkGroupSizeAttrs MGValue (ConstantExpr vx) (Some (ConstantExpr vy))
                  (Some (ConstantExpr vz))
            | None \<Rightarrow> False)"
  then show "snd (AddSYCLIntelMaxWorkGroupSizeAttr L D CI (IntegerLiteral vx)
                (IntegerLiteral vy) (IntegerLiteral vz)) =
           [Diag warn_duplicate_attribute (AttrLoc (ciLoc CI)) [Name (getParsedKind CI)],
            Diag note_previous_attribute (getLoc A0) []]"
    unfolding AddSYCLIntelMaxWorkGroupSizeAttr_def CheckAndConvertArg_literal_cases
    using g differ by (simp add: Let_def)
qed


lemma max_global_work_dim_conflict:
  assumes "getAttr castMaxGlobalWorkDim D = Some (A0, ConstantExpr w)" "v \<noteq> w"
  shows "fst (AddSYCLIntelMaxGlobalWorkDimAttr L D CI (IntegerLiteral v)) = D"
    and "snd (AddSYCLIntelMaxGlobalWorkDimAttr L D CI (IntegerLiteral v)) \<noteq> []"
    and "0 \<le> v \<Longrightarrow> v \<le> 3 \<Longrightarrow>
         snd (AddSYCLIntelMaxGlobalWorkDimAttr L D CI (IntegerLiteral v)) =
           [Diag warn_duplicate_attribute (AttrLoc (ciLoc CI)) [Name (getParsedKind CI)],
            Diag note_previous_attribute (getLoc A0) []]"
  using assms by (simp_all add: AddSYCLIntelMaxGlobalWorkDimAttr_def)

lemma memory_conflict:
  assumes "getAttr castMemory D = Some (A0, k0)" "\<not> isImplicit A0" "k \<noteq> k0"
      and "(case StrArg of None \<Rightarrow> Some Default | Some r \<Rightarrow> r) = Some k"
  shows "handleSYCLIntelMemoryAttr L D CI StrArg =
           (D, [Diag warn_duplicate_attribute (AttrLoc (ciLoc CI)) [Name (getParsedKind CI)],
                Diag note_previous_attribute (getLoc A0) []])"
  using assms by (simp add: handleSYCLIntelMemoryAttr_def)

text \<open>
  Claim C2, amended.  For \<^verbatim>\<open>bank_width\<close>, \<^verbatim>\<open>numbanks\<close>, \<^verbatim>\<open>num_simd_work_items\<close>,
  \<^verbatim>\<open>max_global_work_dim\<close>, \<^verbatim>\<open>reqd_work_group_size\<close> and \<^verbatim>\<open>max_work_group_size\<close>:
  if the declaration's attribute of the kind holds constants and the same kind arrives
  with literals that differ from them, the declaration is left as it is and something is
  diagnosed.  If the new attribute passes the checks that come before the comparison (its
  arguments are valid, it applies to the declaration, and the checks against the
  attributes of other kinds that the declaration carries do not fail), what is diagnosed
  is the duplicate, at the new attribute, with a note at the one that is kept.  Merging a
  redeclaration's \<^verbatim>\<open>bank_width\<close> with a different constant yields no attribute and the
  same pair of diagnostics.  An explicit \<^verbatim>\<open>fpga_memory\<close> of another kind than the
  explicit one that the declaration carries is diagnosed in the same way and not
  attached.
\<close>

theorem conflicting_duplicate_keeps_first:
  "(getAttr castBankWidth D = Some (A0, ConstantExpr w) \<and> v \<noteq> w \<longrightarrow>
      fst (AddSYCLIntelBankWidthAttr L D CI (IntegerLiteral v)) = D \<and>
      snd (AddSYCLIntelBankWidthAttr L D CI (IntegerLiteral v)) \<noteq> [] \<and>
      ((\<exists>k. v = 2 ^ k) \<and> \<not> (SYCLIsDevice L \<and> CheckValidFPGAMemoryAttributesVar D) \<longrightarrow>
         snd (AddSYCLIntelBankWidthAttr L D CI (IntegerLiteral v)) =
           [Diag warn_duplicate_attribute (AttrLoc (ciLoc CI)) [Name (getParsedKind CI)],
            Diag note_previous_attribute (getLoc A0) []]) \<and>
      MergeSYCLIntelBankWidthAttr D A (ConstantExpr v) =
        (None, [Diag warn_duplicate_attribute (getLoc A0) [Name AT_SYCLIntelBankWidth],
                Diag note_previous_attribute (getLoc A) []])) \<and>
   (getAttr castNumBanks D = Some (A0, ConstantExpr w) \<and> v \<noteq> w \<longrightarrow>
      fst (AddSYCLIntelNumBanksAttr L D CI (IntegerLiteral v)) = D \<and>
      snd (AddSYCLIntelNumBanksAttr L D CI (IntegerLiteral v)) \<noteq> [] \<and>
      ((\<exists>k. v = 2 ^ k) \<and> \<not> (SYCLIsDevice L \<and> CheckValidFPGAMemoryAttributesVar D) \<and>
       (\<forall>BBA BBArgs. getAttr castBankBits D = Some (BBA, BBArgs) \<longrightarrow>
                      length BBArgs = ceillog2 (nat v)) \<longrightarrow>
         snd (AddSYCLIntelNumBanksAttr L D CI (IntegerLiteral v)) =
           [Diag warn_duplicate_attribute (AttrLoc (ciLoc CI)) [Name (getParsedKind CI)],
            Diag note_previous_attribute (getLoc A0) []])) \<and>
   (getAttr castNumSimdWorkItems D = Some (A0, ConstantExpr w) \<and> v \<noteq> w \<longrightarrow>
      fst (AddSYCLIntelNumSimdWorkItemsAttr L D CI (IntegerLiteral v)) = D \<and>
      snd (AddSYCLIntelNumSimdWorkItemsAttr L D CI (IntegerLiteral v)) \<noteq> [] \<and>
      (0 < v \<longrightarrow>
         snd (AddSYCLIntelNumSimdWorkItemsAttr L D CI (IntegerLiteral v)) =
           [Diag warn_duplicate_attribute (AttrLoc (ciLoc CI)) [Name (getParsedKind CI)],
            Diag note_previous_attribute (getLoc A0) []])) \<and>
   (getAttr castReqdWorkGroupSize D =
      Some (A0, (ConstantExpr wx, map_option ConstantExpr wy, map_option ConstantExpr wz)) \<and>
    (vx, vy, vz) \<noteq> (wx, wy, wz) \<longrightarrow>
      fst (AddSYCLReqdWorkGroupSizeAttr L D CI (IntegerLiteral vx)
             (map_option IntegerLiteral vy) (map_option IntegerLiteral vz)) = D \<and>
      snd (AddSYCLReqdWorkGroupSizeAttr L D CI (IntegerLiteral vx)
             (map_option IntegerLiteral vy) (map_option IntegerLiteral vz)) \<noteq> [] \<and>
      (0 < vx \<and> (\<forall>y \<in> set_option vy. 0 < y) \<and> (\<forall>z \<in> set_option vz. 0 < z) \<and>
       \<not> (case getAttr castMaxGlobalWorkDim D of
            Some (GA, MGValue) \<Rightarrow>
              InvalidWorkGroupSizeAttrs MGValue (ConstantExpr vx) (map_option ConstantExpr vy)
                (map_option ConstantExpr vz)
          | None \<Rightarrow> False) \<and>
       \<not> (case getAttr castMaxWorkGroupSize D of
            Some (MA, (MX, MY, MZ)) \<Rightarrow>
              CheckMaxAllowedWorkGroupSize L (ConstantExpr vx) (map_option ConstantExpr vy)
                (map_option ConstantExpr vz) MX MY MZ
          | None \<Rightarrow> False) \<and>
       \<not> (case getAttr castNumSimdWorkItems D of
            Some (SA, NSWIValue) \<Rightarrow>
              CheckWorkGroupSize NSWIValue (ConstantExpr vx) (map_option ConstantExpr vy)
                (map_option ConstantExpr vz)
          | None \<Rightarrow> False) \<longrightarrow>
         snd (AddSYCLReqdWorkGroupSizeAttr L D CI (IntegerLiteral vx)
                (map_option IntegerLiteral vy) (map_option IntegerLiteral vz)) =
           [Diag err_duplicate_attribute (AttrLoc (ciLoc CI)) [Name (getParsedKind CI)],
            Diag note_previous_attribute (getLoc A0) []])) \<and>
   (getAttr castMaxWorkGroupSize D =
      Some (A0, (ConstantExpr wx, ConstantExpr mwy, ConstantExpr mwz)) \<and>
    (vx, mvy, mvz) \<noteq> (wx, mwy, mwz) \<longrightarrow>
      fst (AddSYCLIntelMaxWorkGroupSizeAttr L D CI (IntegerLiteral vx)
             (IntegerLiteral mvy) (IntegerLiteral mvz)) = D \<and>
      snd (AddSYCLIntelMaxWorkGroupSizeAttr L D CI (IntegerLiteral vx)
             (IntegerLiteral mvy) (IntegerLiteral mvz)) \<noteq> [] \<and>
      (0 < vx \<and> 0 < mvy \<and> 0 < mvz \<and>
       \<not> (case getAttr castReqdWorkGroupSize D of
            Some (RA, (RX, RY, RZ)) \<Rightarrow>
              CheckMaxAllowedWorkGroupSize L RX RY RZ (ConstantExpr vx) (ConstantExpr mvy)
                (ConstantExpr mvz)
          | None \<Rightarrow> False) \<and>
       \<not> (case getAttr castMaxGlobalWorkDim D of
            Some (GA, MGValue) \<Rightarrow>
              InvalidWorkGroupSizeAttrs MGValue (ConstantExpr vx) (Some (ConstantExpr mvy))
                (Some (ConstantExpr mvz))
          | None \<Rightarrow> False) \<longrightarrow>
         snd (AddSYCLIntelMaxWorkGroupSizeAttr L D CI (IntegerLiteral vx)
                (IntegerLiteral mvy) (IntegerLiteral mvz)) =
           [Diag warn_duplicate_attribute (AttrLoc (ciLoc CI)) [Name (getParsedKind CI)],
            Diag note_previous_attribute (getLoc A0) []])) \<and>
   (getAttr castMaxGlobalWorkDim D = Some (A0, ConstantExpr w) \<and> v \<noteq> w \<longrightarrow>
      fst (AddSYCLIntelMaxGlobalWorkDimAttr L D CI (IntegerLiteral v)) = D \<and>
      snd (AddSYCLIntelMaxGlobalWorkDimAttr L D CI (IntegerLiteral v)) \<noteq> [] \<and>
      (0 \<le> v \<and> v \<le> 3 \<longrightarrow>
         snd (AddSYCLIntelMaxGlobalWorkDimAttr L D CI (IntegerLiteral v)) =
           [Diag warn_duplicate_attribute (AttrLoc (ciLoc CI)) [Name (getParsedKind CI)],
            Diag note_previous_attribute (getLoc A0) []])) \<and>
   (getAttr castMemory D = Some (A0, k0) \<and> \<not> isImplicit A0 \<and> k \<noteq> k0 \<and>
    (case StrArg of None \<Rightarrow> Some Default | Some r \<Rightarrow> r) = Some k \<longrightarrow>
      handleSYCLIntelMemoryAttr L D CI StrArg =
        (D, [Diag warn_duplicate_attribute (AttrLoc (ciLoc CI)) [Name (getParsedKind CI)],
             Diag note_previous_attribute (getLoc A0) []]))"
proof (intro conjI impI)
  assume h: "getAttr castBankWidth D = Some (A0, ConstantExpr w) \<and> v \<noteq> w"
  then have g: "getAttr castBankWidth D = Some (A0, ConstantExpr w)" and ne: "v \<noteq> w" by simp_all
  show "fst (AddSYCLIntelBankWidthAttr L D CI (IntegerLiteral v)) = D"
    by (rule bank_width_conflict(1) [OF g ne])
  show "snd (AddSYCLIntelBankWidthAttr L D CI (IntegerLiteral v)) \<noteq> []"
    by (rule bank_width_conflict(2) [OF g ne])
  show "MergeSYCLIntelBankWidthAttr D A (ConstantExpr v) =
        (None, [Diag warn_duplicate_attribute (getLoc A0) [Name AT_SYCLIntelBankWidth],
                Diag note_previous_attribute (getLoc A) []])"
    by (rule merge_bank_width_conflict [OF g ne])
  assume "(\<exists>k. v = 2 ^ k) \<and> \<not> (SYCLIsDevice L \<and> CheckValidFPGAMemoryAttributesVar D)"
  then show "snd (AddSYCLIntelBankWidthAttr L D CI (IntegerLiteral v)) =
           [Diag warn_duplicate_attribute (AttrLoc (ciLoc CI)) [Name (getParsedKind CI)],
            Diag note_previous_attribute (getLoc A0) []]"
    using bank_width_conflict(3) [OF g ne] by blast
next
  assume h: "getAttr castNumBanks D = Some (A0, ConstantExpr w) \<and> v \<noteq> w"
  then have g: "getAttr castNumBanks D = Some (A0, ConstantExpr w)" and ne: "v \<noteq> w" by simp_all
  show "fst (AddSYCLIntelNumBanksAttr L D CI (IntegerLiteral v)) = D"
    by (rule numbanks_conflict(1) [OF g ne])
  show "snd (AddSYCLIntelNumBanksAttr L D CI (IntegerLiteral v)) \<noteq> []"
    by (rule numbanks_conflict(2) [OF g ne])
  assume "(\<exists>k. v = 2 ^ k) \<and> \<not> (SYCLIsDevice L \<and> CheckValidFPGAMemoryAttributesVar D) \<and>
       (\<forall>BBA BBArgs. getAttr castBankBits D = Some (BBA, BBArgs) \<longrightarrow>
                      length BBArgs = ceillog2 (nat v))"
  then show "snd (AddSYCLIntelNumBanksAttr L D CI (IntegerLiteral v)) =
           [Diag warn_duplicate_attribute (AttrLoc (ciLoc CI)) [Name (getParsedKind CI)],
            Diag note_previous_attribute (getLoc A0) []]"
    using numbanks_conflict(3) [OF g ne] by blast
next
  assume h: "getAttr castNumSimdWorkItems D = Some (A0, ConstantExpr w) \<and> v \<noteq> w"
  then have g: "getAttr castNumSimdWorkItems D = Some (A0, ConstantExpr w)" and ne: "v \<noteq> w"
    by simp_all
  show "fst (AddSYCLIntelNumSimdWorkItemsAttr L D CI (IntegerLiteral v)) = D"
    by (rule num_simd_conflict(1) [OF g ne])
  show "snd (AddSYCLIntelNumSimdWorkItemsAttr L D CI (IntegerLiteral v)) \<noteq> []"
    by (rule num_simd_conflict(2) [OF g ne])
  assume "0 < v"
  then show "snd (AddSYCLIntelNumSimdWorkItemsAttr L D CI (IntegerLiteral v)) =
           [Diag warn_duplicate_attribute (AttrLoc (ciLoc CI)) [Name (getParsedKind CI)],
            Diag note_previous_attribute (getLoc A0) []]"
    by (rule num_simd_conflict(3) [OF g ne])
next
  assume h: "getAttr castReqdWorkGroupSize D =
      Some (A0, (ConstantExpr wx, map_option ConstantExpr wy, map_option ConstantExpr wz)) \<and>
    (vx, vy, vz) \<noteq> (wx, wy, wz)"
  then have g: "getAttr castReqdWorkGroupSize D =
      Some (A0, (ConstantExpr wx, map_option ConstantExpr wy, map_option ConstantExpr wz))"
    and ne: "(vx, vy, vz) \<noteq> (wx, wy, wz)" by simp_all
  show "fst (AddSYCLReqdWorkGroupSizeAttr L D CI (IntegerLiteral vx)
             (map_option IntegerLiteral vy) (map_option IntegerLiteral vz)) = D"
    by (rule reqd_conflict(1) [OF g ne])
  show "snd (AddSYCLReqdWorkGroupSizeAttr L D CI (IntegerLiteral vx)
             (map_option IntegerLiteral vy) (map_option IntegerLiteral vz)) \<noteq> []"
    by (rule reqd_conflict(2) [OF g ne])
  assume "0 < vx \<and> (\<forall>y \<in> set_option vy. 0 < y) \<and> (\<forall>z \<in> set_option vz. 0 < z) \<and>
       \<not> (case getAttr castMaxGlobalWorkDim D of
            Some (GA, MGValue) \<Rightarrow>
              InvalidWorkGroupSizeAttrs MGValue (ConstantExpr vx) (map_option ConstantExpr vy)
                (map_option ConstantExpr vz)
          | None \<Rightarrow> False) \<and>
       \<not> (case getAttr castMaxWorkGroupSize D of
            Some (MA, (MX, MY, MZ)) \<Rightarrow>
              CheckMaxAllowedWorkGroupSize L (ConstantExpr vx) (map_option ConstantExpr vy)
                (map_option ConstantExpr vz) MX MY MZ
          | None \<Rightarrow> False) \<and>
       \<not> (case getAttr castNumSimdWorkItems D of
            Some (SA, NSWIValue) \<Rightarrow>
              CheckWorkGroupSize NSWIValue (ConstantExpr vx) (map_option ConstantExpr vy)
                (map_option ConstantExpr vz)
          | None \<Rightarrow> False)"
  then show "snd (AddSYCLReqdWorkGroupSizeAttr L D CI (IntegerLiteral vx)
                (map_option IntegerLiteral vy) (map_option IntegerLiteral vz)) =
           [Diag err_duplicate_attribute (AttrLoc (ciLoc CI)) [Name (getParsedKind CI)],
            Diag note_previous_attribute (getLoc A0) []]"
    using reqd_conflict(3) [OF g ne] by blast
next
  assume h: "getAttr castMaxWorkGroupSize D =
      Some (A0, (ConstantExpr wx, ConstantExpr mwy, ConstantExpr mwz)) \<and>
    (vx, mvy, mvz) \<noteq> (wx, mwy, mwz)"
  then have g: "getAttr castMaxWorkGroupSize D =
      Some (A0, (ConstantExpr wx, ConstantExpr mwy, ConstantExpr mwz))"
    and ne: "(vx, mvy, mvz) \<noteq> (wx, mwy, mwz)" by simp_all
  show "fst (AddSYCLIntelMaxWorkGroupSizeAttr L D CI (IntegerLiteral vx)
             (IntegerLiteral mvy) (IntegerLiteral mvz)) = D"
    by (rule max_conflict(1) [OF g ne])
  show "snd (AddSYCLIntelMaxWorkGroupSizeAttr L D CI (IntegerLiteral vx)
             (IntegerLiteral mvy) (IntegerLiteral mvz)) \<noteq> []"
    by (rule max_conflict(2) [OF g ne])
  assume "0 < vx \<and> 0 < mvy \<and> 0 < mvz \<and>
       \<not> (case getAttr castReqdWorkGroupSize D of
            Some (RA, (RX, RY, RZ)) \<Rightarrow>
              CheckMaxAllowedWorkGroupSize L RX RY RZ (ConstantExpr vx) (ConstantExpr mvy)
                (ConstantExpr mvz)
          | None \<Rightarrow> False) \<and>
       \<not> (case getAttr castMaxGlobalWorkDim D of
            Some (GA, MGValue) \<Rightarrow>
              InvalidWorkGroupSizeAttrs MGValue (ConstantExpr vx) (Some (ConstantExpr mvy))
                (Some (ConstantExpr mvz))
          | None \<Rightarrow> False)"
  then show "snd (AddSYCLIntelMaxWorkGroupSizeAttr L D CI (IntegerLiteral vx)
                (IntegerLiteral mvy) (IntegerLiteral mvz)) =
           [Diag warn_duplicate_attribute (AttrLoc (ciLoc CI)) [Name (getParsedKind CI)],
            Diag note_previous_attribute (getLoc A0) []]"
    using max_conflict(3) [OF g ne] by blast
next
  assume h: "getAttr castMaxGlobalWorkDim D = Some (A0, ConstantExpr w) \<and> v \<noteq> w"
  then have g: "getAttr castMaxGlobalWorkDim D = Some (A0, ConstantExpr w)" and ne: "v \<noteq> w"
    by simp_all
  show "fst (AddSYCLIntelMaxGlobalWorkDimAttr L D CI (IntegerLiteral v)) = D"
    by (rule max_global_work_dim_conflict(1) [OF g ne])
  show "snd (AddSYCLIntelMaxGlobalWorkDimAttr L D CI (IntegerLiteral v)) \<noteq> []"
    by (rule max_global_work_dim_conflict(2) [OF g ne])
  assume "0 \<le> v \<and> v \<le> 3"
  then show "snd (AddSYCLIntelMaxGlobalWorkDimAttr L D CI (IntegerLiteral v)) =
           [Diag warn_duplicate_attribute (AttrLoc (ciLoc CI)) [Name (getParsedKind CI)],
            Diag note_previous_attribute (getLoc A0) []]"
    using max_global_work_dim_conflict(3) [OF g ne] by blast
next
  assume "getAttr castMemory D = Some (A0, k0) \<and> \<not> isImplicit A0 \<and> k \<noteq> k0 \<and>
    (case StrArg of None \<Rightarrow> Some Default | Some r \<Rightarrow> r) = Some k"
  then show "handleSYCLIntelMemoryAttr L D CI StrArg =
        (D, [Diag warn_duplicate_attribute (AttrLoc (ciLoc CI)) [Name (getParsedKind CI)],
             Diag note_previous_attribute (getLoc A0) []])"
    using memory_conflict by blast
qed


theorem conflicting_duplicate_keeps_first_witness:
  "AddSYCLReqdWorkGroupSizeAttr syclDevice
     (kernelFunction\<lparr>attrs :=
        [\<lparr>data = SYCLIntelMaxWorkGroupSizeAttr (ConstantExpr 8) (ConstantExpr 8) (ConstantExpr 8),
           isImplicit = False, getLoc = AttrLoc 2\<rparr>]\<rparr>)
     (written AT_SYCLReqdWorkGroupSize 3)
     (IntegerLiteral 2) (Some (IntegerLiteral 2)) (Some (IntegerLiteral 2)) =
     (kernelFunction\<lparr>attrs :=
        [\<lparr>data = SYCLIntelMaxWorkGroupSizeAttr (ConstantExpr 8) (ConstantExpr 8) (ConstantExpr 8),
           isImplicit = False, getLoc = AttrLoc 2\<rparr>,
         \<lparr>data = SYCLReqdWorkGroupSizeAttr (ConstantExpr 2) (Some (ConstantExpr 2))
                   (Some (ConstantExpr 2)),
           isImplicit = False, getLoc = AttrLoc 3\<rparr>]\<rparr>, []) \<and>
   AddSYCLReqdWorkGroupSizeAttr syclDevice
     (kernelFunction\<lparr>attrs :=
        [\<lparr>data = SYCLIntelMaxWorkGroupSizeAttr (ConstantExpr 8) (ConstantExpr 8) (ConstantExpr 8),
           isImplicit = False, getLoc = AttrLoc 2\<rparr>,
         \<lparr>data = SYCLReqdWorkGroupSizeAttr (ConstantExpr 2) (Some (ConstantExpr 2))
                   (Some (ConstantExpr 2)),
           isImplicit = False, getLoc = AttrLoc 3\<rparr>]\<rparr>)
     (written AT_SYCLReqdWorkGroupSize 4)
     (IntegerLiteral 4) (Some (IntegerLiteral 4)) (Some (IntegerLiteral 4)) =
     (kernelFunction\<lparr>attrs :=
        [\<lparr>data = SYCLIntelMaxWorkGroupSizeAttr (ConstantExpr 8) (ConstantExpr 8) (ConstantExpr 8),
           isImplicit = False, getLoc = AttrLoc 2\<rparr>,
         \<lparr>data = SYCLReqdWorkGroupSizeAttr (ConstantExpr 2) (Some (ConstantExpr 2))
                   (Some (ConstantExpr 2)),
           isImplicit = False, getLoc = AttrLoc 3\<rparr>]\<rparr>,
      [Diag err_duplicate_attribute (AttrLoc 4) [Name AT_SYCLReqdWorkGroupSize],
       Diag note_previous_attribute (AttrLoc 3) []]) \<and>
   length (primaryDiags
     [Diag err_duplicate_attribute (AttrLoc 4) [Name AT_SYCLReqdWorkGroupSize],
      Diag note_previous_attribute (AttrLoc 3) []]) = 1"
proof -
  let ?M = "\<lparr>data = SYCLIntelMaxWorkGroupSizeAttr (ConstantExpr 8) (ConstantExpr 8) (ConstantExpr 8),
              isImplicit = False, getLoc = AttrLoc 2\<rparr>"
  let ?R = "\<lparr>data = SYCLReqdWorkGroupSizeAttr (ConstantExpr 2) (Some (ConstantExpr 2))
                      (Some (ConstantExpr 2)),
              isImplicit = False, getLoc = AttrLoc 3\<rparr>"
  let ?DM = "kernelFunction\<lparr>attrs := [?M]\<rparr>"
  let ?D = "kernelFunction\<lparr>attrs := [?M, ?R]\<rparr>"
  let ?CI = "written AT_SYCLReqdWorkGroupSize 4"
  have fits2: "\<not> CheckMaxAllowedWorkGroupSize syclDevice (ConstantExpr 2) (Some (ConstantExpr 2))
                   (Some (ConstantExpr 2)) (ConstantExpr 8) (ConstantExpr 8) (ConstantExpr 8)"
    by (simp add: CheckMaxAllowedWorkGroupSize_def getZExtValue_def)
  have fits4: "\<not> CheckMaxAllowedWorkGroupSize syclDevice (ConstantExpr 4) (Some (ConstantExpr 4))
                   (Some (ConstantExpr 4)) (ConstantExpr 8) (ConstantExpr 8) (ConstantExpr 8)"
    by (simp add: CheckMaxAllowedWorkGroupSize_def getZExtValue_def)
  have first: "AddSYCLReqdWorkGroupSizeAttr syclDevice ?DM (written AT_SYCLReqdWorkGroupSize 3)
                 (IntegerLiteral 2) (Some (IntegerLiteral 2)) (Some (IntegerLiteral 2)) = (?D, [])"
    unfolding AddSYCLReqdWorkGroupSizeAttr_def
    using fits2
    by (simp add: CheckAndConvertArg_literal CheckAndConvertOptArg_literal getAttr_def
        addAttr_def Create_def written_def)
  have gR: "getAttr castReqdWorkGroupSize ?D =
              Some (?R, (ConstantExpr 2, map_option ConstantExpr (Some 2),
                         map_option ConstantExpr (Some 2)))"
    by (simp add: getAttr_def)
  have ne: "(4::int, Some (4::int), Some (4::int)) \<noteq> (2, Some 2, Some 2)" by simp
  have pos: "0 < (4::int)" "\<forall>y \<in> set_option (Some (4::int)). 0 < y"
    "\<forall>z \<in> set_option (Some (4::int)). 0 < z" by simp_all
  have mg: "\<not> (case getAttr castMaxGlobalWorkDim ?D of
            Some (GA, MGValue) \<Rightarrow>
              InvalidWorkGroupSizeAttrs MGValue (ConstantExpr 4) (map_option ConstantExpr (Some 4))
                (map_option ConstantExpr (Some 4))
          | None \<Rightarrow> False)"
    by (simp add: getAttr_def)
  have mx: "\<not> (case getAttr castMaxWorkGroupSize ?D of
            Some (MA, (MX, MY, MZ)) \<Rightarrow>
              CheckMaxAllowedWorkGroupSize syclDevice (ConstantExpr 4)
                (map_option ConstantExpr (Some 4)) (map_option ConstantExpr (Some 4)) MX MY MZ
          | None \<Rightarrow> False)"
    using fits4 by (simp add: getAttr_def)
  have ns: "\<not> (case getAttr castNumSimdWorkItems ?D of
            Some (SA, NSWIValue) \<Rightarrow>
              CheckWorkGroupSize NSWIValue (ConstantExpr 4) (map_option ConstantExpr (Some 4))
                (map_option ConstantExpr (Some 4))
          | None \<Rightarrow> False)"
    by (simp add: getAttr_def)
  note inst = conflicting_duplicate_keeps_first [where D = ?D and ?A0.0 = ?R and wx = 2
      and wy = "Some 2" and wz = "Some 2" and vx = 4 and vy = "Some 4" and vz = "Some 4"
      and L = syclDevice and CI = ?CI,
      THEN conjunct2, THEN conjunct2, THEN conjunct2, THEN conjunct1, rule_format,
      OF conjI [OF gR ne]]
  have f: "fst (AddSYCLReqdWorkGroupSizeAttr syclDevice ?D ?CI (IntegerLiteral 4)
             (map_option IntegerLiteral (Some 4)) (map_option IntegerLiteral (Some 4))) = ?D"
    using inst by blast
  have d: "snd (AddSYCLReqdWorkGroupSizeAttr syclDevice ?D ?CI (IntegerLiteral 4)
             (map_option IntegerLiteral (Some 4)) (map_option IntegerLiteral (Some 4))) =
           [Diag err_duplicate_attribute (AttrLoc (ciLoc ?CI)) [Name (getParsedKind ?CI)],
            Diag note_previous_attribute (getLoc ?R) []]"
    using inst pos mg mx ns by blast
  have second: "AddSYCLReqdWorkGroupSizeAttr syclDevice ?D ?CI
     (IntegerLiteral 4) (Some (IntegerLiteral 4)) (Some (IntegerLiteral 4)) =
     (?D, [Diag err_duplicate_attribute (AttrLoc 4) [Name AT_SYCLReqdWorkGroupSize],
           Diag note_previous_attribute (AttrLoc 3) []])"
    using f d by (simp add: prod_eq_iff written_def)
  have one: "length (primaryDiags
     [Diag err_duplicate_attribute (AttrLoc 4) [Name AT_SYCLReqdWorkGroupSize],
      Diag note_previous_attribute (AttrLoc 3) []]) = 1"
    by (simp add: primaryDiags_def)
  show ?thesis using first second one by simp
qed

text \<open>
  Claim C2 as stated fails for \<^verbatim>\<open>bank_bits\<close>.  The local variable with
  \<^verbatim>\<open>bank_bits(0,1)\<close> is what the handler makes of the plain local variable; a second
  \<^verbatim>\<open>bank_bits(2,3)\<close> is attached, and the only diagnostic is the duplicate warning at
  the new attribute, without a note at the first.
\<close>

theorem bank_bits_duplicate_attached_counterexample:
  "handleSYCLIntelBankBitsAttr syclDevice localVariable (written AT_SYCLIntelBankBits 1)
     [IntegerLiteral 0, IntegerLiteral 1] = (localVariableWithBankBits, []) \<and>
   handleSYCLIntelBankBitsAttr syclDevice localVariableWithBankBits (written AT_SYCLIntelBankBits 2)
     [IntegerLiteral 2, IntegerLiteral 3] =
     (addAttr (Create 2 (SYCLIntelBankBitsAttr [ConstantExpr 2, ConstantExpr 3]))
        localVariableWithBankBits,
      [Diag warn_duplicate_attribute_exact (AttrLoc 2) [Name AT_SYCLIntelBankBits]])"
proof -
  have ext: "getExtValue 2 = 2" "getExtValue 3 = 3" by (simp_all add: getExtValue_def)
  have conv: "convertBankBitsArgs (written AT_SYCLIntelBankBits 2) 0
                [IntegerLiteral 2, IntegerLiteral 3] =
              Inr ([ConstantExpr 2, ConstantExpr 3], [2, 3])"
    by (simp add: ext)
  have cons: "ListIsConsecutive [2, 3]" by (simp add: ListIsConsecutive_def ext)
  have ok: "\<not> CheckValidFPGAMemoryAttributesVar localVariableWithBankBits"
    by (simp add: CheckValidFPGAMemoryAttributesVar_def localVariableWithBankBits_def
        localVariable_def)
  have c4: "ceilLogBase2 4 = 2" using ceilLogBase2_two_power [of 2] by simp
  have second: "AddSYCLIntelBankBitsAttr syclDevice localVariableWithBankBits
                  (written AT_SYCLIntelBankBits 2) [IntegerLiteral 2, IntegerLiteral 3] =
                (addAttr (Create 2 (SYCLIntelBankBitsAttr [ConstantExpr 2, ConstantExpr 3]))
                   localVariableWithBankBits, [])"
    unfolding AddSYCLIntelBankBitsAttr_def conv
    using cons ok c4
    by (simp add: getAttr_def localVariableWithBankBits_def addImplicitMemory_def hasAttr_def
        written_def)
  have dup: "checkForDuplicateAttribute_BankBits localVariableWithBankBits
               (written AT_SYCLIntelBankBits 2) =
             (True, [Diag warn_duplicate_attribute_exact (AttrLoc 2) [Name AT_SYCLIntelBankBits]])"
    by (simp add: checkForDuplicateAttribute_BankBits_def getAttr_def localVariableWithBankBits_def
        written_def)
  show ?thesis
    using handle_bank_bits_zero_one
    unfolding handleSYCLIntelBankBitsAttr_def second dup by (simp add: Let_def)
qed


section \<open>Attaching the same attribute twice\<close>

lemma attrsOfKind_empty_iff:
  assumes "\<And>d. (T d = None) = (getKind d \<noteq> K)"
  shows "(attrsOfKind K D = []) = (getAttr T D = None)"
  by (simp add: attrsOfKind_def getAttr_def getSpecificAttr_None_iff assms filter_empty_conv)

lemma one_of_kind:
  assumes "\<And>d. (T d = None) = (getKind d \<noteq> K)" "getAttr T D = None" "getKind (data a) = K"
  shows "length (attrsOfKind K (addAttr a D)) = 1"
  using attrsOfKind_empty_iff [of T K D, OF assms(1)] assms(2,3)
  by (simp add: attrsOfKind_addAttr)

lemma twice_bank_width:
  assumes none: "getAttr castBankWidth D = None"
      and quiet: "snd (AddSYCLIntelBankWidthAttr L D CI (IntegerLiteral v)) = []"
  shows "AddSYCLIntelBankWidthAttr L (fst (AddSYCLIntelBankWidthAttr L D CI (IntegerLiteral v))) CI'
           (IntegerLiteral v) = (fst (AddSYCLIntelBankWidthAttr L D CI (IntegerLiteral v)), [])"
    and "length (attrsOfKind AT_SYCLIntelBankWidth
                   (fst (AddSYCLIntelBankWidthAttr L D CI (IntegerLiteral v)))) = 1"
proof -
  let ?N = "Create (ciLoc CI) (SYCLIntelBankWidthAttr (ConstantExpr v))"
  have ok: "0 < v" "isPowerOf2 v" "\<not> (SYCLIsDevice L \<and> CheckValidFPGAMemoryAttributesVar D)"
    using quiet none by (auto simp: AddSYCLIntelBankWidthAttr_def split: if_splits)
  have first: "AddSYCLIntelBankWidthAttr L D CI (IntegerLiteral v) =
                 (addAttr ?N (addImplicitMemory D), [])"
    using ok none by (simp add: AddSYCLIntelBankWidthAttr_def)
  have dN: "data ?N = SYCLIntelBankWidthAttr (ConstantExpr v)" by (simp add: Create_def)
  have g: "getAttr castBankWidth (addAttr ?N (addImplicitMemory D)) = Some (?N, ConstantExpr v)"
    by (simp add: getAttr_addAttr getAttr_addImplicitMemory none dN)
  show "AddSYCLIntelBankWidthAttr L (fst (AddSYCLIntelBankWidthAttr L D CI (IntegerLiteral v))) CI'
           (IntegerLiteral v) = (fst (AddSYCLIntelBankWidthAttr L D CI (IntegerLiteral v)), [])"
    unfolding first fst_conv using ok g by (simp add: AddSYCLIntelBankWidthAttr_def)
  have none': "getAttr castBankWidth (addImplicitMemory D) = None"
    by (simp add: getAttr_addImplicitMemory none)
  show "length (attrsOfKind AT_SYCLIntelBankWidth
                   (fst (AddSYCLIntelBankWidthAttr L D CI (IntegerLiteral v)))) = 1"
    unfolding first fst_conv
    by (rule one_of_kind [OF castBankWidth_None_iff none']) (simp add: dN)
qed

lemma twice_numbanks:
  assumes none: "getAttr castNumBanks D = None"
      and quiet: "snd (AddSYCLIntelNumBanksAttr L D CI (IntegerLiteral v)) = []"
  shows "AddSYCLIntelNumBanksAttr L (fst (AddSYCLIntelNumBanksAttr L D CI (IntegerLiteral v))) CI'
           (IntegerLiteral v) = (fst (AddSYCLIntelNumBanksAttr L D CI (IntegerLiteral v)), [])"
    and "length (attrsOfKind AT_SYCLIntelNumBanks
                   (fst (AddSYCLIntelNumBanksAttr L D CI (IntegerLiteral v)))) = 1"
proof -
  let ?N = "Create (ciLoc CI) (SYCLIntelNumBanksAttr (ConstantExpr v))"
  have ok: "0 < v" "isPowerOf2 v" "\<not> (SYCLIsDevice L \<and> CheckValidFPGAMemoryAttributesVar D)"
    "\<not> (case getAttr castBankBits D of
           Some (BBA, BBArgs) \<Rightarrow> length BBArgs \<noteq> ceilLogBase2 v | None \<Rightarrow> False)"
    using quiet none by (auto simp: AddSYCLIntelNumBanksAttr_def split: if_splits)
  have none': "getAttr castNumBanks (addImplicitMemory D) = None"
    by (simp add: getAttr_addImplicitMemory none)
  have att: "attachNumBanks D CI (ConstantExpr v) = addAttr ?N (addImplicitMemory D)"
    by (simp add: attachNumBanks_def none' Let_def)
  have first: "AddSYCLIntelNumBanksAttr L D CI (IntegerLiteral v) =
                 (addAttr ?N (addImplicitMemory D), [])"
    using ok none att by (simp add: AddSYCLIntelNumBanksAttr_def)
  have dN: "data ?N = SYCLIntelNumBanksAttr (ConstantExpr v)" by (simp add: Create_def)
  have g: "getAttr castNumBanks (addAttr ?N (addImplicitMemory D)) = Some (?N, ConstantExpr v)"
    by (simp add: getAttr_addAttr none' dN)
  have gb: "getAttr castBankBits (addAttr ?N (addImplicitMemory D)) = getAttr castBankBits D"
    by (simp add: getAttr_addAttr getAttr_addImplicitMemory dN split: option.splits)
  show "AddSYCLIntelNumBanksAttr L (fst (AddSYCLIntelNumBanksAttr L D CI (IntegerLiteral v))) CI'
           (IntegerLiteral v) = (fst (AddSYCLIntelNumBanksAttr L D CI (IntegerLiteral v)), [])"
    unfolding first fst_conv using ok g gb by (simp add: AddSYCLIntelNumBanksAttr_def)
  show "length (attrsOfKind AT_SYCLIntelNumBanks
                   (fst (AddSYCLIntelNumBanksAttr L D CI (IntegerLiteral v)))) = 1"
    unfolding first fst_conv
    by (rule one_of_kind [OF castNumBanks_None_iff none']) (simp add: dN)
qed

lemma twice_num_simd:
  assumes none: "getAttr castNumSimdWorkItems D = None"
      and quiet: "snd (AddSYCLIntelNumSimdWorkItemsAttr L D CI (IntegerLiteral v)) = []"
  shows "AddSYCLIntelNumSimdWorkItemsAttr L
           (fst (AddSYCLIntelNumSimdWorkItemsAttr L D CI (IntegerLiteral v))) CI'
           (IntegerLiteral v) = (fst (AddSYCLIntelNumSimdWorkItemsAttr L D CI (IntegerLiteral v)), [])"
    and "length (attrsOfKind AT_SYCLIntelNumSimdWorkItems
                   (fst (AddSYCLIntelNumSimdWorkItemsAttr L D CI (IntegerLiteral v)))) = 1"
proof -
  let ?N = "Create (ciLoc CI) (SYCLIntelNumSimdWorkItemsAttr (ConstantExpr v))"
  have pos: "0 < v"
    using quiet none by (auto simp: AddSYCLIntelNumSimdWorkItemsAttr_def split: if_splits)
  have first: "AddSYCLIntelNumSimdWorkItemsAttr L D CI (IntegerLiteral v) = (addAttr ?N D, [])"
    using quiet none pos
    by (auto simp: AddSYCLIntelNumSimdWorkItemsAttr_def split: if_splits option.splits)
  have dN: "data ?N = SYCLIntelNumSimdWorkItemsAttr (ConstantExpr v)" by (simp add: Create_def)
  have g: "getAttr castNumSimdWorkItems (addAttr ?N D) = Some (?N, ConstantExpr v)"
    by (simp add: getAttr_addAttr none dN)
  show "AddSYCLIntelNumSimdWorkItemsAttr L
           (fst (AddSYCLIntelNumSimdWorkItemsAttr L D CI (IntegerLiteral v))) CI'
           (IntegerLiteral v) = (fst (AddSYCLIntelNumSimdWorkItemsAttr L D CI (IntegerLiteral v)), [])"
    unfolding first fst_conv using pos g by (simp add: AddSYCLIntelNumSimdWorkItemsAttr_def)
  show "length (attrsOfKind AT_SYCLIntelNumSimdWorkItems
                   (fst (AddSYCLIntelNumSimdWorkItemsAttr L D CI (IntegerLiteral v)))) = 1"
    unfolding first fst_conv
    by (rule one_of_kind [OF castNumSimdWorkItems_None_iff none]) (simp add: dN)
qed


lemma twice_reqd:
  assumes none: "getAttr castReqdWorkGroupSize D = None"
      and quiet: "snd (AddSYCLReqdWorkGroupSizeAttr L D CI (IntegerLiteral vx)
                         (map_option IntegerLiteral vy) (map_option IntegerLiteral vz)) = []"
  shows "AddSYCLReqdWorkGroupSizeAttr L
           (fst (AddSYCLReqdWorkGroupSizeAttr L D CI (IntegerLiteral vx)
                   (map_option IntegerLiteral vy) (map_option IntegerLiteral vz))) CI'
           (IntegerLiteral vx) (map_option IntegerLiteral vy) (map_option IntegerLiteral vz) =
           (fst (AddSYCLReqdWorkGroupSizeAttr L D CI (IntegerLiteral vx)
                   (map_option IntegerLiteral vy) (map_option IntegerLiteral vz)), [])"
    and "length (attrsOfKind AT_SYCLReqdWorkGroupSize
                   (fst (AddSYCLReqdWorkGroupSizeAttr L D CI (IntegerLiteral vx)
                           (map_option IntegerLiteral vy) (map_option IntegerLiteral vz)))) = 1"
proof -
  let ?X = "ConstantExpr vx" and ?Y = "map_option ConstantExpr vy"
    and ?Z = "map_option ConstantExpr vz"
  let ?N = "Create (ciLoc CI) (SYCLReqdWorkGroupSizeAttr ?X ?Y ?Z)"
  define cMG where "cMG = (case getAttr castMaxGlobalWorkDim D of
                             Some (DeclAttr, MGValue) \<Rightarrow> InvalidWorkGroupSizeAttrs MGValue ?X ?Y ?Z
                           | None \<Rightarrow> False)"
  define cMax where "cMax = (case getAttr castMaxWorkGroupSize D of
                               Some (DeclAttr, (MX, MY, MZ)) \<Rightarrow>
                                 CheckMaxAllowedWorkGroupSize L ?X ?Y ?Z MX MY MZ
                             | None \<Rightarrow> False)"
  define cNS where "cNS = (case getAttr castNumSimdWorkItems D of
                             Some (DeclAttr, NSWIValue) \<Rightarrow> CheckWorkGroupSize NSWIValue ?X ?Y ?Z
                           | None \<Rightarrow> False)"
  have body: "AddSYCLReqdWorkGroupSizeAttr L D0 CI0 (IntegerLiteral vx)
                (map_option IntegerLiteral vy) (map_option IntegerLiteral vz) =
              (if 0 < vx \<and> (\<forall>y \<in> set_option vy. 0 < y) \<and> (\<forall>z \<in> set_option vz. 0 < z) then
                 (let dsMG =
                    (case getAttr castMaxGlobalWorkDim D0 of
                       Some (DeclAttr, MGValue) \<Rightarrow>
                         if InvalidWorkGroupSizeAttrs MGValue ?X ?Y ?Z then
                           [Diag err_sycl_x_y_z_arguments_must_be_one (AttrLoc (ciLoc CI0))
                              [Name (getParsedKind CI0), Name AT_SYCLIntelMaxGlobalWorkDim]]
                         else []
                     | None \<Rightarrow> [])
                  in
                    if (case getAttr castMaxWorkGroupSize D0 of
                          Some (DeclAttr, (MX, MY, MZ)) \<Rightarrow>
                            CheckMaxAllowedWorkGroupSize L ?X ?Y ?Z MX MY MZ
                        | None \<Rightarrow> False) then
                      (D0, dsMG @
                          [Diag err_conflicting_sycl_function_attributes (AttrLoc (ciLoc CI0))
                             [Name (getParsedKind CI0), Name AT_SYCLIntelMaxWorkGroupSize],
                           Diag note_conflicting_attribute
                             (case getAttr castMaxWorkGroupSize D0 of
                                Some (DeclAttr, m) \<Rightarrow> getLoc DeclAttr | None \<Rightarrow> NoLoc) []])
                    else if (case getAttr castNumSimdWorkItems D0 of
                               Some (DeclAttr, NSWIValue) \<Rightarrow> CheckWorkGroupSize NSWIValue ?X ?Y ?Z
                             | None \<Rightarrow> False) then
                      (D0, dsMG @
                          [Diag err_sycl_num_kernel_wrong_reqd_wg_size
                             (case getAttr castNumSimdWorkItems D0 of
                                Some (DeclAttr, n) \<Rightarrow> getLoc DeclAttr | None \<Rightarrow> NoLoc)
                             [Name AT_SYCLIntelNumSimdWorkItems, Name (getParsedKind CI0)],
                           Diag note_conflicting_attribute (AttrLoc (ciLoc CI0)) []])
                    else
                      (case getAttr castReqdWorkGroupSize D0 of
                         Some (Existing, (OldX, OldY, OldZ)) \<Rightarrow>
                           if AnyWorkGroupSizesDiffer (Some ?X) ?Y ?Z (Some OldX) OldY OldZ then
                             (D0, dsMG @
                                 [Diag err_duplicate_attribute (AttrLoc (ciLoc CI0))
                                    [Name (getParsedKind CI0)],
                                  Diag note_previous_attribute (getLoc Existing) []])
                           else if AllWorkGroupSizesSame (Some ?X) ?Y ?Z (Some OldX) OldY OldZ then
                             (D0, dsMG)
                           else
                             (addAttr (Create (ciLoc CI0) (SYCLReqdWorkGroupSizeAttr ?X ?Y ?Z)) D0, dsMG)
                       | None \<Rightarrow>
                           (addAttr (Create (ciLoc CI0) (SYCLReqdWorkGroupSizeAttr ?X ?Y ?Z)) D0, dsMG)))
               else (D0, (if 0 < vx then [] else
                            [Diag err_attribute_requires_positive_integer (ExprLoc (ciLoc CI0) 0)
                               [Name (getParsedKind CI0), Select 0]]) @
                         (if \<forall>y \<in> set_option vy. 0 < y then [] else
                            [Diag err_attribute_requires_positive_integer (ExprLoc (ciLoc CI0) 1)
                               [Name (getParsedKind CI0), Select 0]]) @
                         (if \<forall>z \<in> set_option vz. 0 < z then [] else
                            [Diag err_attribute_requires_positive_integer (ExprLoc (ciLoc CI0) 2)
                               [Name (getParsedKind CI0), Select 0]])))"
    for D0 CI0
    unfolding AddSYCLReqdWorkGroupSizeAttr_def CheckAndConvertArg_literal_cases
      CheckAndConvertOptArg_literal_cases
    by (simp add: Let_def)
  have pos: "0 < vx \<and> (\<forall>y \<in> set_option vy. 0 < y) \<and> (\<forall>z \<in> set_option vz. 0 < z)"
    using quiet unfolding body [of D CI] by (auto split: if_splits)
  have q: "\<not> cMG \<and> \<not> cMax \<and> \<not> cNS"
    using quiet pos none unfolding body [of D CI] cMG_def cMax_def cNS_def
    by (auto simp: Let_def split: if_splits option.splits)
  have first: "AddSYCLReqdWorkGroupSizeAttr L D CI (IntegerLiteral vx)
                 (map_option IntegerLiteral vy) (map_option IntegerLiteral vz) = (addAttr ?N D, [])"
    using q pos none unfolding body [of D CI] cMG_def cMax_def cNS_def
    by (auto simp: Let_def split: if_splits option.splits)
  have dN: "data ?N = SYCLReqdWorkGroupSizeAttr ?X ?Y ?Z" by (simp add: Create_def)
  have g: "getAttr castReqdWorkGroupSize (addAttr ?N D) = Some (?N, (?X, ?Y, ?Z))"
    by (simp add: getAttr_addAttr none dN)
  have same: "getAttr castMaxGlobalWorkDim (addAttr ?N D) = getAttr castMaxGlobalWorkDim D"
    "getAttr castMaxWorkGroupSize (addAttr ?N D) = getAttr castMaxWorkGroupSize D"
    "getAttr castNumSimdWorkItems (addAttr ?N D) = getAttr castNumSimdWorkItems D"
    by (simp_all add: getAttr_addAttr dN split: option.splits)
  have nd: "\<not> AnyWorkGroupSizesDiffer (Some ?X) ?Y ?Z (Some ?X) ?Y ?Z"
    and as: "AllWorkGroupSizesSame (Some ?X) ?Y ?Z (Some ?X) ?Y ?Z"
    by (simp_all add: AnyWorkGroupSizesDiffer_constants AllWorkGroupSizesSame_constants)
  have second: "AddSYCLReqdWorkGroupSizeAttr L (addAttr ?N D) CI' (IntegerLiteral vx)
                  (map_option IntegerLiteral vy) (map_option IntegerLiteral vz) = (addAttr ?N D, [])"
    using q pos nd as unfolding body [of "addAttr ?N D" CI'] g same cMG_def cMax_def cNS_def
    by (auto simp: Let_def split: if_splits option.splits)
  show "AddSYCLReqdWorkGroupSizeAttr L
           (fst (AddSYCLReqdWorkGroupSizeAttr L D CI (IntegerLiteral vx)
                   (map_option IntegerLiteral vy) (map_option IntegerLiteral vz))) CI'
           (IntegerLiteral vx) (map_option IntegerLiteral vy) (map_option IntegerLiteral vz) =
           (fst (AddSYCLReqdWorkGroupSizeAttr L D CI (IntegerLiteral vx)
                   (map_option IntegerLiteral vy) (map_option IntegerLiteral vz)), [])"
    unfolding first fst_conv by (rule second)
  show "length (attrsOfKind AT_SYCLReqdWorkGroupSize
                   (fst (AddSYCLReqdWorkGroupSizeAttr L D CI (IntegerLiteral vx)
                           (map_option IntegerLiteral vy) (map_option IntegerLiteral vz)))) = 1"
    unfolding first fst_conv
    by (rule one_of_kind [OF castReqdWorkGroupSize_None_iff none]) (simp add: dN)
qed


lemma twice_max:
  assumes none: "getAttr castMaxWorkGroupSize D = None"
      and quiet: "snd (AddSYCLIntelMaxWorkGroupSizeAttr L D CI (IntegerLiteral vx)
                         (IntegerLiteral vy) (IntegerLiteral vz)) = []"
  shows "AddSYCLIntelMaxWorkGroupSizeAttr L
           (fst (AddSYCLIntelMaxWorkGroupSizeAttr L D CI (IntegerLiteral vx)
                   (IntegerLiteral vy) (IntegerLiteral vz))) CI'
           (IntegerLiteral vx) (IntegerLiteral vy) (IntegerLiteral vz) =
           (fst (AddSYCLIntelMaxWorkGroupSizeAttr L D CI (IntegerLiteral vx)
                   (IntegerLiteral vy) (IntegerLiteral vz)), [])"
    and "length (attrsOfKind AT_SYCLIntelMaxWorkGroupSize
                   (fst (AddSYCLIntelMaxWorkGroupSizeAttr L D CI (IntegerLiteral vx)
                           (IntegerLiteral vy) (IntegerLiteral vz)))) = 1"
proof -
  let ?X = "ConstantExpr vx" and ?Y = "ConstantExpr vy" and ?Z = "ConstantExpr vz"
  let ?N = "Create (ciLoc CI) (SYCLIntelMaxWorkGroupSizeAttr ?X ?Y ?Z)"
  define cR where "cR = (case getAttr castReqdWorkGroupSize D of
                           Some (DeclAttr, (RX, RY, RZ)) \<Rightarrow>
                             CheckMaxAllowedWorkGroupSize L RX RY RZ ?X ?Y ?Z
                         | None \<Rightarrow> False)"
  define cMG where "cMG = (case getAttr castMaxGlobalWorkDim D of
                             Some (DeclAttr, MGValue) \<Rightarrow>
                               InvalidWorkGroupSizeAttrs MGValue ?X (Some ?Y) (Some ?Z)
                           | None \<Rightarrow> False)"
  have pos: "0 < vx \<and> 0 < vy \<and> 0 < vz"
    using quiet unfolding AddSYCLIntelMaxWorkGroupSizeAttr_def CheckAndConvertArg_literal_cases
    by (auto split: if_splits)
  have q: "\<not> cR \<and> \<not> cMG"
    using quiet pos none
    unfolding AddSYCLIntelMaxWorkGroupSizeAttr_def CheckAndConvertArg_literal_cases cR_def cMG_def
    by (auto split: if_splits option.splits)
  have first: "AddSYCLIntelMaxWorkGroupSizeAttr L D CI (IntegerLiteral vx)
                 (IntegerLiteral vy) (IntegerLiteral vz) = (addAttr ?N D, [])"
    using q pos none
    unfolding AddSYCLIntelMaxWorkGroupSizeAttr_def CheckAndConvertArg_literal_cases cR_def cMG_def
    by (auto split: if_splits option.splits)
  have dN: "data ?N = SYCLIntelMaxWorkGroupSizeAttr ?X ?Y ?Z" by (simp add: Create_def)
  have g: "getAttr castMaxWorkGroupSize (addAttr ?N D) = Some (?N, (?X, ?Y, ?Z))"
    by (simp add: getAttr_addAttr none dN)
  have same: "getAttr castMaxGlobalWorkDim (addAttr ?N D) = getAttr castMaxGlobalWorkDim D"
    "getAttr castReqdWorkGroupSize (addAttr ?N D) = getAttr castReqdWorkGroupSize D"
    by (simp_all add: getAttr_addAttr dN split: option.splits)
  have nd: "\<not> AnyWorkGroupSizesDiffer (Some ?X) (Some ?Y) (Some ?Z) (Some ?X) (Some ?Y) (Some ?Z)"
    and as: "AllWorkGroupSizesSame (Some ?X) (Some ?Y) (Some ?Z) (Some ?X) (Some ?Y) (Some ?Z)"
    by (simp_all add: AnyWorkGroupSizesDiffer_three AllWorkGroupSizesSame_three)
  have second: "AddSYCLIntelMaxWorkGroupSizeAttr L (addAttr ?N D) CI' (IntegerLiteral vx)
                  (IntegerLiteral vy) (IntegerLiteral vz) = (addAttr ?N D, [])"
    using q pos nd as
    unfolding AddSYCLIntelMaxWorkGroupSizeAttr_def CheckAndConvertArg_literal_cases g same
      cR_def cMG_def
    by (auto split: if_splits option.splits)
  show "AddSYCLIntelMaxWorkGroupSizeAttr L
           (fst (AddSYCLIntelMaxWorkGroupSizeAttr L D CI (IntegerLiteral vx)
                   (IntegerLiteral vy) (IntegerLiteral vz))) CI'
           (IntegerLiteral vx) (IntegerLiteral vy) (IntegerLiteral vz) =
           (fst (AddSYCLIntelMaxWorkGroupSizeAttr L D CI (IntegerLiteral vx)
                   (IntegerLiteral vy) (IntegerLiteral vz)), [])"
    unfolding first fst_conv by (rule second)
  show "length (attrsOfKind AT_SYCLIntelMaxWorkGroupSize
                   (fst (AddSYCLIntelMaxWorkGroupSizeAttr L D CI (IntegerLiteral vx)
                           (IntegerLiteral vy) (IntegerLiteral vz)))) = 1"
    unfolding first fst_conv
    by (rule one_of_kind [OF castMaxWorkGroupSize_None_iff none]) (simp add: dN)
qed

lemma twice_memory:
  assumes none: "getAttr castMemory D = None"
      and quiet: "snd (handleSYCLIntelMemoryAttr L D CI (Some (Some k))) = []"
  shows "handleSYCLIntelMemoryAttr L (fst (handleSYCLIntelMemoryAttr L D CI (Some (Some k)))) CI'
           (Some (Some k)) = (fst (handleSYCLIntelMemoryAttr L D CI (Some (Some k))), [])"
    and "length (attrsOfKind AT_SYCLIntelMemory
                   (fst (handleSYCLIntelMemoryAttr L D CI (Some (Some k))))) = 1"
proof -
  let ?N = "Create (ciLoc CI) (SYCLIntelMemoryAttr k)"
  have ok: "\<not> (SYCLIsDevice L \<and> CheckValidFPGAMemoryAttributesVar D)"
    using quiet none by (auto simp: handleSYCLIntelMemoryAttr_def split: if_splits)
  have first: "handleSYCLIntelMemoryAttr L D CI (Some (Some k)) = (addAttr ?N D, [])"
    using ok none by (simp add: handleSYCLIntelMemoryAttr_def)
  have dN: "data ?N = SYCLIntelMemoryAttr k" and eN: "\<not> isImplicit ?N"
    by (simp_all add: Create_def)
  have g: "getAttr castMemory (addAttr ?N D) = Some (?N, k)"
    by (simp add: getAttr_addAttr none dN)
  show "handleSYCLIntelMemoryAttr L (fst (handleSYCLIntelMemoryAttr L D CI (Some (Some k)))) CI'
           (Some (Some k)) = (fst (handleSYCLIntelMemoryAttr L D CI (Some (Some k))), [])"
    unfolding first fst_conv using g eN by (simp add: handleSYCLIntelMemoryAttr_def)
  show "length (attrsOfKind AT_SYCLIntelMemory
                   (fst (handleSYCLIntelMemoryAttr L D CI (Some (Some k))))) = 1"
    unfolding first fst_conv
    by (rule one_of_kind [OF castMemory_None_iff none]) (simp add: dN)
qed


text \<open>
  Claim C5, amended.  For \<^verbatim>\<open>bank_width\<close>, \<^verbatim>\<open>numbanks\<close>, \<^verbatim>\<open>num_simd_work_items\<close>,
  \<^verbatim>\<open>reqd_work_group_size\<close>, \<^verbatim>\<open>max_work_group_size\<close> and \<^verbatim>\<open>fpga_memory\<close> with
  literal arguments: if the declaration carries no attribute of the kind and attaching
  the attribute diagnoses nothing, then the declaration carries exactly one attribute of
  the kind, and attaching the same attribute again, at any position, changes nothing and
  diagnoses nothing.
\<close>

theorem attaching_twice_changes_nothing:
  "(getAttr castBankWidth D = None \<and>
    snd (AddSYCLIntelBankWidthAttr L D CI (IntegerLiteral v)) = [] \<longrightarrow>
      AddSYCLIntelBankWidthAttr L (fst (AddSYCLIntelBankWidthAttr L D CI (IntegerLiteral v))) CI'
        (IntegerLiteral v) =
        (fst (AddSYCLIntelBankWidthAttr L D CI (IntegerLiteral v)), []) \<and>
      length (attrsOfKind AT_SYCLIntelBankWidth
                (fst (AddSYCLIntelBankWidthAttr L D CI (IntegerLiteral v)))) = 1) \<and>
   (getAttr castNumBanks D = None \<and>
    snd (AddSYCLIntelNumBanksAttr L D CI (IntegerLiteral v)) = [] \<longrightarrow>
      AddSYCLIntelNumBanksAttr L (fst (AddSYCLIntelNumBanksAttr L D CI (IntegerLiteral v))) CI'
        (IntegerLiteral v) =
        (fst (AddSYCLIntelNumBanksAttr L D CI (IntegerLiteral v)), []) \<and>
      length (attrsOfKind AT_SYCLIntelNumBanks
                (fst (AddSYCLIntelNumBanksAttr L D CI (IntegerLiteral v)))) = 1) \<and>
   (getAttr castNumSimdWorkItems D = None \<and>
    snd (AddSYCLIntelNumSimdWorkItemsAttr L D CI (IntegerLiteral v)) = [] \<longrightarrow>
      AddSYCLIntelNumSimdWorkItemsAttr L
        (fst (AddSYCLIntelNumSimdWorkItemsAttr L D CI (IntegerLiteral v))) CI' (IntegerLiteral v) =
        (fst (AddSYCLIntelNumSimdWorkItemsAttr L D CI (IntegerLiteral v)), []) \<and>
      length (attrsOfKind AT_SYCLIntelNumSimdWorkItems
                (fst (AddSYCLIntelNumSimdWorkItemsAttr L D CI (IntegerLiteral v)))) = 1) \<and>
   (getAttr castReqdWorkGroupSize D = None \<and>
    snd (AddSYCLReqdWorkGroupSizeAttr L D CI (IntegerLiteral vx)
             (map_option IntegerLiteral vy) (map_option IntegerLiteral vz)) = [] \<longrightarrow>
      AddSYCLReqdWorkGroupSizeAttr L
        (fst (AddSYCLReqdWorkGroupSizeAttr L D CI (IntegerLiteral vx)
                (map_option IntegerLiteral vy) (map_option IntegerLiteral vz))) CI'
        (IntegerLiteral vx) (map_option IntegerLiteral vy) (map_option IntegerLiteral vz) =
        (fst (AddSYCLReqdWorkGroupSizeAttr L D CI (IntegerLiteral vx)
             (map_option IntegerLiteral vy) (map_option IntegerLiteral vz)), []) \<and>
      length (attrsOfKind AT_SYCLReqdWorkGroupSize
                (fst (AddSYCLReqdWorkGroupSizeAttr L D CI (IntegerLiteral vx)
             (map_option IntegerLiteral vy) (map_option IntegerLiteral vz)))) = 1) \<and>
   (getAttr castMaxWorkGroupSize D = None \<and>
    snd (AddSYCLIntelMaxWorkGroupSizeAttr L D CI (IntegerLiteral vx)
             (IntegerLiteral my) (IntegerLiteral mz)) = [] \<longrightarrow>
      AddSYCLIntelMaxWorkGroupSizeAttr L
        (fst (AddSYCLIntelMaxWorkGroupSizeAttr L D CI (IntegerLiteral vx)
                (IntegerLiteral my) (IntegerLiteral mz))) CI'
        (IntegerLiteral vx) (IntegerLiteral my) (IntegerLiteral mz) =
        (fst (AddSYCLIntelMaxWorkGroupSizeAttr L D CI (IntegerLiteral vx)
             (IntegerLiteral my) (IntegerLiteral mz)), []) \<and>
      length (attrsOfKind AT_SYCLIntelMaxWorkGroupSize
                (fst (AddSYCLIntelMaxWorkGroupSizeAttr L D CI (IntegerLiteral vx)
             (IntegerLiteral my) (IntegerLiteral mz)))) = 1) \<and>
   (getAttr castMemory D = None \<and>
    snd (handleSYCLIntelMemoryAttr L D CI (Some (Some k))) = [] \<longrightarrow>
      handleSYCLIntelMemoryAttr L (fst (handleSYCLIntelMemoryAttr L D CI (Some (Some k)))) CI'
        (Some (Some k)) =
        (fst (handleSYCLIntelMemoryAttr L D CI (Some (Some k))), []) \<and>
      length (attrsOfKind AT_SYCLIntelMemory
                (fst (handleSYCLIntelMemoryAttr L D CI (Some (Some k))))) = 1)"
proof (intro conjI impI)
  assume h: "getAttr castBankWidth D = None \<and>
    snd (AddSYCLIntelBankWidthAttr L D CI (IntegerLiteral v)) = []"
  then have none: "getAttr castBankWidth D = None"
    and quiet: "snd (AddSYCLIntelBankWidthAttr L D CI (IntegerLiteral v)) = []"
    by simp_all
  show "AddSYCLIntelBankWidthAttr L (fst (AddSYCLIntelBankWidthAttr L D CI (IntegerLiteral v))) CI'
        (IntegerLiteral v) =
        (fst (AddSYCLIntelBankWidthAttr L D CI (IntegerLiteral v)), [])"
    by (rule twice_bank_width(1) [OF none quiet])
  show "length (attrsOfKind AT_SYCLIntelBankWidth
                (fst (AddSYCLIntelBankWidthAttr L D CI (IntegerLiteral v)))) = 1"
    by (rule twice_bank_width(2) [OF none quiet])
next
  assume h: "getAttr castNumBanks D = None \<and>
    snd (AddSYCLIntelNumBanksAttr L D CI (IntegerLiteral v)) = []"
  then have none: "getAttr castNumBanks D = None"
    and quiet: "snd (AddSYCLIntelNumBanksAttr L D CI (IntegerLiteral v)) = []"
    by simp_all
  show "AddSYCLIntelNumBanksAttr L (fst (AddSYCLIntelNumBanksAttr L D CI (IntegerLiteral v))) CI'
        (IntegerLiteral v) =
        (fst (AddSYCLIntelNumBanksAttr L D CI (IntegerLiteral v)), [])"
    by (rule twice_numbanks(1) [OF none quiet])
  show "length (attrsOfKind AT_SYCLIntelNumBanks
                (fst (AddSYCLIntelNumBanksAttr L D CI (IntegerLiteral v)))) = 1"
    by (rule twice_numbanks(2) [OF none quiet])
next
  assume h: "getAttr castNumSimdWorkItems D = None \<and>
    snd (AddSYCLIntelNumSimdWorkItemsAttr L D CI (IntegerLiteral v)) = []"
  then have none: "getAttr castNumSimdWorkItems D = None"
    and quiet: "snd (AddSYCLIntelNumSimdWorkItemsAttr L D CI (IntegerLiteral v)) = []"
    by simp_all
  show "AddSYCLIntelNumSimdWorkItemsAttr L
        (fst (AddSYCLIntelNumSimdWorkItemsAttr L D CI (IntegerLiteral v))) CI' (IntegerLiteral v) =
        (fst (AddSYCLIntelNumSimdWorkItemsAttr L D CI (IntegerLiteral v)), [])"
    by (rule twice_num_simd(1) [OF none quiet])
  show "length (attrsOfKind AT_SYCLIntelNumSimdWorkItems
                (fst (AddSYCLIntelNumSimdWorkItemsAttr L D CI (IntegerLiteral v)))) = 1"
    by (rule twice_num_simd(2) [OF none quiet])
next
  assume h: "getAttr castReqdWorkGroupSize D = None \<and>
    snd (AddSYCLReqdWorkGroupSizeAttr L D CI (IntegerLiteral vx)
             (map_option IntegerLiteral vy) (map_option IntegerLiteral vz)) = []"
  then have none: "getAttr castReqdWorkGroupSize D = None"
    and quiet: "snd (AddSYCLReqdWorkGroupSizeAttr L D CI (IntegerLiteral vx)
             (map_option IntegerLiteral vy) (map_option IntegerLiteral vz)) = []"
    by simp_all
  show "AddSYCLReqdWorkGroupSizeAttr L
        (fst (AddSYCLReqdWorkGroupSizeAttr L D CI (IntegerLiteral vx)
                (map_option IntegerLiteral vy) (map_option IntegerLiteral vz))) CI'
        (IntegerLiteral vx) (map_option IntegerLiteral vy) (map_option IntegerLiteral vz) =
        (fst (AddSYCLReqdWorkGroupSizeAttr L D CI (IntegerLiteral vx)
             (map_option IntegerLiteral vy) (map_option IntegerLiteral vz)), [])"
    by (rule twice_reqd(1) [OF none quiet])
  show "length (attrsOfKind AT_SYCLReqdWorkGroupSize
                (fst (AddSYCLReqdWorkGroupSizeAttr L D CI (IntegerLiteral vx)
             (map_option IntegerLiteral vy) (map_option IntegerLiteral vz)))) = 1"
    by (rule twice_reqd(2) [OF none quiet])
next
  assume h: "getAttr castMaxWorkGroupSize D = None \<and>
    snd (AddSYCLIntelMaxWorkGroupSizeAttr L D CI (IntegerLiteral vx)
             (IntegerLiteral my) (IntegerLiteral mz)) = []"
  then have none: "getAttr castMaxWorkGroupSize D = None"
    and quiet: "snd (AddSYCLIntelMaxWorkGroupSizeAttr L D CI (IntegerLiteral vx)
             (IntegerLiteral my) (IntegerLiteral mz)) = []"
    by simp_all
  show "AddSYCLIntelMaxWorkGroupSizeAttr L
        (fst (AddSYCLIntelMaxWorkGroupSizeAttr L D CI (IntegerLiteral vx)
                (IntegerLiteral my) (IntegerLiteral mz))) CI'
        (IntegerLiteral vx) (IntegerLiteral my) (IntegerLiteral mz) =
        (fst (AddSYCLIntelMaxWorkGroupSizeAttr L D CI (IntegerLiteral vx)
             (IntegerLiteral my) (IntegerLiteral mz)), [])"
    by (rule twice_max(1) [OF none quiet])
  show "length (attrsOfKind AT_SYCLIntelMaxWorkGroupSize
                (fst (AddSYCLIntelMaxWorkGroupSizeAttr L D CI (IntegerLiteral vx)
             (IntegerLiteral my) (IntegerLiteral mz)))) = 1"
    by (rule twice_max(2) [OF none quiet])
next
  assume h: "getAttr castMemory D = None \<and>
    snd (handleSYCLIntelMemoryAttr L D CI (Some (Some k))) = []"
  then have none: "getAttr castMemory D = None"
    and quiet: "snd (handleSYCLIntelMemoryAttr L D CI (Some (Some k))) = []"
    by simp_all
  show "handleSYCLIntelMemoryAttr L (fst (handleSYCLIntelMemoryAttr L D CI (Some (Some k)))) CI'
        (Some (Some k)) =
        (fst (handleSYCLIntelMemoryAttr L D CI (Some (Some k))), [])"
    by (rule twice_memory(1) [OF none quiet])
  show "length (attrsOfKind AT_SYCLIntelMemory
                (fst (handleSYCLIntelMemoryAttr L D CI (Some (Some k))))) = 1"
    by (rule twice_memory(2) [OF none quiet])
qed

theorem attaching_twice_changes_nothing_witness:
  "AddSYCLIntelBankWidthAttr syclDevice
     (fst (AddSYCLIntelBankWidthAttr syclDevice localVariable (written AT_SYCLIntelBankWidth 2)
             (IntegerLiteral 8)))
     (written AT_SYCLIntelBankWidth 3) (IntegerLiteral 8) =
     (fst (AddSYCLIntelBankWidthAttr syclDevice localVariable (written AT_SYCLIntelBankWidth 2)
             (IntegerLiteral 8)), []) \<and>
   length (attrsOfKind AT_SYCLIntelBankWidth
     (fst (AddSYCLIntelBankWidthAttr syclDevice localVariable (written AT_SYCLIntelBankWidth 2)
             (IntegerLiteral 8)))) = 1 \<and>
   AddSYCLReqdWorkGroupSizeAttr syclDevice
     (fst (AddSYCLReqdWorkGroupSizeAttr syclDevice kernelFunction (written AT_SYCLReqdWorkGroupSize 2)
             (IntegerLiteral 2) (map_option IntegerLiteral (Some 2)) (map_option IntegerLiteral (Some 2))))
     (written AT_SYCLReqdWorkGroupSize 3)
     (IntegerLiteral 2) (map_option IntegerLiteral (Some 2)) (map_option IntegerLiteral (Some 2)) =
     (fst (AddSYCLReqdWorkGroupSizeAttr syclDevice kernelFunction (written AT_SYCLReqdWorkGroupSize 2)
             (IntegerLiteral 2) (map_option IntegerLiteral (Some 2)) (map_option IntegerLiteral (Some 2))),
      []) \<and>
   length (attrsOfKind AT_SYCLReqdWorkGroupSize
     (fst (AddSYCLReqdWorkGroupSizeAttr syclDevice kernelFunction (written AT_SYCLReqdWorkGroupSize 2)
             (IntegerLiteral 2) (map_option IntegerLiteral (Some 2))
             (map_option IntegerLiteral (Some 2))))) = 1"
proof -
  have noneV: "getAttr T localVariable = None" for T :: "AttrData \<Rightarrow> 'a option"
    by (simp add: getAttr_def localVariable_def)
  have noneK: "getAttr T kernelFunction = None" for T :: "AttrData \<Rightarrow> 'a option"
    by (simp add: getAttr_def kernelFunction_def)
  have subj: "\<not> CheckValidFPGAMemoryAttributesVar localVariable"
    by (simp add: CheckValidFPGAMemoryAttributesVar_def localVariable_def)
  have p8: "isPowerOf2 8" by (simp add: isPowerOf2_def compute_floorlog)
  have q1: "snd (AddSYCLIntelBankWidthAttr syclDevice localVariable (written AT_SYCLIntelBankWidth 2)
                   (IntegerLiteral 8)) = []"
    by (simp add: AddSYCLIntelBankWidthAttr_def p8 noneV subj)
  have q2: "snd (AddSYCLReqdWorkGroupSizeAttr syclDevice kernelFunction
                   (written AT_SYCLReqdWorkGroupSize 2) (IntegerLiteral 2)
                   (map_option IntegerLiteral (Some 2)) (map_option IntegerLiteral (Some 2))) = []"
    by (simp add: AddSYCLReqdWorkGroupSizeAttr_def CheckAndConvertArg_literal
        CheckAndConvertOptArg_literal noneK)
  note a = attaching_twice_changes_nothing [where D = localVariable and L = syclDevice
      and CI = "written AT_SYCLIntelBankWidth 2" and CI' = "written AT_SYCLIntelBankWidth 3"
      and v = 8, THEN conjunct1, rule_format]
  note b = attaching_twice_changes_nothing [where D = kernelFunction and L = syclDevice
      and CI = "written AT_SYCLReqdWorkGroupSize 2" and CI' = "written AT_SYCLReqdWorkGroupSize 3"
      and vx = 2 and vy = "Some 2" and vz = "Some 2",
      THEN conjunct2, THEN conjunct2, THEN conjunct2, THEN conjunct1, rule_format]
  show ?thesis using a b q1 q2 noneV noneK by blast
qed

text \<open>
  Claim C5 as stated fails for \<^verbatim>\<open>bank_bits\<close>: written twice with the same literals,
  the second one is warned about and attached, so that the declaration carries two.
\<close>

theorem bank_bits_twice_counterexample:
  "handleSYCLIntelBankBitsAttr syclDevice localVariable (written AT_SYCLIntelBankBits 1)
     [IntegerLiteral 0, IntegerLiteral 1] = (localVariableWithBankBits, []) \<and>
   snd (handleSYCLIntelBankBitsAttr syclDevice localVariableWithBankBits
          (written AT_SYCLIntelBankBits 2) [IntegerLiteral 0, IntegerLiteral 1]) =
     [Diag warn_duplicate_attribute_exact (AttrLoc 2) [Name AT_SYCLIntelBankBits]] \<and>
   length (attrsOfKind AT_SYCLIntelBankBits
     (fst (handleSYCLIntelBankBitsAttr syclDevice localVariableWithBankBits
             (written AT_SYCLIntelBankBits 2) [IntegerLiteral 0, IntegerLiteral 1]))) = 2"
  by code_simp

end
